(* ===== verification/Prelude.thy ===== *)
theory Prelude
  imports Main "HOL-Library.AList"
begin

text \<open>
  Shared infrastructure of the development: the named collections the component
  theories add their evaluation rules to, and generic facts on association lists,
  which model the property tables of JavaScript objects (a property write keeps the
  position of an existing key and appends a new one, as \<^const>\<open>AList.update\<close> does).
\<close>

named_theorems js_simps "evaluation rules of the JavaScript value helpers"
named_theorems store_simps "unfolding rules of the session store operations"
named_theorems ui_simps "unfolding rules of the page and widget handlers"

subsection \<open>Definitions\<close>

text \<open>
  \<open>assign_all acc ps\<close> writes the properties \<open>ps\<close> one after the other into \<open>acc\<close>:
  \<open>Object.assign\<close> and object spread do exactly this.
\<close>

definition assign_all :: "('k \<times> 'v) list \<Rightarrow> ('k \<times> 'v) list \<Rightarrow> ('k \<times> 'v) list" where
  "assign_all acc ps = foldl (\<lambda>a (k, v). AList.update k v a) acc ps"

text \<open>\<open>xs.join(sep)\<close>: the strings of \<open>xs\<close> with \<open>sep\<close> between neighbours.\<close>

fun join_with :: "string \<Rightarrow> string list \<Rightarrow> string" where
  "join_with sep [] = []"
| "join_with sep [x] = x"
| "join_with sep (x # y # zs) = x @ sep @ join_with sep (y # zs)"

text \<open>\<open>s.split(sep)\<close> for a one-character separator: the pieces between separators,
  empty pieces included.\<close>

fun split_on :: "char \<Rightarrow> string \<Rightarrow> string list" where
  "split_on sep [] = [[]]"
| "split_on sep (c # cs) =
     (if c = sep then [] # split_on sep cs
      else (case split_on sep cs of w # ws \<Rightarrow> (c # w) # ws | [] \<Rightarrow> [[c]]))"

text \<open>
  \<open>String(n)\<close> for a non-negative integer: the decimal digits, most significant first.
  Used for template literals and for the index keys of spread arrays and strings.
\<close>

fun nat_to_string :: "nat \<Rightarrow> string" where
  "nat_to_string n =
     (if n < 10 then [''0123456789'' ! n]
      else nat_to_string (n div 10) @ [''0123456789'' ! (n mod 10)])"

declare nat_to_string.simps [simp del]

subsection \<open>Folding property writes\<close>

text \<open>The ASCII letters and digits, the character classes of the patterns and case
  mappings of the pages.\<close>

definition ascii_upper :: string where "ascii_upper = ''ABCDEFGHIJKLMNOPQRSTUVWXYZ''"
definition ascii_lower :: string where "ascii_lower = ''abcdefghijklmnopqrstuvwxyz''"
definition ascii_digits :: string where "ascii_digits = ''0123456789''"

lemma assign_all_Nil [simp]: "assign_all acc [] = acc"
  by (simp add: assign_all_def)

lemma assign_all_Cons [simp]:
  "assign_all acc ((k, v) # ps) = assign_all (AList.update k v acc) ps"
  by (simp add: assign_all_def)

text \<open>The later write wins: the lookup of the result is the lookup of \<open>acc\<close>
  overridden by the writes, the last write of a key first.\<close>

lemma map_of_assign_all:
  "map_of (assign_all acc ps) = map_of acc ++ map_of (rev ps)"
proof (induction ps arbitrary: acc)
  case Nil
  then show ?case by simp
next
  case (Cons p ps)
  obtain k v where p: "p = (k, v)" by (cases p)
  have "map_of (assign_all acc (p # ps)) = map_of (assign_all (AList.update k v acc) ps)"
    by (simp add: p)
  also have "\<dots> = map_of (AList.update k v acc) ++ map_of (rev ps)"
    by (rule Cons.IH)
  also have "\<dots> = (map_of acc)(k \<mapsto> v) ++ map_of (rev ps)"
    by (simp only: AList.update_conv')
  also have "\<dots> = map_of acc ++ map_of (rev (p # ps))"
    by (simp add: p map_of_append map_add_assoc [symmetric])
  finally show ?case .
qed

lemma distinct_assign_all:
  "distinct (map fst acc) \<Longrightarrow> distinct (map fst (assign_all acc ps))"
proof (induction ps arbitrary: acc)
  case Nil
  then show ?case by simp
next
  case (Cons p ps)
  then show ?case
    by (cases p) (simp add: AList.distinct_update)
qed

lemma fst_set_assign_all:
  "fst ` set (assign_all acc ps) = fst ` set acc \<union> fst ` set ps"
proof (induction ps arbitrary: acc)
  case Nil
  then show ?case by simp
next
  case (Cons p ps)
  then show ?case
    by (cases p) (auto simp: AList.dom_update)
qed

lemma map_of_rev_distinct:
  "distinct (map fst xs) \<Longrightarrow> map_of (rev xs) = map_of xs"
proof (induction xs)
  case Nil
  then show ?case by simp
next
  case (Cons x xs)
  then have "fst x \<notin> dom (map_of xs)"
    by (simp add: dom_map_of_conv_image_fst)
  with Cons show ?case
    by (cases x) (auto simp: map_add_def fun_eq_iff split: option.split)
qed

subsection \<open>Decimal rendering\<close>

lemma nat_to_string_nonempty: "nat_to_string n \<noteq> []"
  by (subst nat_to_string.simps) simp

lemma nat_to_string_digits: "set (nat_to_string n) \<subseteq> set ''0123456789''"
proof (induction n rule: nat_to_string.induct)
  case (1 n)
  have dig: "\<And>d. d < 10 \<Longrightarrow> ''0123456789'' ! d \<in> set ''0123456789''"
    by (rule nth_mem) simp
  show ?case
  proof (cases "n < 10")
    case True
    then show ?thesis using dig by (subst nat_to_string.simps) simp
  next
    case False
    with "1.IH" show ?thesis using dig [of "n mod 10"]
      by (subst nat_to_string.simps) simp
  qed
qed

lemma ascii_tables:
  "length ascii_upper = length ascii_lower" "distinct ascii_upper" "distinct ascii_lower"
  "set ascii_upper \<inter> set ascii_lower = {}"
  by (simp_all add: ascii_upper_def ascii_lower_def)

end
