(* ===== verification/JsValue.thy ===== *)
theory JsValue
  imports Prelude "HOL-Library.Sublist"
begin

text \<open>
  The JavaScript values the session store handles: server payloads (\<open>response.data\<close>),
  the user profile, the bearer token and the error message are all untyped JS values,
  so the model keeps them as one datatype and writes out the language rules the code
  relies on: truthiness (\<open>if (token)\<close>, \<open>a || b\<close>), property reads with and without
  optional chaining (\<open>a?.b\<close> never throws, \<open>const {b} = a\<close> throws a TypeError on
  \<open>null\<close> and \<open>undefined\<close>), object spread (\<open>{...a, ...b}\<close>) and the string
  conversion of template literals. The string methods the pages call
  (\<open>toLowerCase\<close>, \<open>toUpperCase\<close>, \<open>includes\<close>, \<open>trim\<close>) are written
  out on ASCII text: a character is one UTF-16 code unit of the ASCII range.

  Numbers are integers here: no number the modelled code computes with is fractional
  (the dashboard's confidence score is modelled on its own, as a rational).
  Property reads model named properties (\<open>data\<close>, \<open>detail\<close>, \<open>access_token\<close>,
  \<open>status\<close>): on arrays and strings such keys are absent.
\<close>

datatype jval =
    JUndef
  | JNull
  | JBool bool
  | JNum int
  | JStr string
  | JArr "jval list"
  | JObj "(string \<times> jval) list"

type_synonym props = "(string \<times> jval) list"

subsection \<open>Truthiness and the \<open>||\<close> operator\<close>

fun js_truthy :: "jval \<Rightarrow> bool" where
  "js_truthy JUndef = False"
| "js_truthy JNull = False"
| "js_truthy (JBool b) = b"
| "js_truthy (JNum n) = (n \<noteq> 0)"
| "js_truthy (JStr s) = (s \<noteq> [])"
| "js_truthy (JArr xs) = True"
| "js_truthy (JObj ps) = True"

definition js_or :: "jval \<Rightarrow> jval \<Rightarrow> jval" where
  "js_or a b = (if js_truthy a then a else b)"

definition js_nullish :: "jval \<Rightarrow> bool" where
  "js_nullish v \<longleftrightarrow> v = JUndef \<or> v = JNull"

subsection \<open>Property reads\<close>

fun js_get :: "jval \<Rightarrow> string \<Rightarrow> jval" where
  "js_get (JObj ps) k = (case map_of ps k of Some v \<Rightarrow> v | None \<Rightarrow> JUndef)"
| "js_get v k = JUndef"

text \<open>\<open>v?.k\<close>: a nullish base gives \<open>undefined\<close> instead of throwing.\<close>

definition js_opt_get :: "jval \<Rightarrow> string \<Rightarrow> jval" where
  "js_opt_get v k = (if js_nullish v then JUndef else js_get v k)"

text \<open>\<open>v.k\<close> and \<open>const {k} = v\<close>: \<open>None\<close> is the TypeError a nullish base raises.\<close>

definition js_read :: "jval \<Rightarrow> string \<Rightarrow> jval option" where
  "js_read v k = (if js_nullish v then None else Some (js_get v k))"

subsection \<open>Object spread\<close>

text \<open>
  The own enumerable properties that a spread copies: an object's properties, the
  indexed elements of an array or the characters of a string; none for \<open>null\<close>,
  \<open>undefined\<close>, booleans and numbers.
\<close>

fun js_own_props :: "jval \<Rightarrow> props" where
  "js_own_props (JObj ps) = ps"
| "js_own_props (JArr xs) = zip (map nat_to_string [0..<length xs]) xs"
| "js_own_props (JStr s) = zip (map nat_to_string [0..<length s]) (map (\<lambda>c. JStr [c]) s)"
| "js_own_props v = []"

text \<open>\<open>{...a, ...b}\<close>\<close>

definition js_spread2 :: "jval \<Rightarrow> jval \<Rightarrow> jval" where
  "js_spread2 a b = JObj (assign_all (assign_all [] (js_own_props a)) (js_own_props b))"

subsection \<open>String conversion (template literals)\<close>

definition int_to_string :: "int \<Rightarrow> string" where
  "int_to_string i =
     (if i < 0 then CHR ''-'' # nat_to_string (nat (- i)) else nat_to_string (nat i))"

fun js_to_string :: "jval \<Rightarrow> string" where
  "js_to_string JUndef = ''undefined''"
| "js_to_string JNull = ''null''"
| "js_to_string (JBool b) = (if b then ''true'' else ''false'')"
| "js_to_string (JNum n) = int_to_string n"
| "js_to_string (JStr s) = s"
| "js_to_string (JArr xs) =
     join_with '','' (map (\<lambda>x. if x = JUndef \<or> x = JNull then [] else js_to_string x) xs)"
| "js_to_string (JObj ps) = ''[object Object]''"

text \<open>A value as a JSX child renders as text: \<open>undefined\<close>, \<open>null\<close> and booleans
  render nothing, every other value its string conversion.\<close>

fun jsx_text :: "jval \<Rightarrow> string" where
  "jsx_text JUndef = []"
| "jsx_text JNull = []"
| "jsx_text (JBool b) = []"
| "jsx_text v = js_to_string v"

subsection \<open>String functions (ASCII)\<close>


definition lower_char :: "char \<Rightarrow> char" where
  "lower_char c = (case map_of (zip ascii_upper ascii_lower) c of Some l \<Rightarrow> l | None \<Rightarrow> c)"

definition upper_char :: "char \<Rightarrow> char" where
  "upper_char c = (case map_of (zip ascii_lower ascii_upper) c of Some u \<Rightarrow> u | None \<Rightarrow> c)"

text \<open>\<open>String.prototype.toLowerCase\<close> and \<open>toUpperCase\<close> on ASCII.\<close>

definition toLowerCase :: "string \<Rightarrow> string" where
  "toLowerCase s = map lower_char s"

definition toUpperCase :: "string \<Rightarrow> string" where
  "toUpperCase s = map upper_char s"

text \<open>\<open>String.prototype.includes\<close>: the needle occurs at some position of the string.\<close>

fun starts_with :: "string \<Rightarrow> string \<Rightarrow> bool" where
  "starts_with s [] = True"
| "starts_with [] (c # cs) = False"
| "starts_with (d # ds) (c # cs) = (d = c \<and> starts_with ds cs)"

fun str_includes :: "string \<Rightarrow> string \<Rightarrow> bool" where
  "str_includes [] needle = starts_with [] needle"
| "str_includes (c # cs) needle = (starts_with (c # cs) needle \<or> str_includes cs needle)"

text \<open>The white space \<open>String.prototype.trim\<close> removes, restricted to ASCII: space, tab,
  line feed, vertical tab, form feed, carriage return.\<close>

definition js_space :: "char \<Rightarrow> bool" where
  "js_space c \<longleftrightarrow> c \<in> set [CHR '' '', CHR 0x09, CHR 0x0A, CHR 0x0B, CHR 0x0C, CHR 0x0D]"

definition trim :: "string \<Rightarrow> string" where
  "trim s = rev (dropWhile js_space (rev (dropWhile js_space s)))"

subsection \<open>Facts on the helpers\<close>

declare js_or_def [js_simps] js_opt_get_def [js_simps] js_read_def [js_simps]
  js_nullish_def [js_simps]

text \<open>A read of a spread object finds the right operand's property first, then the
  left one's; among the properties of one operand the last write of a key wins.\<close>

lemma js_get_spread2:
  "js_get (js_spread2 a b) k =
     (case map_of (rev (js_own_props b)) k of
        Some v \<Rightarrow> v
      | None \<Rightarrow> (case map_of (rev (js_own_props a)) k of Some v \<Rightarrow> v | None \<Rightarrow> JUndef))"
  by (simp add: js_spread2_def map_of_assign_all map_add_def split: option.split)

text \<open>A spread always builds an object, with no key twice.\<close>

lemma js_spread2_distinct:
  "\<exists>ps. js_spread2 a b = JObj ps \<and> distinct (map fst ps)"
  by (simp add: js_spread2_def distinct_assign_all)

lemma js_truthy_nullish: "js_nullish v \<Longrightarrow> \<not> js_truthy v"
  by (auto simp: js_nullish_def)

lemma js_read_Some_iff: "js_read v k = Some x \<longleftrightarrow> \<not> js_nullish v \<and> x = js_get v k"
  by (auto simp: js_read_def)

text \<open>Facts on the string functions.\<close>

lemma starts_with_prefix: "starts_with s n \<longleftrightarrow> prefix n s"
  by (induction s n rule: starts_with.induct) auto

lemma str_includes_sublist: "str_includes s n \<longleftrightarrow> sublist n s"
  by (induction s) (auto simp: starts_with_prefix sublist_Cons_right)

lemma lower_char_lower: "c \<in> set ascii_lower \<Longrightarrow> lower_char c = c"
proof -
  assume "c \<in> set ascii_lower"
  then have "c \<notin> set ascii_upper" using ascii_tables(4) by blast
  then have "map_of (zip ascii_upper ascii_lower) c = None"
    using ascii_tables(1) by (simp add: map_of_zip_is_None)
  then show ?thesis by (simp add: lower_char_def)
qed

lemma lower_upper_char: "lower_char (upper_char c) = lower_char c"
proof (cases "c \<in> set ascii_lower")
  case True
  then obtain i where i: "i < length ascii_lower" "c = ascii_lower ! i" by (auto simp: in_set_conv_nth)
  have "upper_char c = ascii_upper ! i"
    using i ascii_tables by (simp add: upper_char_def map_of_zip_nth)
  moreover have "lower_char (ascii_upper ! i) = ascii_lower ! i"
    using i ascii_tables by (simp add: lower_char_def map_of_zip_nth)
  ultimately show ?thesis using i True by (simp add: lower_char_lower)
next
  case False
  then have "map_of (zip ascii_lower ascii_upper) c = None"
    using ascii_tables(1) by (simp add: map_of_zip_is_None)
  then show ?thesis by (simp add: upper_char_def)
qed

lemma last_dropWhile: "dropWhile P xs \<noteq> [] \<Longrightarrow> last (dropWhile P xs) = last xs"
  by (induction xs) auto

lemma trim_strips:
  assumes "trim s \<noteq> []"
  shows "\<not> js_space (hd (trim s)) \<and> \<not> js_space (last (trim s))"
proof -
  let ?X = "dropWhile js_space s"
  let ?L = "dropWhile js_space (rev ?X)"
  have L: "?L \<noteq> []" using assms by (simp add: trim_def)
  have X: "?X \<noteq> []"
  proof
    assume "?X = []"
    with L show False by simp
  qed
  have "last (trim s) = hd ?L" using L by (simp add: trim_def last_rev)
  moreover have "\<not> js_space (hd ?L)" using L by (rule hd_dropWhile)
  moreover have "hd (trim s) = last ?L" using L by (simp add: trim_def hd_rev)
  moreover have "last ?L = hd ?X" using L X by (simp add: last_dropWhile last_rev)
  moreover have "\<not> js_space (hd ?X)" using X by (rule hd_dropWhile)
  ultimately show ?thesis by simp
qed

end
