(* ===== verification/Transport.thy ===== *)
theory Transport
  imports JsValue
begin

text \<open>
  The HTTP transport: the shared axios instance \<open>api\<close> of \<open>services/api.js\<close> (not among
  the sources, so modelled from the spec, section 4.3 and 6). Its one piece of state is
  the default credential slot \<open>api.defaults.headers.common['Authorization']\<close>, kept in
  the session world of \<open>AuthStore\<close> as a \<open>string option\<close>. A request is a value of
  \<open>request\<close>; the identity service is a function from requests to outcomes, and a
  failed request is an exception value of \<open>exn\<close>, whose \<open>error.response\<close> is
  what the store's \<open>catch\<close> blocks inspect.
\<close>

text \<open>The three endpoints the store calls, with what each request carries:
  the login form's \<open>username\<close>/\<open>password\<close>, the \<open>Authorization\<close> header of
  \<open>/me\<close> (\<open>None\<close>: no header), the signup payload.\<close>

datatype request =
    PostLogin string string
  | GetMe "string option"
  | PostSignup jval

text \<open>What an \<open>await\<close> can throw: an HTTP error status with the response body, a
  network failure or timeout (no \<open>error.response\<close>), or a TypeError raised by the code
  itself inside the \<open>try\<close> block.\<close>

datatype exn =
    HttpError int jval
  | NetworkError
  | TypeError

type_synonym response = "exn + jval"
type_synonym server = "request \<Rightarrow> response"

text \<open>\<open>error.response\<close>: axios attaches \<open>{data, status}\<close> to an HTTP error only.\<close>

fun exn_response :: "exn \<Rightarrow> jval" where
  "exn_response (HttpError status body) = JObj [(''data'', body), (''status'', JNum status)]"
| "exn_response NetworkError = JUndef"
| "exn_response TypeError = JUndef"

text \<open>\<open>error.response?.data?.detail\<close>, the expression both catch blocks of the store read.\<close>

definition exn_detail :: "exn \<Rightarrow> jval" where
  "exn_detail e = js_opt_get (js_opt_get (exn_response e) ''data'') ''detail''"

text \<open>\<open>`Bearer ${t}`\<close>\<close>

definition bearer :: "jval \<Rightarrow> string" where
  "bearer t = ''Bearer '' @ js_to_string t"

lemma exn_detail_HttpError [js_simps]: "exn_detail (HttpError st body) = js_opt_get body ''detail''"
  by (simp add: exn_detail_def js_opt_get_def js_nullish_def)

lemma exn_detail_no_response [js_simps]:
  "exn_detail NetworkError = JUndef" "exn_detail TypeError = JUndef"
  by (simp_all add: exn_detail_def js_opt_get_def js_nullish_def)

lemma bearer_JStr [simp]: "bearer (JStr s) = ''Bearer '' @ s"
  by (simp add: bearer_def)

end
