(* ===== verification/AuthStore.thy ===== *)
theory AuthStore
  imports Transport
begin

text \<open>
  The session store of \<open>src/frontend/src/store/authStore.js\<close>: a zustand store
  wrapped in the \<open>persist\<close> middleware. Its state is the record \<open>auth_state\<close>
  (lines 8--12); the world an action runs in adds the transport's default credential
  (\<open>api.defaults.headers.common['Authorization']\<close>), the persisted entry
  \<open>auth-storage\<close> of localStorage and the log of requests sent.

  Every \<open>set(...)\<close> of the source is \<open>zset\<close>: a shallow merge into the state,
  followed by the persist middleware writing \<open>partialize\<close> of the new state.
  The asynchronous actions are cut at their \<open>await\<close>s into segments (\<open>_start\<close>,
  \<open>_resume\<close>, ...) that run atomically; the sequential action (\<open>login\<close>,
  \<open>signup\<close>, \<open>initializeAuth\<close>) composes them with the answers of a server
  function, which is the run in which no other action interleaves. Interleaved runs are
  the subject of \<open>AuthConcurrency\<close>.
\<close>

subsection \<open>State, persistence and the world\<close>

record auth_state =
  user :: jval
  token :: jval
  isAuthenticated :: bool
  isLoading :: bool
  error :: jval

text \<open>The projection the \<open>partialize\<close> option selects (lines 134--138).\<close>

record persisted =
  p_token :: jval
  p_user :: jval
  p_isAuthenticated :: bool

record world =
  st :: auth_state
  api_auth :: "string option"
  storage :: "persisted option"
  sent :: "request list"

definition initial_state :: auth_state where
  "initial_state =
     \<lparr>user = JNull, token = JNull, isAuthenticated = False, isLoading = False, error = JNull\<rparr>"

definition partialize :: "auth_state \<Rightarrow> persisted" where
  "partialize s =
     \<lparr>p_token = token s, p_user = user s, p_isAuthenticated = isAuthenticated s\<rparr>"

text \<open>Rehydration: the persisted fields merged over the initial state, so that
  \<open>isLoading\<close> and \<open>error\<close> always start from their initial values.\<close>

definition hydrate :: "persisted option \<Rightarrow> auth_state" where
  "hydrate p =
     (case p of
        None \<Rightarrow> initial_state
      | Some q \<Rightarrow> initial_state\<lparr>token := p_token q, user := p_user q,
                                 isAuthenticated := p_isAuthenticated q\<rparr>)"

text \<open>A fresh page load: the store hydrated from storage, no credential installed on
  the transport (the default header is not persisted), nothing sent yet.\<close>

definition boot :: "persisted option \<Rightarrow> world" where
  "boot p = \<lparr>st = hydrate p, api_auth = None, storage = p, sent = []\<rparr>"

text \<open>\<open>set(partial)\<close> under the persist middleware.\<close>

definition zset :: "(auth_state \<Rightarrow> auth_state) \<Rightarrow> world \<Rightarrow> world" where
  "zset f w = (let s = f (st w) in w\<lparr>st := s, storage := Some (partialize s)\<rparr>)"

definition send :: "request \<Rightarrow> world \<Rightarrow> world" where
  "send r w = w\<lparr>sent := sent w @ [r]\<rparr>"

subsection \<open>login (lines 15--60)\<close>

datatype login_result = LoginOk | LoginFail jval

text \<open>Before the first \<open>await\<close>: \<open>set({isLoading: true, error: null})\<close> and the
  POST of the form.\<close>

definition login_start :: "string \<Rightarrow> string \<Rightarrow> world \<Rightarrow> world" where
  "login_start email password w =
     send (PostLogin email password) (zset (\<lambda>s. s\<lparr>isLoading := True, error := JNull\<rparr>) w)"

text \<open>Between the two \<open>await\<close>s: \<open>const {access_token} = response.data\<close> (a
  TypeError on a nullish body) and the GET of \<open>/me\<close> with the explicit header.\<close>

definition login_on_token :: "jval \<Rightarrow> world \<Rightarrow> exn + jval \<times> world" where
  "login_on_token data w =
     (case js_read data ''access_token'' of
        None \<Rightarrow> Inl TypeError
      | Some tok \<Rightarrow> Inr (tok, send (GetMe (Some (bearer tok))) w))"

text \<open>After the second \<open>await\<close>: the one \<open>set\<close> of the success path, then the
  default header.\<close>

definition login_commit :: "jval \<Rightarrow> jval \<Rightarrow> world \<Rightarrow> login_result \<times> world" where
  "login_commit tok udata w =
     (LoginOk,
      (zset (\<lambda>s. s\<lparr>user := udata, token := tok, isAuthenticated := True,
                   isLoading := False, error := JNull\<rparr>) w)\<lparr>api_auth := Some (bearer tok)\<rparr>)"

text \<open>The \<open>catch\<close> block, shared by a failure at either request.\<close>

definition login_catch :: "exn \<Rightarrow> world \<Rightarrow> login_result \<times> world" where
  "login_catch e w =
     (let msg = js_or (exn_detail e) (JStr ''Login failed'')
      in (LoginFail msg,
          zset (\<lambda>s. s\<lparr>user := JNull, token := JNull, isAuthenticated := False,
                       isLoading := False, error := msg\<rparr>) w))"

definition login :: "server \<Rightarrow> string \<Rightarrow> string \<Rightarrow> world \<Rightarrow> login_result \<times> world" where
  "login srv email password w =
     (let w1 = login_start email password w in
      case srv (PostLogin email password) of
        Inl e \<Rightarrow> login_catch e w1
      | Inr data \<Rightarrow>
          (case login_on_token data w1 of
             Inl e \<Rightarrow> login_catch e w1
           | Inr (tok, w2) \<Rightarrow>
               (case srv (GetMe (Some (bearer tok))) of
                  Inl e \<Rightarrow> login_catch e w2
                | Inr udata \<Rightarrow> login_commit tok udata w2)))"

subsection \<open>signup (lines 62--81)\<close>

datatype signup_result = SignupOk jval | SignupFail jval

definition signup_start :: "jval \<Rightarrow> world \<Rightarrow> world" where
  "signup_start userData w =
     send (PostSignup userData) (zset (\<lambda>s. s\<lparr>isLoading := True, error := JNull\<rparr>) w)"

definition signup_resume :: "response \<Rightarrow> world \<Rightarrow> signup_result \<times> world" where
  "signup_resume r w =
     (case r of
        Inr data \<Rightarrow> (SignupOk data, zset (\<lambda>s. s\<lparr>isLoading := False, error := JNull\<rparr>) w)
      | Inl e \<Rightarrow>
          (let msg = js_or (exn_detail e) (JStr ''Signup failed'')
           in (SignupFail msg, zset (\<lambda>s. s\<lparr>isLoading := False, error := msg\<rparr>) w)))"

definition signup :: "server \<Rightarrow> jval \<Rightarrow> world \<Rightarrow> signup_result \<times> world" where
  "signup srv userData w = signup_resume (srv (PostSignup userData)) (signup_start userData w)"

subsection \<open>The synchronous actions (lines 83--107)\<close>

definition logout :: "world \<Rightarrow> world" where
  "logout w =
     (zset (\<lambda>s. s\<lparr>user := JNull, token := JNull, isAuthenticated := False, error := JNull\<rparr>) w)
       \<lparr>api_auth := None\<rparr>"

definition updateUser :: "jval \<Rightarrow> world \<Rightarrow> world" where
  "updateUser userData w = zset (\<lambda>s. s\<lparr>user := js_spread2 (user s) userData\<rparr>) w"

definition setError :: "jval \<Rightarrow> world \<Rightarrow> world" where
  "setError e w = zset (\<lambda>s. s\<lparr>error := e\<rparr>) w"

definition clearError :: "world \<Rightarrow> world" where
  "clearError w = zset (\<lambda>s. s\<lparr>error := JNull\<rparr>) w"

subsection \<open>initializeAuth (lines 110--130)\<close>

text \<open>Up to the \<open>await\<close>: with a truthy stored token, \<open>set({isLoading: true})\<close>,
  install the token as default header and GET \<open>/me\<close> with it (the result's flag says a
  request is in flight); otherwise \<open>set({isLoading: false})\<close> and nothing is sent.\<close>

definition initializeAuth_start :: "world \<Rightarrow> world \<times> bool" where
  "initializeAuth_start w =
     (let t = token (st w) in
      if js_truthy t then
        (let w1 = (zset (\<lambda>s. s\<lparr>isLoading := True\<rparr>) w)\<lparr>api_auth := Some (bearer t)\<rparr>
         in (send (GetMe (api_auth w1)) w1, True))
      else (zset (\<lambda>s. s\<lparr>isLoading := False\<rparr>) w, False))"

text \<open>After the \<open>await\<close>: commit the profile, or \<open>get().logout()\<close> and clear the
  loading flag.\<close>

definition initializeAuth_resume :: "response \<Rightarrow> world \<Rightarrow> world" where
  "initializeAuth_resume r w =
     (case r of
        Inr data \<Rightarrow>
          zset (\<lambda>s. s\<lparr>user := data, isAuthenticated := True, isLoading := False\<rparr>) w
      | Inl e \<Rightarrow> zset (\<lambda>s. s\<lparr>isLoading := False\<rparr>) (logout w))"

definition initializeAuth :: "server \<Rightarrow> world \<Rightarrow> world" where
  "initializeAuth srv w =
     (case initializeAuth_start w of
        (w1, True) \<Rightarrow> initializeAuth_resume (srv (GetMe (api_auth w1))) w1
      | (w1, False) \<Rightarrow> w1)"

subsection \<open>The servers of the spec's scenarios (section 8)\<close>

text \<open>Scenario A: login returns \<open>{access_token: "tok1"}\<close> and \<open>/me\<close> accepts that
  token with \<open>{username: "a"}\<close>. Scenario B: login answers 401
  \<open>{detail: "Incorrect credentials"}\<close>. Scenario C: \<open>/me\<close> answers 401 to every
  token. A FastAPI validation failure answers 422 with a list as \<open>detail\<close>.\<close>

definition server_A :: server where
  "server_A r =
     (case r of
        PostLogin u p \<Rightarrow> Inr (JObj [(''access_token'', JStr ''tok1'')])
      | GetMe h \<Rightarrow>
          (if h = Some ''Bearer tok1'' then Inr (JObj [(''username'', JStr ''a'')])
           else Inl (HttpError 401 (JObj [(''detail'', JStr ''Could not validate credentials'')])))
      | PostSignup d \<Rightarrow> Inr d)"

definition server_B :: server where
  "server_B r = Inl (HttpError 401 (JObj [(''detail'', JStr ''Incorrect credentials'')]))"

definition server_C :: server where
  "server_C r =
     (case r of
        GetMe h \<Rightarrow> Inl (HttpError 401 (JObj [(''detail'', JStr ''Could not validate credentials'')]))
      | _ \<Rightarrow> Inl NetworkError)"

definition server_422 :: server where
  "server_422 r =
     Inl (HttpError 422 (JObj [(''detail'',
        JArr [JObj [(''loc'', JArr [JStr ''body'', JStr ''username'']),
                    (''msg'', JStr ''field required'')]])]))"

text \<open>A world in which a session is established and its credential installed.\<close>

definition logged_in_world :: world where
  "logged_in_world = snd (login server_A ''a@b.com'' ''secret123'' (boot None))"

subsection \<open>Frame rules of the store primitives\<close>

declare login_start_def [store_simps] login_on_token_def [store_simps]
  login_commit_def [store_simps] login_catch_def [store_simps]
  signup_start_def [store_simps] signup_resume_def [store_simps]
  logout_def [store_simps] updateUser_def [store_simps] setError_def [store_simps]
  clearError_def [store_simps] initializeAuth_start_def [store_simps]
  initializeAuth_resume_def [store_simps]

lemma zset_fields [simp]:
  "st (zset f w) = f (st w)"
  "storage (zset f w) = Some (partialize (f (st w)))"
  "api_auth (zset f w) = api_auth w"
  "sent (zset f w) = sent w"
  by (simp_all add: zset_def Let_def)

lemma send_fields [simp]:
  "st (send r w) = st w"
  "storage (send r w) = storage w"
  "api_auth (send r w) = api_auth w"
  "sent (send r w) = sent w @ [r]"
  by (simp_all add: send_def)

lemma partialize_transient [simp]:
  "partialize (s\<lparr>isLoading := b\<rparr>) = partialize s"
  "partialize (s\<lparr>error := e\<rparr>) = partialize s"
  by (simp_all add: partialize_def)

text \<open>Between the two \<open>await\<close>s of \<open>login\<close> only a request is sent: the state,
  the credential slot and the storage are those after \<open>login_start\<close>.\<close>

lemma login_on_token_frame:
  assumes "login_on_token data w = Inr (tok, w')"
  shows "st w' = st w \<and> api_auth w' = api_auth w \<and> storage w' = storage w"
  using assms by (auto simp: login_on_token_def split: option.splits)

text \<open>The ways a \<open>login\<close> ends: a failure of the POST, a TypeError on the body or a
  failure of \<open>/me\<close>, each handled by the one catch block, or the commit.\<close>

lemma login_cases:
  obtains (fail) e w' where "login srv email password w = login_catch e w'"
      and "st w' = (st w)\<lparr>isLoading := True, error := JNull\<rparr>" and "api_auth w' = api_auth w"
  | (ok) tok u w' where "login srv email password w = login_commit tok u w'"
      and "st w' = (st w)\<lparr>isLoading := True, error := JNull\<rparr>" and "api_auth w' = api_auth w"
proof (cases "srv (PostLogin email password)")
  case (Inl e)
  then show ?thesis using fail [of e "login_start email password w"]
    by (simp add: login_def login_start_def)
next
  case (Inr data)
  note post = this
  show ?thesis
  proof (cases "login_on_token data (login_start email password w)")
    case (Inl e)
    with post show ?thesis using fail [of e "login_start email password w"]
      by (simp add: login_def login_start_def)
  next
    case (Inr r)
    obtain tok w2 where r: "r = (tok, w2)" by (cases r)
    with Inr have fr: "st w2 = st (login_start email password w)
        \<and> api_auth w2 = api_auth (login_start email password w)"
      by (auto dest: login_on_token_frame)
    show ?thesis
    proof (cases "srv (GetMe (Some (bearer tok)))")
      case (Inl e)
      with post Inr r fr show ?thesis using fail [of e w2]
        by (simp add: login_def login_start_def)
    next
      case (Inr u)
      with post \<open>login_on_token data (login_start email password w) = Inr r\<close> r fr
      show ?thesis using ok [of tok u w2]
        by (simp add: login_def login_start_def)
    qed
  qed
qed

subsection \<open>How each action ends\<close>

text \<open>The outcome of a sequential login, in the shape the claims below use: the
  state is persisted, loading is over, and either the failure state with a truthy
  message and the credential slot untouched, or a session with its credential.\<close>

lemma login_outcome:
  "storage (snd (login srv email password w)) = Some (partialize (st (snd (login srv email password w))))
   \<and> \<not> isLoading (st (snd (login srv email password w)))
   \<and> (case fst (login srv email password w) of
        LoginFail msg \<Rightarrow>
          st (snd (login srv email password w)) =
            (st w)\<lparr>user := JNull, token := JNull, isAuthenticated := False,
                   isLoading := False, error := msg\<rparr>
          \<and> api_auth (snd (login srv email password w)) = api_auth w \<and> js_truthy msg
      | LoginOk \<Rightarrow>
          (\<exists>tok u. st (snd (login srv email password w)) =
              (st w)\<lparr>user := u, token := tok, isAuthenticated := True,
                     isLoading := False, error := JNull\<rparr>
            \<and> api_auth (snd (login srv email password w)) = Some (bearer tok)))"
proof (cases rule: login_cases [of srv email password w])
  case (fail e w')
  then show ?thesis by (auto simp: login_catch_def Let_def js_or_def)
next
  case (ok tok u w')
  then show ?thesis by (auto simp: login_commit_def)
qed

lemma signup_outcome:
  "storage (snd (signup srv userData w)) = Some (partialize (st (snd (signup srv userData w))))
   \<and> api_auth (snd (signup srv userData w)) = api_auth w
   \<and> sent (snd (signup srv userData w)) = sent w @ [PostSignup userData]
   \<and> (case fst (signup srv userData w) of
        SignupOk d \<Rightarrow> srv (PostSignup userData) = Inr d
          \<and> st (snd (signup srv userData w)) = (st w)\<lparr>isLoading := False, error := JNull\<rparr>
      | SignupFail msg \<Rightarrow> js_truthy msg
          \<and> st (snd (signup srv userData w)) = (st w)\<lparr>isLoading := False, error := msg\<rparr>)"
  by (cases "srv (PostSignup userData)")
     (auto simp: signup_def store_simps Let_def js_or_def)

lemma initializeAuth_outcome:
  "storage (initializeAuth srv w) = Some (partialize (st (initializeAuth srv w)))
   \<and> \<not> isLoading (st (initializeAuth srv w))"
  by (cases "srv (GetMe (Some (bearer (token (st w)))))")
     (simp_all add: initializeAuth_def store_simps Let_def)

subsection \<open>login\<close>

text \<open>C13: A login whose POST returns a body with an \<open>access_token\<close> and whose \<open>/me\<close>,
  called with that token as bearer credential, returns a profile, ends in one commit:
  the profile and the token are stored together, the session is authenticated, loading
  and error are cleared, the credential is installed on the transport, the projection
  is persisted, and exactly the two requests were sent.\<close>

theorem login_success:
  assumes "srv (PostLogin email password) = Inr data"
    and "js_read data ''access_token'' = Some tok"
    and "srv (GetMe (Some (bearer tok))) = Inr u"
  shows "login srv email password w =
    (LoginOk, w\<lparr>st := (st w)\<lparr>user := u, token := tok, isAuthenticated := True,
                                isLoading := False, error := JNull\<rparr>,
               api_auth := Some (bearer tok),
               storage := Some \<lparr>p_token = tok, p_user = u, p_isAuthenticated = True\<rparr>,
               sent := sent w @ [PostLogin email password, GetMe (Some (bearer tok))]\<rparr>)"
  using assms by (simp add: login_def store_simps zset_def send_def partialize_def Let_def)

theorem login_success_scenario_A:
  "login server_A ''a@b.com'' ''secret123'' (boot None) =
    (LoginOk, \<lparr>st = \<lparr>user = JObj [(''username'', JStr ''a'')], token = JStr ''tok1'',
                     isAuthenticated = True, isLoading = False, error = JNull\<rparr>,
               api_auth = Some ''Bearer tok1'',
               storage = Some \<lparr>p_token = JStr ''tok1'', p_user = JObj [(''username'', JStr ''a'')],
                               p_isAuthenticated = True\<rparr>,
               sent = [PostLogin ''a@b.com'' ''secret123'', GetMe (Some ''Bearer tok1'')]\<rparr>)"
proof -
  have tok: "bearer (JStr ''tok1'') = ''Bearer tok1''" by (simp add: bearer_def)
  show ?thesis
    using login_success [of server_A "''a@b.com''" "''secret123''"
        "JObj [(''access_token'', JStr ''tok1'')]" "JStr ''tok1''"
        "JObj [(''username'', JStr ''a'')]" "boot None"]
    by (simp add: tok server_A_def js_read_def js_nullish_def boot_def hydrate_def initial_state_def)
qed

text \<open>A login that fails, at the POST, on the body or at \<open>/me\<close>, ends in the same
  unauthenticated state: user and token cleared, not authenticated, not loading, and
  the returned message stored as the error.\<close>

theorem login_failure:
  assumes "fst (login srv email password w) = LoginFail msg"
  shows "st (snd (login srv email password w)) =
           (st w)\<lparr>user := JNull, token := JNull, isAuthenticated := False,
                  isLoading := False, error := msg\<rparr>"
  using assms login_outcome [of srv email password w] by simp

theorem login_failure_scenario_B:
  "fst (login server_B ''a@b.com'' ''wrong'' logged_in_world) = LoginFail (JStr ''Incorrect credentials'')
   \<and> st (snd (login server_B ''a@b.com'' ''wrong'' logged_in_world)) =
       (st logged_in_world)\<lparr>user := JNull, token := JNull, isAuthenticated := False,
                  isLoading := False, error := JStr ''Incorrect credentials''\<rparr>"
proof -
  have r: "fst (login server_B ''a@b.com'' ''wrong'' logged_in_world) = LoginFail (JStr ''Incorrect credentials'')"
    by (simp add: login_def server_B_def store_simps Let_def js_simps)
  show ?thesis using r login_failure [OF r] by simp
qed

text \<open>C17: A failed login does not touch the transport's credential slot: a credential
  installed by an earlier session stays installed although the store is no longer
  authenticated (the spec, section 4.3, requires it to be removed in the same commit).\<close>

theorem login_failure_keeps_credential:
  assumes "fst (login srv email password w) = LoginFail msg"
  shows "api_auth (snd (login srv email password w)) = api_auth w"
  using assms login_outcome [of srv email password w] by simp

theorem login_failure_keeps_credential_witness:
  "fst (login server_B ''a@b.com'' ''wrong'' logged_in_world) = LoginFail (JStr ''Incorrect credentials'')
   \<and> \<not> isAuthenticated (st (snd (login server_B ''a@b.com'' ''wrong'' logged_in_world)))
   \<and> api_auth (snd (login server_B ''a@b.com'' ''wrong'' logged_in_world)) = Some ''Bearer tok1''"
proof -
  have lw: "api_auth logged_in_world = Some ''Bearer tok1''"
    by (simp add: logged_in_world_def login_def server_A_def store_simps Let_def js_simps bearer_def)
  have r: "fst (login server_B ''a@b.com'' ''wrong'' logged_in_world) = LoginFail (JStr ''Incorrect credentials'')"
    by (simp add: login_def server_B_def store_simps Let_def js_simps)
  show ?thesis
    using r login_failure_keeps_credential [OF r] lw
    by (simp add: login_def server_B_def store_simps Let_def js_simps)
qed

text \<open>C18: A login whose POST fails ends with the message
  \<open>error.response?.data?.detail || 'Login failed'\<close> as its result and as the store's
  error: the server's detail when that is truthy, whatever its type (a 422 answer with
  a list of validation errors stores that list, not a string), the fixed text
  otherwise; no \<open>/me\<close> request is sent.\<close>

theorem login_failure_message:
  assumes "srv (PostLogin email password) = Inl e"
  shows "fst (login srv email password w) = LoginFail (js_or (exn_detail e) (JStr ''Login failed''))
    \<and> error (st (snd (login srv email password w))) = js_or (exn_detail e) (JStr ''Login failed'')
    \<and> sent (snd (login srv email password w)) = sent w @ [PostLogin email password]"
  using assms by (simp add: login_def login_start_def login_catch_def zset_def send_def Let_def)

theorem login_failure_message_422:
  "fst (login server_422 ''a@b.com'' '''' (boot None)) = LoginFail (JArr [JObj [(''loc'', JArr [JStr ''body'', JStr ''username'']), (''msg'', JStr ''field required'')]])
   \<and> error (st (snd (login server_422 ''a@b.com'' '''' (boot None)))) = JArr [JObj [(''loc'', JArr [JStr ''body'', JStr ''username'']), (''msg'', JStr ''field required'')]]"
proof -
  have h: "server_422 (PostLogin ''a@b.com'' '''') = Inl (HttpError 422 (JObj [(''detail'',
        JArr [JObj [(''loc'', JArr [JStr ''body'', JStr ''username'']), (''msg'', JStr ''field required'')]])]))"
    by (simp add: server_422_def)
  show ?thesis using login_failure_message [where srv=server_422 and email="''a@b.com''" and password="[]" and w="boot None", OF h]
    by (simp add: js_simps)
qed

subsection \<open>initializeAuth\<close>

text \<open>A page load whose storage holds the token \<open>tokX\<close> (spec, scenario C).\<close>

lemma boot_tokX_token [simp]:
  "token (st (boot (Some \<lparr>p_token = JStr ''tokX'', p_user = JObj [(''username'', JStr ''x'')],
                          p_isAuthenticated = True\<rparr>))) = JStr ''tokX''"
  by (simp add: boot_def hydrate_def initial_state_def)

text \<open>C15: Without a truthy stored token, restoration makes no request and changes
  nothing but the loading flag, which it clears; in particular it does not set
  \<open>isAuthenticated\<close> to false (the spec, section 4.1 step 2, says it does).\<close>

theorem initializeAuth_no_token:
  assumes "\<not> js_truthy (token (st w))"
  shows "st (initializeAuth srv w) = (st w)\<lparr>isLoading := False\<rparr>
    \<and> sent (initializeAuth srv w) = sent w \<and> api_auth (initializeAuth srv w) = api_auth w"
  using assms by (simp add: initializeAuth_def initializeAuth_start_def)

theorem initializeAuth_no_token_witness:
  "\<not> js_truthy (token (st (boot None)))
   \<and> st (initializeAuth server_A (boot None)) = initial_state \<and> sent (initializeAuth server_A (boot None)) = []"
proof -
  have h: "\<not> js_truthy (token (st (boot None)))"
    by (simp add: boot_def hydrate_def initial_state_def)
  show ?thesis using h initializeAuth_no_token [OF h, of server_A]
    by (simp add: boot_def hydrate_def initial_state_def)
qed

text \<open>With a truthy stored token that \<open>/me\<close> accepts, restoration installs the
  token as the transport's credential, sends one \<open>/me\<close> request carrying it, and
  commits the returned profile as authenticated, leaving the token as it was.\<close>

theorem initializeAuth_accepted:
  assumes "js_truthy (token (st w))"
    and "srv (GetMe (Some (bearer (token (st w))))) = Inr u"
  shows "st (initializeAuth srv w) = (st w)\<lparr>user := u, isAuthenticated := True, isLoading := False\<rparr>
    \<and> api_auth (initializeAuth srv w) = Some (bearer (token (st w)))
    \<and> sent (initializeAuth srv w) = sent w @ [GetMe (Some (bearer (token (st w))))]"
  using assms by (simp add: initializeAuth_def store_simps Let_def)

theorem initializeAuth_accepted_witness:
  "isAuthenticated (st (initializeAuth server_A logged_in_world))
   \<and> user (st (initializeAuth server_A logged_in_world)) = JObj [(''username'', JStr ''a'')]
   \<and> api_auth (initializeAuth server_A logged_in_world) = Some ''Bearer tok1''"
proof -
  have t: "token (st logged_in_world) = JStr ''tok1''"
    by (simp add: logged_in_world_def login_def server_A_def store_simps Let_def js_simps)
  have h1: "js_truthy (token (st logged_in_world))" by (simp add: t)
  have h2: "server_A (GetMe (Some (bearer (token (st logged_in_world))))) = Inr (JObj [(''username'', JStr ''a'')])"
    by (simp add: t bearer_def server_A_def)
  show ?thesis using initializeAuth_accepted [of logged_in_world server_A] h1 h2 by (simp add: t)
qed

text \<open>C14: With a truthy stored token that \<open>/me\<close> rejects (or a network failure),
  restoration performs a full logout: profile, token and error cleared, not
  authenticated, not loading, and the credential removed from the transport.\<close>

theorem initializeAuth_rejected:
  assumes "js_truthy (token (st w))"
    and "srv (GetMe (Some (bearer (token (st w))))) = Inl e"
  shows "st (initializeAuth srv w) =
      (st w)\<lparr>user := JNull, token := JNull, isAuthenticated := False, isLoading := False,
             error := JNull\<rparr>
    \<and> api_auth (initializeAuth srv w) = None
    \<and> sent (initializeAuth srv w) = sent w @ [GetMe (Some (bearer (token (st w))))]"
  using assms by (simp add: initializeAuth_def store_simps Let_def)

theorem initializeAuth_rejected_scenario_C:
  "\<not> isAuthenticated (st (initializeAuth server_C (boot (Some \<lparr>p_token = JStr ''tokX'',
        p_user = JObj [(''username'', JStr ''x'')], p_isAuthenticated = True\<rparr>))))
   \<and> token (st (initializeAuth server_C (boot (Some \<lparr>p_token = JStr ''tokX'',
        p_user = JObj [(''username'', JStr ''x'')], p_isAuthenticated = True\<rparr>)))) = JNull
   \<and> api_auth (initializeAuth server_C (boot (Some \<lparr>p_token = JStr ''tokX'',
        p_user = JObj [(''username'', JStr ''x'')], p_isAuthenticated = True\<rparr>))) = None"
proof -
  let ?w = "boot (Some \<lparr>p_token = JStr ''tokX'', p_user = JObj [(''username'', JStr ''x'')],
                        p_isAuthenticated = True\<rparr>)"
  have h1: "js_truthy (token (st ?w))" by simp
  have h2: "server_C (GetMe (Some (bearer (token (st ?w))))) =
      Inl (HttpError 401 (JObj [(''detail'', JStr ''Could not validate credentials'')]))"
    by (simp add: server_C_def)
  show ?thesis using initializeAuth_rejected [of ?w server_C] h1 h2 by simp
qed

subsection \<open>logout, signup, updateUser and persistence\<close>

text \<open>C16: Logout, from any state, clears profile, token, authentication and error,
  keeps the loading flag, removes the transport's credential, persists the cleared
  projection and sends nothing.\<close>

theorem logout_clears:
  "st (logout w) = (st w)\<lparr>user := JNull, token := JNull, isAuthenticated := False, error := JNull\<rparr>
   \<and> api_auth (logout w) = None
   \<and> storage (logout w) = Some \<lparr>p_token = JNull, p_user = JNull, p_isAuthenticated = False\<rparr>
   \<and> sent (logout w) = sent w"
  by (simp add: logout_def partialize_def)

text \<open>Logout is idempotent: a second logout changes nothing.\<close>

theorem logout_idempotent: "logout (logout w) = logout w"
  by (simp add: logout_def zset_def Let_def)

text \<open>Every network action of the store, run to completion, ends with
  \<open>isLoading\<close> false, on every branch.\<close>

theorem network_actions_settle:
  "\<not> isLoading (st (snd (login srv email password w)))
   \<and> \<not> isLoading (st (snd (signup srv userData w)))
   \<and> \<not> isLoading (st (initializeAuth srv w))"
  using login_outcome [of srv email password w] signup_outcome [of srv userData w]
    initializeAuth_outcome [of srv w]
  by (auto split: signup_result.splits)

text \<open>After every action of the store, the persisted entry is the projection of
  the current state: token, profile and authentication flag, never loading or error.\<close>

theorem actions_persist_projection:
  "storage (snd (login srv email password w)) = Some (partialize (st (snd (login srv email password w))))
   \<and> storage (snd (signup srv userData w)) = Some (partialize (st (snd (signup srv userData w))))
   \<and> storage (initializeAuth srv w) = Some (partialize (st (initializeAuth srv w)))
   \<and> storage (logout w) = Some (partialize (st (logout w)))
   \<and> storage (updateUser d w) = Some (partialize (st (updateUser d w)))
   \<and> storage (setError e w) = Some (partialize (st (setError e w)))
   \<and> storage (clearError w) = Some (partialize (st (clearError w)))"
  using login_outcome [of srv email password w] signup_outcome [of srv userData w]
    initializeAuth_outcome [of srv w]
  by (simp add: store_simps)

text \<open>Signup never authenticates: profile, token, authentication flag and the
  transport's credential are as before; only loading and error change.\<close>

theorem signup_keeps_session:
  "user (st (snd (signup srv userData w))) = user (st w)
   \<and> token (st (snd (signup srv userData w))) = token (st w)
   \<and> isAuthenticated (st (snd (signup srv userData w))) = isAuthenticated (st w)
   \<and> api_auth (snd (signup srv userData w)) = api_auth w"
  using signup_outcome [of srv userData w]
  by (auto split: signup_result.splits)

text \<open>updateUser changes the profile only: token, authentication, loading, error,
  the transport's credential and the requests sent are as before.\<close>

theorem updateUser_frame:
  "token (st (updateUser d w)) = token (st w)
   \<and> isAuthenticated (st (updateUser d w)) = isAuthenticated (st w)
   \<and> isLoading (st (updateUser d w)) = isLoading (st w)
   \<and> error (st (updateUser d w)) = error (st w)
   \<and> api_auth (updateUser d w) = api_auth w \<and> sent (updateUser d w) = sent w"
  by (simp add: updateUser_def)

text \<open>updateUser merges: a field given in the update takes the update's value, any
  other field keeps the old profile's value (for an absent or object profile).\<close>

theorem updateUser_merge:
  assumes "user (st w) = JNull \<or> (\<exists>qs. user (st w) = JObj qs \<and> distinct (map fst qs))"
    and "distinct (map fst ps)"
  shows "js_get (user (st (updateUser (JObj ps) w))) k =
           (case map_of ps k of Some v \<Rightarrow> v | None \<Rightarrow> js_get (user (st w)) k)"
  using assms
  by (auto simp: updateUser_def js_get_spread2 map_of_rev_distinct split: option.split)

theorem updateUser_merge_witness:
  "js_get (user (st (updateUser (JObj [(''full_name'', JStr ''Ann B'')]) logged_in_world))) ''full_name'' = JStr ''Ann B''
   \<and> js_get (user (st (updateUser (JObj [(''full_name'', JStr ''Ann B'')]) logged_in_world))) ''username'' = JStr ''a''"
proof -
  have u: "user (st logged_in_world) = JObj [(''username'', JStr ''a'')]"
    by (simp add: logged_in_world_def login_def server_A_def store_simps Let_def js_simps)
  have h: "user (st logged_in_world) = JNull \<or>
      (\<exists>qs. user (st logged_in_world) = JObj qs \<and> distinct (map fst qs))" by (simp add: u)
  show ?thesis
    using updateUser_merge [OF h, of "[(''full_name'', JStr ''Ann B'')]" "''full_name''"]
      updateUser_merge [OF h, of "[(''full_name'', JStr ''Ann B'')]" "''username''"]
    by (simp add: u)
qed

text \<open>Persisting and rehydrating round-trips: a rehydrated state is the persisted
  one with loading and error reset, and the projection of a rehydrated state is what
  was stored.\<close>

theorem hydrate_roundtrip:
  "hydrate (Some (partialize s)) = s\<lparr>isLoading := False, error := JNull\<rparr>
   \<and> partialize (hydrate (Some p)) = p"
  by (simp add: hydrate_def partialize_def initial_state_def)

end
