(* ===== verification/SessionSpec.thy ===== *)
theory SessionSpec
  imports AuthStore
begin

text \<open>
  The contract of the session store as the spec states it (section 4.1): a session is
  either anonymous or a bearer token with the profile it was validated for. Login
  yields a session exactly when both requests succeed; logout yields the anonymous
  session; restoration re-validates the stored token; a profile update edits the
  profile of a session; signup and the error mutators leave the session alone.
  \<open>abs_session\<close> reads the abstract session off the store's state, and the store's
  actions, each run to completion, implement the contract under the invariant
  \<open>session_inv\<close>: an authenticated state holds a truthy token, an unauthenticated
  one holds none. Login keeps the invariant when the server's token is truthy.
\<close>

datatype session = Anonymous | Session jval jval

definition abs_session :: "auth_state \<Rightarrow> session" where
  "abs_session s = (if isAuthenticated s then Session (token s) (user s) else Anonymous)"

definition session_inv :: "auth_state \<Rightarrow> bool" where
  "session_inv s \<longleftrightarrow> (if isAuthenticated s then js_truthy (token s) else token s = JNull)"

text \<open>The store's actions as a component calls them; each runs to completion.\<close>

datatype action =
    ALogin string string
  | ASignup jval
  | ALogout
  | AUpdateUser jval
  | ASetError jval
  | AClearError
  | AInitializeAuth

fun exec :: "server \<Rightarrow> world \<Rightarrow> action \<Rightarrow> world" where
  "exec srv w (ALogin email password) = snd (login srv email password w)"
| "exec srv w (ASignup d) = snd (signup srv d w)"
| "exec srv w ALogout = logout w"
| "exec srv w (AUpdateUser d) = updateUser d w"
| "exec srv w (ASetError e) = setError e w"
| "exec srv w AClearError = clearError w"
| "exec srv w AInitializeAuth = initializeAuth srv w"

definition exec_all :: "server \<Rightarrow> world \<Rightarrow> action list \<Rightarrow> world" where
  "exec_all srv w acts = foldl (exec srv) w acts"

subsection \<open>The contract\<close>

definition spec_login :: "server \<Rightarrow> string \<Rightarrow> string \<Rightarrow> session" where
  "spec_login srv email password =
     (case srv (PostLogin email password) of
        Inl e \<Rightarrow> Anonymous
      | Inr data \<Rightarrow>
          (case js_read data ''access_token'' of
             None \<Rightarrow> Anonymous
           | Some tok \<Rightarrow>
               (case srv (GetMe (Some (bearer tok))) of
                  Inl e \<Rightarrow> Anonymous
                | Inr u \<Rightarrow> Session tok u)))"

fun spec_restore :: "server \<Rightarrow> session \<Rightarrow> session" where
  "spec_restore srv Anonymous = Anonymous"
| "spec_restore srv (Session t u) =
     (case srv (GetMe (Some (bearer t))) of Inl e \<Rightarrow> Anonymous | Inr u' \<Rightarrow> Session t u')"

fun spec_exec :: "server \<Rightarrow> session \<Rightarrow> action \<Rightarrow> session" where
  "spec_exec srv a (ALogin email password) = spec_login srv email password"
| "spec_exec srv a (ASignup d) = a"
| "spec_exec srv a ALogout = Anonymous"
| "spec_exec srv Anonymous (AUpdateUser d) = Anonymous"
| "spec_exec srv (Session t u) (AUpdateUser d) = Session t (js_spread2 u d)"
| "spec_exec srv a (ASetError e) = a"
| "spec_exec srv a AClearError = a"
| "spec_exec srv a AInitializeAuth = spec_restore srv a"

definition spec_exec_all :: "server \<Rightarrow> session \<Rightarrow> action list \<Rightarrow> session" where
  "spec_exec_all srv a acts = foldl (spec_exec srv) a acts"

text \<open>What the server must do for the invariant to survive a login: a successful
  POST carries a truthy \<open>access_token\<close>.\<close>

fun server_ok_for :: "server \<Rightarrow> action \<Rightarrow> bool" where
  "server_ok_for srv (ALogin email password) =
     (case srv (PostLogin email password) of
        Inl e \<Rightarrow> True
      | Inr data \<Rightarrow> js_truthy (js_get data ''access_token''))"
| "server_ok_for srv a = True"

subsection \<open>Refinement\<close>

lemma login_abs:
  "abs_session (st (snd (login srv email password w))) = spec_login srv email password"
  by (auto simp: login_def spec_login_def store_simps Let_def abs_session_def
           split: sum.splits option.splits)

lemma login_session_inv:
  assumes "server_ok_for srv (ALogin email password)"
  shows "session_inv (st (snd (login srv email password w)))"
  using assms
  by (auto simp: login_def store_simps Let_def session_inv_def js_read_def
           split: sum.splits option.splits if_splits)

lemma exec_refines:
  assumes "session_inv (st w)" and "server_ok_for srv a"
  shows "abs_session (st (exec srv w a)) = spec_exec srv (abs_session (st w)) a
         \<and> session_inv (st (exec srv w a))"
proof (cases a)
  case (ALogin email password)
  with assms show ?thesis by (simp add: login_abs login_session_inv)
next
  case (ASignup d)
  then show ?thesis using assms signup_outcome [of srv d w]
    by (auto simp: abs_session_def session_inv_def split: signup_result.splits)
next
  case (AUpdateUser d)
  then show ?thesis using assms
    by (simp add: abs_session_def session_inv_def updateUser_def)
next
  case AInitializeAuth
  then show ?thesis using assms
    by (cases "srv (GetMe (Some (bearer (token (st w)))))")
       (auto simp: abs_session_def session_inv_def initializeAuth_def store_simps Let_def)
qed (use assms in \<open>simp_all add: abs_session_def session_inv_def store_simps\<close>)

text \<open>C12: Under the invariant, every sequence of store actions, each run to completion
  against a server that gives truthy tokens, implements the contract: the abstract
  session after the actions is the contract's session, and the invariant still holds.
  In particular the store is authenticated exactly when the contract's last login or
  restoration succeeded with no logout after it (spec, section 8).\<close>

theorem exec_all_refines:
  assumes "\<forall>a \<in> set acts. server_ok_for srv a" and "session_inv (st w)"
  shows "abs_session (st (exec_all srv w acts)) = spec_exec_all srv (abs_session (st w)) acts
         \<and> session_inv (st (exec_all srv w acts))"
  using assms
proof (induction acts arbitrary: w)
  case Nil
  then show ?case by (simp add: exec_all_def spec_exec_all_def)
next
  case (Cons a acts)
  from Cons.prems have "abs_session (st (exec srv w a)) = spec_exec srv (abs_session (st w)) a
       \<and> session_inv (st (exec srv w a))"
    by (intro exec_refines) auto
  with Cons.IH [of "exec srv w a"] Cons.prems show ?case
    by (simp add: exec_all_def spec_exec_all_def)
qed

theorem exec_all_refines_witness:
  "abs_session (st (exec_all server_A (boot None)
      [ALogin ''a@b.com'' ''secret123'', AUpdateUser (JObj [(''full_name'', JStr ''Ann'')]), AInitializeAuth]))
   = Session (JStr ''tok1'') (JObj [(''username'', JStr ''a'')])"
proof -
  let ?acts = "[ALogin ''a@b.com'' ''secret123'', AUpdateUser (JObj [(''full_name'', JStr ''Ann'')]), AInitializeAuth]"
  have h1: "\<forall>a \<in> set ?acts. server_ok_for server_A a" by (simp add: server_A_def)
  have h2: "session_inv (st (boot None))"
    by (simp add: session_inv_def boot_def hydrate_def initial_state_def)
  have a0: "abs_session (st (boot None)) = Anonymous"
    by (simp add: abs_session_def boot_def hydrate_def initial_state_def)
  have "spec_exec_all server_A Anonymous ?acts = Session (JStr ''tok1'') (JObj [(''username'', JStr ''a'')])"
    by (simp add: spec_exec_all_def spec_login_def server_A_def js_simps)
  with exec_all_refines [OF h1 h2] a0 show ?thesis by simp
qed

subsection \<open>Profile edits\<close>

text \<open>C35: A profile edit is local: the next successful restoration replaces the
  edited profile by the server's, so the edit is lost (no request sends it).\<close>

theorem profile_edit_lost_on_restore:
  assumes "js_truthy (token (st w))" and "srv (GetMe (Some (bearer (token (st w))))) = Inr u"
  shows "user (st (initializeAuth srv (updateUser d w))) = u
    \<and> sent (initializeAuth srv (updateUser d w)) = sent w @ [GetMe (Some (bearer (token (st w))))]"
  using assms by (simp add: initializeAuth_def store_simps Let_def)

theorem profile_edit_lost_on_restore_witness:
  "user (st (initializeAuth server_A (updateUser (JObj [(''full_name'', JStr ''Ann'')]) logged_in_world)))
     = JObj [(''username'', JStr ''a'')]"
proof -
  have t: "token (st logged_in_world) = JStr ''tok1''"
    by (simp add: logged_in_world_def login_def server_A_def store_simps Let_def js_simps)
  have h1: "js_truthy (token (st logged_in_world))" by (simp add: t)
  have h2: "server_A (GetMe (Some (bearer (token (st logged_in_world))))) = Inr (JObj [(''username'', JStr ''a'')])"
    by (simp add: t server_A_def)
  show ?thesis using profile_edit_lost_on_restore [of logged_in_world server_A] h1 h2 by simp
qed

text \<open>updateUser on a signed-out store creates a profile object although no token
  is held, so profile and token are no longer set and cleared together (spec,
  section 3).\<close>

theorem updateUser_signed_out_profile:
  assumes "token (st w) = JNull"
  shows "(\<exists>ps. user (st (updateUser d w)) = JObj ps) \<and> token (st (updateUser d w)) = JNull"
  using assms by (simp add: updateUser_def js_spread2_def)

theorem updateUser_signed_out_profile_witness:
  "token (st (boot None)) = JNull
   \<and> user (st (updateUser (JObj [(''full_name'', JStr ''Ann'')]) (boot None))) = JObj [(''full_name'', JStr ''Ann'')]
   \<and> token (st (updateUser (JObj [(''full_name'', JStr ''Ann'')]) (boot None))) = JNull"
proof -
  have h: "token (st (boot None)) = JNull" by (simp add: boot_def hydrate_def initial_state_def)
  show ?thesis using h updateUser_signed_out_profile [OF h, of "JObj [(''full_name'', JStr ''Ann'')]"]
    by (simp add: updateUser_def js_spread2_def boot_def hydrate_def initial_state_def)
qed

end
