(* ===== verification/Chat.thy ===== *)
theory Chat
  imports JsValue
begin

text \<open>
  The chat page (\<open>pages/Chat/Chat.js\<close>) with its input box
  (\<open>components/Chat/ChatInput.js\<close>), message view (\<open>ChatMessage.js\<close>) and header
  (\<open>ChatHeader.js\<close>). The page keeps the message list, the typing flag and the
  current chat session in React state; sending a message appends it and starts a
  1500 ms timer whose callback appends the scripted reply of \<open>generateAIResponse\<close>
  and clears the typing flag. Time is the clock \<open>Date.now()\<close> in milliseconds;
  pending timers are kept with their deadlines in the order they were started, which
  is the order they fire since all have the same delay. The string methods
  (\<open>toLowerCase\<close>, \<open>includes\<close>, \<open>trim\<close>) are those of \<open>JsValue\<close>.
\<close>

subsection \<open>The scripted responder\<close>

definition reply_anxious :: string where
  "reply_anxious = ''I understand you're feeling anxious. That's completely normal. Can you tell me more about what's making you feel this way? Sometimes talking about it can help.''"
definition reply_sad :: string where
  "reply_sad = ''I'm sorry you're feeling this way. It takes courage to share these feelings. Have you been able to maintain your daily routines? Sometimes small steps can make a big difference.''"
definition reply_sleep :: string where
  "reply_sleep = ''Sleep issues can really impact how we feel. What's your current sleep schedule like? I might have some suggestions that could help.''"
definition reply_help :: string where
  "reply_help = ''I'm here to help and support you. What specific area would you like to work on? Whether it's managing stress, improving mood, or building better habits, we can tackle it together.''"
definition reply_thanks :: string where
  "reply_thanks = ''You're very welcome! I'm here whenever you need to talk. Remember, taking care of your mental health is important, and you're doing great by reaching out.''"
definition reply_default :: string where
  "reply_default = ''Thank you for sharing that with me. I'm here to listen and help. Can you tell me more about what's on your mind today?''"

text \<open>\<open>generateAIResponse\<close> (Chat.js lines 67--83): the first topic, in the order of
  the code, whose keyword occurs in the lower-cased message.\<close>

definition generateAIResponse :: "string \<Rightarrow> string" where
  "generateAIResponse userMessage =
     (let message = toLowerCase userMessage
      in if str_includes message ''anxiety'' \<or> str_includes message ''anxious'' then reply_anxious
         else if str_includes message ''depressed'' \<or> str_includes message ''sad'' then reply_sad
         else if str_includes message ''sleep'' \<or> str_includes message ''tired'' then reply_sleep
         else if str_includes message ''help'' \<or> str_includes message ''support'' then reply_help
         else if str_includes message ''thank'' then reply_thanks
         else reply_default)"

subsection \<open>The page's state\<close>

text \<open>A message object of the page (Chat.js lines 17--25, 40--45, 53--60);
  \<open>created_at\<close> is the clock value its ISO string is made from.\<close>

record chat_msg =
  msg_id :: nat
  message :: string
  response :: "string option"
  is_user_message :: bool
  created_at :: nat
  ai_model_used :: "string option"

record chat_session =
  session_id :: nat
  session_name :: string
  session_created_at :: nat

text \<open>The state of the page and its children: \<open>messages\<close>, \<open>isTyping\<close> and
  \<open>currentSession\<close> of \<open>Chat\<close> (lines 10--12), the pending timeouts of
  \<open>handleSendMessage\<close> with deadline and message, the clock, the text of
  \<open>ChatInput\<close> (its \<open>message\<close> state) and the menu flag of \<open>ChatHeader\<close>.\<close>

record chat =
  messages :: "chat_msg list"
  isTyping :: bool
  currentSession :: "chat_session option"
  timers :: "(nat \<times> string) list"
  now :: nat
  input_text :: string
  isMenuOpen :: bool

definition chat_init :: "nat \<Rightarrow> chat" where
  "chat_init t = \<lparr>messages = [], isTyping = False, currentSession = None, timers = [],
                  now = t, input_text = [], isMenuOpen = False\<rparr>"

definition welcome_text :: string where
  "welcome_text = ''Hello! I'm your AI mental health companion. How are you feeling today?''"

definition ai_message :: "nat \<Rightarrow> string \<Rightarrow> chat_msg" where
  "ai_message t text = \<lparr>msg_id = t, message = text, response = Some text, is_user_message = False,
                        created_at = t, ai_model_used = Some ''NeuroQ AI''\<rparr>"

text \<open>The mount effect (lines 16--28) installs the welcome message with id 1.\<close>

definition mount_effect :: "chat \<Rightarrow> chat" where
  "mount_effect c = c\<lparr>messages := [(ai_message 1 welcome_text)\<lparr>created_at := now c\<rparr>]\<rparr>"

definition chat_start :: "nat \<Rightarrow> chat" where
  "chat_start t = mount_effect (chat_init t)"

subsection \<open>Handlers\<close>

text \<open>\<open>handleSendMessage\<close> (lines 38--65): append the user's message with id
  \<open>Date.now()\<close>, set the typing flag and start the 1500 ms timeout.\<close>

definition handleSendMessage :: "string \<Rightarrow> chat \<Rightarrow> chat" where
  "handleSendMessage msg c =
     c\<lparr>messages := messages c @ [\<lparr>msg_id = now c, message = msg, response = None,
                                    is_user_message = True, created_at = now c,
                                    ai_model_used = None\<rparr>],
       isTyping := True,
       timers := timers c @ [(now c + 1500, msg)]\<rparr>"

text \<open>The timeout's callback (lines 51--64), run when the oldest timer is due: append
  the reply with id \<open>Date.now() + 1\<close> to the list as it is then, clear the typing
  flag. \<open>None\<close>: no timer is due.\<close>

definition timer_fire :: "chat \<Rightarrow> chat option" where
  "timer_fire c =
     (case timers c of
        [] \<Rightarrow> None
      | (d, msg) # ts \<Rightarrow>
          if d \<le> now c then
            Some (c\<lparr>messages := messages c @ [ai_message (now c + 1) (generateAIResponse msg)],
                    isTyping := False, timers := ts\<rparr>)
          else None)"

text \<open>\<open>startNewSession\<close> (lines 85--92); \<open>fmt\<close> is \<open>toLocaleDateString\<close>.\<close>

definition startNewSession :: "(nat \<Rightarrow> string) \<Rightarrow> chat \<Rightarrow> chat" where
  "startNewSession fmt c =
     c\<lparr>currentSession := Some \<lparr>session_id = now c, session_name = ''Chat '' @ fmt (now c),
                                session_created_at = now c\<rparr>,
       messages := []\<rparr>"

text \<open>\<open>ChatInput\<close>'s \<open>handleSubmit\<close> (ChatInput.js lines 8--17) with
  \<open>disabled = isTyping\<close> (Chat.js line 166).\<close>

definition handleSubmit :: "chat \<Rightarrow> chat" where
  "handleSubmit c =
     (if trim (input_text c) \<noteq> [] \<and> \<not> isTyping c
      then handleSendMessage (trim (input_text c)) (c\<lparr>input_text := []\<rparr>)
      else c)"

text \<open>\<open>handleKeyPress\<close> (lines 19--24): Enter without Shift submits; any other key
  reaches the text area, whose change is the separate \<open>Change\<close> event.\<close>

definition handleKeyPress :: "string \<Rightarrow> bool \<Rightarrow> chat \<Rightarrow> chat" where
  "handleKeyPress key shiftKey c = (if key = ''Enter'' \<and> \<not> shiftKey then handleSubmit c else c)"

text \<open>The prompts of the welcome screen (lines 113--142), shown while the list is
  empty; their buttons call \<open>handleSendMessage\<close> directly.\<close>

definition suggestions :: "string list" where
  "suggestions = [''I'm feeling anxious today'', ''I'm having trouble sleeping'',
                  ''I need help with my mood'', ''I want to talk about stress'']"

datatype chat_event =
    Change string
  | KeyPress string bool
  | Submit
  | Suggestion nat
  | FireTimer
  | NewSession
  | ToggleMenu
  | MenuItem nat
  | Tick nat

text \<open>One event on the page; \<open>None\<close> when it cannot happen in this state (a
  suggestion button that is not on screen, a timer that is not due, input into the
  text area, which is disabled while a reply is pending: ChatInput.js line 46 with
  Chat.js line 166). The four items of the header's open menu have no handler
  (ChatHeader.js lines 48--59): a click on one changes nothing.\<close>

fun chat_step :: "(nat \<Rightarrow> string) \<Rightarrow> chat \<Rightarrow> chat_event \<Rightarrow> chat option" where
  "chat_step fmt c (Change v) = (if isTyping c then None else Some (c\<lparr>input_text := v\<rparr>))"
| "chat_step fmt c (KeyPress k s) = (if isTyping c then None else Some (handleKeyPress k s c))"
| "chat_step fmt c Submit = Some (handleSubmit c)"
| "chat_step fmt c (Suggestion i) =
     (if messages c = [] \<and> i < length suggestions then Some (handleSendMessage (suggestions ! i) c)
      else None)"
| "chat_step fmt c FireTimer = timer_fire c"
| "chat_step fmt c NewSession = Some (startNewSession fmt c)"
| "chat_step fmt c ToggleMenu = Some (c\<lparr>isMenuOpen := \<not> isMenuOpen c\<rparr>)"
| "chat_step fmt c (MenuItem i) = (if isMenuOpen c \<and> i < 4 then Some c else None)"
| "chat_step fmt c (Tick n) = Some (c\<lparr>now := now c + n\<rparr>)"

fun chat_run :: "(nat \<Rightarrow> string) \<Rightarrow> chat \<Rightarrow> chat_event list \<Rightarrow> chat option" where
  "chat_run fmt c [] = Some c"
| "chat_run fmt c (e # es) = (case chat_step fmt c e of None \<Rightarrow> None | Some c' \<Rightarrow> chat_run fmt c' es)"

subsection \<open>Views\<close>

datatype align = JustifyEnd | JustifyStart

text \<open>\<open>ChatMessage\<close> (ChatMessage.js lines 4--55): side, text, and the model name
  shown after the time stamp for a truthy \<open>ai_model_used\<close> of an AI message.\<close>

definition chat_message_view :: "chat_msg \<Rightarrow> align \<times> string \<times> string option" where
  "chat_message_view m =
     (if is_user_message m then JustifyEnd else JustifyStart, message m,
      if \<not> is_user_message m \<and> ai_model_used m \<noteq> None \<and> ai_model_used m \<noteq> Some []
      then ai_model_used m else None)"

datatype chat_screen =
    Welcome "string list"
  | Conversation "(align \<times> string \<times> string option) list" bool

text \<open>The message area (Chat.js lines 103--162): the welcome screen with the prompts
  for an empty list, else the messages and the typing indicator.\<close>

definition chat_screen :: "chat \<Rightarrow> chat_screen" where
  "chat_screen c =
     (if messages c = [] then Welcome suggestions
      else Conversation (map chat_message_view (messages c)) (isTyping c))"

text \<open>The send button's \<open>disabled\<close> (ChatInput.js line 55).\<close>

definition send_disabled :: "chat \<Rightarrow> bool" where
  "send_disabled c \<longleftrightarrow> trim (input_text c) = [] \<or> isTyping c"

text \<open>\<open>ChatHeader\<close>'s title and subtitle (ChatHeader.js lines 16--24).\<close>

definition header_title :: "(nat \<Rightarrow> string) \<Rightarrow> chat \<Rightarrow> string \<times> string" where
  "header_title fmt c =
     (case currentSession c of
        None \<Rightarrow> (''AI Chat'', ''Your AI mental health companion'')
      | Some s \<Rightarrow> (session_name s, ''Started '' @ fmt (session_created_at s)))"

text \<open>The header's menu (ChatHeader.js lines 45--63): its items while open.\<close>

definition header_menu_items :: "chat \<Rightarrow> string list" where
  "header_menu_items c =
     (if isMenuOpen c then [''Chat History'', ''Export Chat'', ''Clear Chat'', ''Settings''] else [])"

text \<open>\<open>ChatHeader\<close>'s render (ChatHeader.js lines 11--66): title and subtitle, the
  new-chat button, the open menu's items.\<close>

definition chat_header_view :: "(nat \<Rightarrow> string) \<Rightarrow> chat \<Rightarrow> (string \<times> string) \<times> string \<times> string list" where
  "chat_header_view fmt c = (header_title fmt c, ''New Chat'', header_menu_items c)"

text \<open>\<open>ChatInput\<close>'s render (ChatInput.js lines 37--60) under \<open>disabled={isTyping}\<close>
  (Chat.js line 166): the text area's value and disabled state, the send button's
  disabled state.\<close>

definition chat_input_view :: "chat \<Rightarrow> string \<times> bool \<times> bool" where
  "chat_input_view c = (input_text c, isTyping c, send_disabled c)"

text \<open>\<open>adjustTextareaHeight\<close> (ChatInput.js lines 26--35): the text area's height in
  pixels for the height of its content.\<close>

definition textarea_height :: "nat \<Rightarrow> nat" where
  "textarea_height scrollHeight = min scrollHeight 120"

subsection \<open>Invariants\<close>

text \<open>The events a user can cause through the input box, the header and time alone,
  without the welcome screen's prompt buttons.\<close>

fun input_event :: "chat_event \<Rightarrow> bool" where
  "input_event (Suggestion i) = False"
| "input_event e = True"

text \<open>The typing indicator is on exactly while a reply is pending, and at most one
  reply is pending.\<close>

definition chat_inv :: "chat \<Rightarrow> bool" where
  "chat_inv c \<longleftrightarrow> (isTyping c \<longleftrightarrow> timers c \<noteq> []) \<and> length (timers c) \<le> 1"

text \<open>A date format for the examples.\<close>

text \<open>The shape of the two kinds of message: a user message has no response and no
  model, a reply repeats its text as response and names the model.\<close>

definition msg_wf :: "chat_msg \<Rightarrow> bool" where
  "msg_wf m \<longleftrightarrow>
     (if is_user_message m then response m = None \<and> ai_model_used m = None
      else response m = Some (message m) \<and> ai_model_used m = Some ''NeuroQ AI'')"

text \<open>The browser left alone: time advances to the oldest timer's deadline and the
  timer fires, until no timer is pending.\<close>

function chat_drain :: "chat \<Rightarrow> chat" where
  "chat_drain c =
     (case timers c of
        [] \<Rightarrow> c
      | (d, m) # ts \<Rightarrow> chat_drain (the (timer_fire (c\<lparr>now := now c + (d - now c)\<rparr>))))"
  by pat_completeness auto

termination
  by (relation "measure (\<lambda>c. length (timers c))") (auto simp: timer_fire_def)

declare chat_drain.simps [simp del]

definition fmt0 :: "nat \<Rightarrow> string" where "fmt0 t = ''1/1/2025''"

subsection \<open>String functions and the responder\<close>

lemmas chat_eval = chat_start_def chat_init_def mount_effect_def handleKeyPress_def handleSubmit_def
  handleSendMessage_def timer_fire_def startNewSession_def trim_def js_space_def suggestions_def

text \<open>The responder ignores letter case: a message and its upper-cased form get the same reply.\<close>

theorem generateAIResponse_case_insensitive:
  "generateAIResponse (toUpperCase s) = generateAIResponse s"
  by (simp add: generateAIResponse_def toLowerCase_def toUpperCase_def comp_def lower_upper_char)


lemma chat_step_inv:
  assumes "chat_inv c" "input_event e" "chat_step fmt c e = Some c'"
  shows "chat_inv c'"
  using assms
  by (cases e) (auto simp: chat_inv_def handleKeyPress_def handleSubmit_def handleSendMessage_def
                      timer_fire_def startNewSession_def split: list.splits if_splits)

lemma chat_run_inv_step:
  "chat_inv c \<Longrightarrow> list_all input_event es \<Longrightarrow> chat_run fmt c es = Some c' \<Longrightarrow> chat_inv c'"
proof (induction es arbitrary: c)
  case Nil
  then show ?case by simp
next
  case (Cons e es)
  then obtain c1 where c1: "chat_step fmt c e = Some c1" "chat_run fmt c1 es = Some c'"
    by (auto split: option.splits)
  with Cons.prems have "chat_inv c1" by (auto intro: chat_step_inv)
  with Cons.IH Cons.prems c1 show ?case by simp
qed

text \<open>C21: On every run of the page that uses the input box, the header and time but not the
  welcome prompts, the typing indicator (and the disabled input) is on exactly while
  a reply is pending, and at most one reply is pending.\<close>

theorem chat_typing_iff_pending:
  assumes "list_all input_event es" and "chat_run fmt (chat_start t) es = Some c"
  shows "(isTyping c \<longleftrightarrow> timers c \<noteq> []) \<and> length (timers c) \<le> 1"
proof -
  have "chat_inv (chat_start t)" by (simp add: chat_inv_def chat_start_def chat_init_def mount_effect_def)
  with assms have "chat_inv c" by (rule chat_run_inv_step [rotated])
  then show ?thesis by (simp add: chat_inv_def)
qed

lemma sad_reply: "generateAIResponse ''I feel sad'' = reply_sad"
  by (simp add: generateAIResponse_def toLowerCase_def lower_char_def ascii_upper_def ascii_lower_def)

text \<open>C20: A reply pending when a new chat is started lands in the new chat: whenever a
  reply timer is due, starting a new chat and clicking a prompt of the welcome screen
  gives the list [prompt, reply to the old message]; the typing indicator goes off
  although the prompt's own reply is still pending.\<close>

theorem prompt_gets_stale_reply:
  assumes "timers c = (d, m) # ts" and "d \<le> now c" and "i < length suggestions"
  shows "map_option (\<lambda>c'. (map message (messages c'), isTyping c', timers c'))
           (chat_run fmt c [NewSession, Suggestion i, FireTimer])
         = Some ([suggestions ! i, generateAIResponse m], False, ts @ [(now c + 1500, suggestions ! i)])"
  using assms by (simp add: startNewSession_def handleSendMessage_def timer_fire_def ai_message_def)

theorem prompt_gets_stale_reply_witness:
  "map_option (\<lambda>c'. (map message (messages c'), isTyping c', timers c'))
     (chat_run fmt0 ((handleSendMessage ''I feel sad'' (chat_start 1000))\<lparr>now := 2500\<rparr>)
        [NewSession, Suggestion 0, FireTimer])
   = Some ([suggestions ! 0, reply_sad], False, [(4000, suggestions ! 0)])"
proof -
  let ?c = "(handleSendMessage ''I feel sad'' (chat_start 1000))\<lparr>now := 2500\<rparr>"
  have h: "timers ?c = (2500, ''I feel sad'') # []" "2500 \<le> now ?c" "0 < length suggestions"
    by (simp_all add: chat_eval)
  from prompt_gets_stale_reply [OF h, of fmt0] show ?thesis by (simp add: sad_reply)
qed

text \<open>C19: startNewSession empties the list but does not cancel the pending timeout: when it
  fires, the new session holds exactly the reply to a message of the old one.\<close>

theorem new_session_stale_reply:
  assumes "timers c = (d, m) # ts" and "d \<le> now c"
  shows "map_option messages (timer_fire (startNewSession fmt c))
           = Some [ai_message (now c + 1) (generateAIResponse m)]"
  using assms by (simp add: timer_fire_def startNewSession_def)

theorem new_session_stale_reply_witness:
  "map_option messages (timer_fire (startNewSession fmt0 ((chat_start 0)\<lparr>timers := [(0, ''I feel sad'')]\<rparr>)))
     = Some [ai_message 1 reply_sad]"
proof -
  let ?c = "(chat_start 0)\<lparr>timers := [(0, ''I feel sad'')]\<rparr>"
  have "timers ?c = (0, ''I feel sad'') # []" "0 \<le> now ?c" by simp_all
  from new_session_stale_reply [OF this, of fmt0] show ?thesis
    by (simp add: chat_start_def chat_init_def mount_effect_def sad_reply)
qed

text \<open>C22: Message ids come from the clock: whenever a reply arrives at time t (id t + 1)
  and the user sends a message one millisecond later, the two new messages have the
  same id, so the list has two elements with the same React key.\<close>

theorem chat_ids_collide:
  assumes "timers c = (d, m) # ts" and "d \<le> now c" and "trim s \<noteq> []"
  shows "map_option (\<lambda>c'. map msg_id (drop (length (messages c)) (messages c')))
           (chat_run fmt c [FireTimer, Tick 1, Change s, Submit])
         = Some [now c + 1, now c + 1]"
  using assms by (simp add: timer_fire_def handleSubmit_def handleSendMessage_def ai_message_def)

theorem chat_ids_collide_witness:
  "map_option (\<lambda>c'. map msg_id (messages c'))
     (chat_run fmt0 ((handleSendMessage ''hi'' (chat_start 1000))\<lparr>now := 2500\<rparr>)
        [FireTimer, Tick 1, Change ''ok'', Submit])
   = Some [1, 1000, 2501, 2501]"
proof -
  let ?c = "(handleSendMessage ''hi'' (chat_start 1000))\<lparr>now := 2500\<rparr>"
  have h: "timers ?c = (2500, ''hi'') # []" "2500 \<le> now ?c" "trim ''ok'' \<noteq> []"
    by (simp_all add: chat_eval)
  have "map_option (\<lambda>c'. map msg_id (drop (length (messages ?c)) (messages c')))
          (chat_run fmt0 ?c [FireTimer, Tick 1, Change ''ok'', Submit]) = Some [2501, 2501]"
    using chat_ids_collide [OF h, of fmt0] by simp
  then show ?thesis by (simp add: chat_eval ai_message_def)
qed

text \<open>Submitting non-blank text while no reply is pending sends the trimmed text (no
  leading or trailing white space), appends it as a user message, starts its reply
  timer, turns the typing indicator on and clears the box.\<close>

theorem handleSubmit_sends:
  assumes "trim (input_text c) \<noteq> []" and "\<not> isTyping c"
  shows "messages (handleSubmit c) = messages c @ [\<lparr>msg_id = now c, message = trim (input_text c),
            response = None, is_user_message = True, created_at = now c, ai_model_used = None\<rparr>]
    \<and> timers (handleSubmit c) = timers c @ [(now c + 1500, trim (input_text c))]
    \<and> isTyping (handleSubmit c) \<and> input_text (handleSubmit c) = []
    \<and> \<not> js_space (hd (trim (input_text c))) \<and> \<not> js_space (last (trim (input_text c)))"
  using assms trim_strips [OF assms(1)] by (simp add: handleSubmit_def handleSendMessage_def)

lemma handleSubmit_blocked:
  assumes "trim (input_text c) = [] \<or> isTyping c"
  shows "handleSubmit c = c"
  using assms by (auto simp: handleSubmit_def)

theorem chat_typing_iff_pending_witness:
  "chat_run fmt0 (chat_start 0) [Change '' hi'', Submit]
     = Some (handleSubmit ((chat_start 0)\<lparr>input_text := '' hi''\<rparr>))
   \<and> isTyping (handleSubmit ((chat_start 0)\<lparr>input_text := '' hi''\<rparr>))
   \<and> timers (handleSubmit ((chat_start 0)\<lparr>input_text := '' hi''\<rparr>)) \<noteq> []
   \<and> length (timers (handleSubmit ((chat_start 0)\<lparr>input_text := '' hi''\<rparr>))) \<le> 1"
proof -
  have h: "list_all input_event [Change '' hi'', Submit]" by simp
  have r: "chat_run fmt0 (chat_start 0) [Change '' hi'', Submit]
             = Some (handleSubmit ((chat_start 0)\<lparr>input_text := '' hi''\<rparr>))"
    by (simp add: chat_start_def chat_init_def mount_effect_def)
  have "isTyping (handleSubmit ((chat_start 0)\<lparr>input_text := '' hi''\<rparr>))"
    by (simp add: chat_eval)
  with chat_typing_iff_pending [OF h r] r show ?thesis by simp
qed

theorem handleSubmit_sends_witness:
  "map message (messages (handleSubmit ((chat_start 0)\<lparr>input_text := '' hi ''\<rparr>)))
     = [welcome_text, ''hi'']"
proof -
  let ?c = "(chat_start 0)\<lparr>input_text := '' hi ''\<rparr>"
  have t: "trim '' hi '' = ''hi''" by (simp add: trim_def js_space_def)
  have h: "trim (input_text ?c) \<noteq> []" "\<not> isTyping ?c" by (simp_all add: t chat_start_def chat_init_def mount_effect_def)
  from handleSubmit_sends [OF h] show ?thesis
    by (simp add: t chat_start_def chat_init_def mount_effect_def ai_message_def)
qed

subsection \<open>Well-typed messages and the arrival of replies\<close>

lemma timer_fire_wf:
  "timer_fire c = Some c' \<Longrightarrow> list_all msg_wf (messages c) \<Longrightarrow> list_all msg_wf (messages c')"
  by (auto simp: timer_fire_def ai_message_def msg_wf_def split: list.splits if_splits)

lemma chat_step_wf:
  "chat_step fmt c e = Some c' \<Longrightarrow> list_all msg_wf (messages c) \<Longrightarrow> list_all msg_wf (messages c')"
  by (cases e) (auto simp: handleKeyPress_def handleSubmit_def handleSendMessage_def startNewSession_def
                    msg_wf_def split: if_splits intro: timer_fire_wf)

text \<open>C33: Every message the page ever holds, whatever the user does, has the shape of
  its kind: a user message without response or model, a reply whose response is
  its text and whose model is \<open>NeuroQ AI\<close>; the message view relies on it to show
  the model name on replies only.\<close>

theorem chat_messages_well_typed:
  assumes "chat_run fmt (chat_start t) es = Some c"
  shows "list_all msg_wf (messages c)"
proof -
  have "list_all msg_wf (messages c0) \<Longrightarrow> chat_run fmt c0 es = Some c \<Longrightarrow> list_all msg_wf (messages c)" for c0
  proof (induction es arbitrary: c0)
    case Nil
    then show ?case by simp
  next
    case (Cons e es)
    then obtain c1 where "chat_step fmt c0 e = Some c1" "chat_run fmt c1 es = Some c"
      by (auto split: option.splits)
    with Cons show ?case by (blast intro: chat_step_wf)
  qed
  moreover have "list_all msg_wf (messages (chat_start t))"
    by (simp add: chat_start_def chat_init_def mount_effect_def ai_message_def msg_wf_def welcome_text_def)
  ultimately show ?thesis using assms by blast
qed

text \<open>C34: Every pending reply arrives: left alone, the page reaches, by a finite run of
  clock ticks and timer firings, a state with no timer pending, one reply appended
  per pending timer, and the typing indicator off unless it was on with nothing
  pending.\<close>

theorem chat_replies_arrive:
  "\<exists>es. list_all input_event es \<and> chat_run fmt c es = Some (chat_drain c)
     \<and> timers (chat_drain c) = []
     \<and> length (messages (chat_drain c)) = length (messages c) + length (timers c)
     \<and> (isTyping (chat_drain c) \<longleftrightarrow> isTyping c \<and> timers c = [])"
proof (induction c rule: chat_drain.induct)
  case (1 c)
  show ?case
  proof (cases "timers c")
    case Nil
    then show ?thesis by (intro exI [of _ "[]"]) (simp add: chat_drain.simps)
  next
    case (Cons dm ts)
    obtain d m where dm: "dm = (d, m)" by (cases dm)
    let ?c1 = "c\<lparr>now := now c + (d - now c)\<rparr>"
    have le: "d \<le> now c + (d - now c)" by arith
    obtain c2 where f: "timer_fire ?c1 = Some c2" using Cons dm le by (auto simp: timer_fire_def)
    have c2: "timers c2 = ts" "\<not> isTyping c2" "length (messages c2) = Suc (length (messages c))"
      using f Cons dm le by (auto simp: timer_fire_def)
    have dr: "chat_drain c = chat_drain c2" using Cons dm f by (subst chat_drain.simps) simp
    from "1" [OF Cons dm [symmetric]] f obtain es where es: "list_all input_event es"
      "chat_run fmt c2 es = Some (chat_drain c2)" "timers (chat_drain c2) = []"
      "length (messages (chat_drain c2)) = length (messages c2) + length (timers c2)"
      "isTyping (chat_drain c2) \<longleftrightarrow> isTyping c2 \<and> timers c2 = []"
      by auto
    have "chat_run fmt c (Tick (d - now c) # FireTimer # es) = Some (chat_drain c)"
      using f es(2) dr by simp
    with es c2 dr Cons show ?thesis
      by (intro exI [of _ "Tick (d - now c) # FireTimer # es"]) simp
  qed
qed


theorem chat_messages_well_typed_witness:
  "chat_run fmt0 (chat_start 0) [Change ''hi'', Submit, Tick 1500, FireTimer]
     = Some (the (chat_run fmt0 (chat_start 0) [Change ''hi'', Submit, Tick 1500, FireTimer]))
   \<and> list_all msg_wf (messages (the (chat_run fmt0 (chat_start 0) [Change ''hi'', Submit, Tick 1500, FireTimer])))"
proof -
  let ?es = "[Change ''hi'', Submit, Tick 1500, FireTimer]"
  have r: "chat_run fmt0 (chat_start 0) ?es = Some (the (chat_run fmt0 (chat_start 0) ?es))"
    by (simp add: chat_eval)
  from r chat_messages_well_typed [OF r] show ?thesis by simp
qed

end
