(* ===== verification/Forms.thy ===== *)
theory Forms
  imports AuthStore
begin

text \<open>
  The sign-up page (\<open>pages/Auth/Signup.js\<close>) and the password-reset page
  (\<open>pages/Auth/ForgotPassword.js\<close>). Both are \<open>react-hook-form\<close> forms: on submit
  every registered field is checked against its rules in the library's order
  (\<open>required\<close>, \<open>minLength\<close>, \<open>pattern\<close>, \<open>validate\<close>), the first failing rule of a
  field gives its message, and the submit handler runs only when no field has one.
  Before any of this the browser validates the \<open>type="email"\<close> input (the forms have
  no \<open>noValidate\<close>): an address outside the HTML grammar of a valid e-mail address
  blocks the submit event, and react-hook-form never runs.
  The sign-up handler calls the store's \<open>signup\<close> with the form's values; the
  password meter scores the password as it is typed. Character classes are ASCII:
  the email pattern's \<open>/i\<close> flag without \<open>/u\<close> folds only ASCII letters.
\<close>

subsection \<open>Character classes and the email pattern\<close>

definition is_lower :: "char \<Rightarrow> bool" where "is_lower c \<longleftrightarrow> c \<in> set ascii_lower"
definition is_upper :: "char \<Rightarrow> bool" where "is_upper c \<longleftrightarrow> c \<in> set ascii_upper"
definition is_digit :: "char \<Rightarrow> bool" where "is_digit c \<longleftrightarrow> c \<in> set ascii_digits"
definition is_letter :: "char \<Rightarrow> bool" where "is_letter c \<longleftrightarrow> is_lower c \<or> is_upper c"
definition is_alnum :: "char \<Rightarrow> bool" where "is_alnum c \<longleftrightarrow> is_letter c \<or> is_digit c"

text \<open>The classes \<open>[A-Z0-9._%+-]\<close>, \<open>[A-Z0-9.-]\<close> and \<open>[a-zA-Z0-9_]\<close>; the first two
  under \<open>/i\<close>.\<close>

definition email_local_char :: "char \<Rightarrow> bool" where
  "email_local_char c \<longleftrightarrow> is_alnum c \<or> c \<in> set ''._%+-''"

definition email_domain_char :: "char \<Rightarrow> bool" where
  "email_domain_char c \<longleftrightarrow> is_alnum c \<or> c \<in> set ''.-''"

definition username_char :: "char \<Rightarrow> bool" where
  "username_char c \<longleftrightarrow> is_alnum c \<or> c = CHR ''_''"

text \<open>The matcher of \<open>/^[A-Z0-9._%+-]+@[A-Z0-9.-]+\.[A-Z]{2,}$/i\<close> (Signup.js line 130,
  ForgotPassword.js line 91) without backtracking: neither class holds \<open>@\<close>, so the
  local part ends at the first \<open>@\<close>; the last class holds no dot, so the top-level
  domain is what follows the last dot.\<close>

definition email_domain_ok :: "string \<Rightarrow> bool" where
  "email_domain_ok r =
     (let rr = rev r;
          tld = rev (takeWhile (\<lambda>c. c \<noteq> CHR ''.'') rr);
          rest = dropWhile (\<lambda>c. c \<noteq> CHR ''.'') rr
      in rest \<noteq> [] \<and> 2 \<le> length tld \<and> list_all is_letter tld
         \<and> tl rest \<noteq> [] \<and> list_all email_domain_char (tl rest))"

definition email_pattern :: "string \<Rightarrow> bool" where
  "email_pattern s =
     (let l = takeWhile (\<lambda>c. c \<noteq> CHR ''@'') s;
          r = dropWhile (\<lambda>c. c \<noteq> CHR ''@'') s
      in l \<noteq> [] \<and> list_all email_local_char l \<and> r \<noteq> [] \<and> email_domain_ok (tl r))"

definition username_pattern :: "string \<Rightarrow> bool" where
  "username_pattern s \<longleftrightarrow> s \<noteq> [] \<and> list_all username_char s"

text \<open>The browser's constraint validation of a \<open>type="email"\<close> input (the HTML
  standard's valid e-mail address): an empty value passes; any other value is one or
  more characters of \<open>atext\<close> or dots, \<open>@\<close>, and dot-separated labels of 1 to 63
  letters, digits and hyphens that neither start nor end with a hyphen. No form of the
  sources sets \<open>noValidate\<close>, so a value that fails blocks the submit event before
  react-hook-form runs (Signup.js line 134, ForgotPassword.js line 95, Profile.js line
  145).\<close>

definition email_atext :: "char \<Rightarrow> bool" where
  "email_atext c \<longleftrightarrow> is_alnum c \<or> c \<in> set (''.!#$%&'' @ [CHR 0x27] @ ''*+-/=?^_`{|}~'')"

definition email_label :: "string \<Rightarrow> bool" where
  "email_label l \<longleftrightarrow> l \<noteq> [] \<and> length l \<le> 63 \<and> list_all (\<lambda>c. is_alnum c \<or> c = CHR ''-'') l
     \<and> is_alnum (hd l) \<and> is_alnum (last l)"

definition native_email_ok :: "string \<Rightarrow> bool" where
  "native_email_ok s \<longleftrightarrow> s = [] \<or>
     (let l = takeWhile (\<lambda>c. c \<noteq> CHR ''@'') s; r = dropWhile (\<lambda>c. c \<noteq> CHR ''@'') s
      in l \<noteq> [] \<and> list_all email_atext l \<and> r \<noteq> [] \<and> list_all email_label (split_on CHR ''.'' (tl r)))"

subsection \<open>The password meter\<close>

text \<open>\<open>getPasswordStrength\<close> (Signup.js lines 37--57): one point for each test that
  holds, counted in the order of the code, and the level of \<open>Math.min(score, 5)\<close>;
  an empty (or still undefined) password gives the blank level.\<close>

record strength =
  score :: nat
  label :: string
  color :: string

definition strength_tests :: "string \<Rightarrow> bool list" where
  "strength_tests password =
     [8 \<le> length password, list_ex is_lower password, list_ex is_upper password,
      list_ex is_digit password, list_ex (\<lambda>c. \<not> is_alnum c) password]"

definition strength_score :: "string \<Rightarrow> nat" where
  "strength_score password =
     foldl (\<lambda>score t. if t then score + 1 else score) 0 (strength_tests password)"

definition levels :: "strength list" where
  "levels = [\<lparr>score = 0, label = ''Very Weak'', color = ''bg-red-500''\<rparr>,
             \<lparr>score = 1, label = ''Weak'', color = ''bg-red-400''\<rparr>,
             \<lparr>score = 2, label = ''Fair'', color = ''bg-yellow-400''\<rparr>,
             \<lparr>score = 3, label = ''Good'', color = ''bg-yellow-500''\<rparr>,
             \<lparr>score = 4, label = ''Strong'', color = ''bg-green-400''\<rparr>,
             \<lparr>score = 5, label = ''Very Strong'', color = ''bg-green-500''\<rparr>]"

definition getPasswordStrength :: "string \<Rightarrow> strength" where
  "getPasswordStrength password =
     (if password = [] then \<lparr>score = 0, label = [], color = []\<rparr>
      else levels ! min (strength_score password) 5)"

text \<open>The five bars of the meter (lines 172--190): bar \<open>level\<close> takes the level's
  colour when \<open>level \<le> score\<close>, else the grey track; nothing for an empty password.\<close>

definition meter_bars :: "string \<Rightarrow> string list" where
  "meter_bars password =
     (if password = [] then []
      else map (\<lambda>level. if level \<le> score (getPasswordStrength password)
                          then color (getPasswordStrength password)
                          else ''bg-gray-200 dark:bg-gray-700'') [1..<6])"

subsection \<open>Validation\<close>

record signup_form =
  full_name :: string
  username :: string
  email :: string
  password :: string
  confirmPassword :: string

datatype field = FullName | Username | Email | Password | ConfirmPassword

text \<open>The rules registered for each field (lines 81--87, 102--112, 127--133,
  149--155, 202--206): the message of the first rule that fails.\<close>

definition validate_full_name :: "string \<Rightarrow> string option" where
  "validate_full_name v =
     (if v = [] then Some ''Full name is required''
      else if length v < 2 then Some ''Name must be at least 2 characters''
      else None)"

definition validate_username :: "string \<Rightarrow> string option" where
  "validate_username v =
     (if v = [] then Some ''Username is required''
      else if length v < 3 then Some ''Username must be at least 3 characters''
      else if \<not> username_pattern v then Some ''Username can only contain letters, numbers, and underscores''
      else None)"

definition validate_email :: "string \<Rightarrow> string option" where
  "validate_email v =
     (if v = [] then Some ''Email is required''
      else if \<not> email_pattern v then Some ''Invalid email address''
      else None)"

definition validate_password :: "string \<Rightarrow> string option" where
  "validate_password v =
     (if v = [] then Some ''Password is required''
      else if length v < 8 then Some ''Password must be at least 8 characters''
      else None)"

definition validate_confirm :: "string \<Rightarrow> string \<Rightarrow> string option" where
  "validate_confirm pw v =
     (if v = [] then Some ''Please confirm your password''
      else if v = pw then None else Some ''Passwords do not match'')"

definition form_errors :: "signup_form \<Rightarrow> (field \<times> string) list" where
  "form_errors f =
     List.map_filter (\<lambda>(fld, e). map_option (Pair fld) e)
       [(FullName, validate_full_name (full_name f)), (Username, validate_username (username f)),
        (Email, validate_email (email f)), (Password, validate_password (password f)),
        (ConfirmPassword, validate_confirm (password f) (confirmPassword f))]"

subsection \<open>Submission\<close>

text \<open>The values \<open>handleSubmit\<close> passes to \<open>onSubmit\<close>: every registered field, in
  the order of registration.\<close>

definition form_data :: "signup_form \<Rightarrow> jval" where
  "form_data f = JObj [(''full_name'', JStr (full_name f)), (''username'', JStr (username f)),
                       (''email'', JStr (email f)), (''password'', JStr (password f)),
                       (''confirmPassword'', JStr (confirmPassword f))]"

definition empty_form :: signup_form where
  "empty_form = \<lparr>full_name = [], username = [], email = [], password = [], confirmPassword = []\<rparr>"

datatype toast = ToastSuccess string | ToastError jval

text \<open>The sign-up page as the user sees it: the store's world, the form's values and
  messages, the toasts shown, the router's path.\<close>

record signup_page =
  sp_world :: world
  sp_form :: signup_form
  sp_errors :: "(field \<times> string) list"
  sp_toasts :: "toast list"
  sp_path :: string
  showPassword :: bool
  showConfirmPassword :: bool

text \<open>The mount effect (lines 23--25) clears the store's error; the form starts
  empty.\<close>

definition signup_mount :: "world \<Rightarrow> signup_page" where
  "signup_mount w = \<lparr>sp_world = clearError w, sp_form = empty_form, sp_errors = [],
                     sp_toasts = [], sp_path = ''/signup'', showPassword = False, showConfirmPassword = False\<rparr>"

text \<open>Typing into a field.\<close>

fun signup_edit :: "field \<Rightarrow> string \<Rightarrow> signup_page \<Rightarrow> signup_page" where
  "signup_edit FullName v p = p\<lparr>sp_form := (sp_form p)\<lparr>full_name := v\<rparr>\<rparr>"
| "signup_edit Username v p = p\<lparr>sp_form := (sp_form p)\<lparr>username := v\<rparr>\<rparr>"
| "signup_edit Email v p = p\<lparr>sp_form := (sp_form p)\<lparr>email := v\<rparr>\<rparr>"
| "signup_edit Password v p = p\<lparr>sp_form := (sp_form p)\<lparr>password := v\<rparr>\<rparr>"
| "signup_edit ConfirmPassword v p = p\<lparr>sp_form := (sp_form p)\<lparr>confirmPassword := v\<rparr>\<rparr>"

text \<open>While the store is loading, \<open>App\<close> (App.js lines 24--31) renders its loading
  screen instead of the router; when loading ends the router mounts again and the
  page at the current path starts afresh: the sign-up page with an empty form and
  its mount effect, any other page without the sign-up form.\<close>

definition router_remount :: "signup_page \<Rightarrow> signup_page" where
  "router_remount p =
     (if sp_path p = ''/signup''
      then p\<lparr>sp_world := clearError (sp_world p), sp_form := empty_form, sp_errors := [],
             showPassword := False, showConfirmPassword := False\<rparr>
      else p\<lparr>sp_form := empty_form, sp_errors := [], showPassword := False, showConfirmPassword := False\<rparr>)"

text \<open>\<open>handleSubmit(onSubmit)\<close> (lines 27--35, 74): nothing when the browser's email
  check blocks the submit event; else validate; when a field fails,
  show the messages and stop; else await the store's \<open>signup\<close> with the form's
  values, then toast and navigate to \<open>/login\<close> on success, or toast
  \<open>result.error || 'Signup failed'\<close>; the request's loading phase has remounted the
  router.\<close>

definition signup_submit :: "server \<Rightarrow> signup_page \<Rightarrow> signup_page" where
  "signup_submit srv p =
     (let f = sp_form p
      in if \<not> native_email_ok (email f) then p
         else if form_errors f \<noteq> [] then p\<lparr>sp_errors := form_errors f\<rparr>
         else (case signup srv (form_data f) (sp_world p) of
                 (SignupOk d, w) \<Rightarrow>
                   router_remount (p\<lparr>sp_world := w,
                     sp_toasts := sp_toasts p @ [ToastSuccess ''Account created successfully! Please sign in.''],
                     sp_path := ''/login''\<rparr>)
               | (SignupFail e, w) \<Rightarrow>
                   router_remount (p\<lparr>sp_world := w,
                     sp_toasts := sp_toasts p @ [ToastError (js_or e (JStr ''Signup failed''))]\<rparr>)))"

text \<open>The eye buttons beside the two password inputs (lines 160--164 and 211--215).\<close>

definition toggleShowPassword :: "signup_page \<Rightarrow> signup_page" where
  "toggleShowPassword p = p\<lparr>showPassword := \<not> showPassword p\<rparr>"

definition toggleShowConfirmPassword :: "signup_page \<Rightarrow> signup_page" where
  "toggleShowConfirmPassword p = p\<lparr>showConfirmPassword := \<not> showConfirmPassword p\<rparr>"

text \<open>What the form shows (lines 156--236): the two password inputs' types, the
  strength meter under a non-empty password with its bars and label, the fields'
  messages, and the submit button's label and disabled state under react-hook-form's
  \<open>isSubmitting\<close>.\<close>

record signup_screen =
  ss_password_type :: string
  ss_confirm_type :: string
  ss_meter :: "(string list \<times> string) option"
  ss_messages :: "(field \<times> string) list"
  ss_button :: "string \<times> bool"

definition signup_view :: "bool \<Rightarrow> signup_page \<Rightarrow> signup_screen" where
  "signup_view isSubmitting p =
     (let pw = password (sp_form p)
      in \<lparr>ss_password_type = (if showPassword p then ''text'' else ''password''),
          ss_confirm_type = (if showConfirmPassword p then ''text'' else ''password''),
          ss_meter = (if pw \<noteq> [] then Some (meter_bars pw, label (getPasswordStrength pw)) else None),
          ss_messages = sp_errors p,
          ss_button = (if isSubmitting then ''Creating account...'' else ''Create account'', isSubmitting)\<rparr>)"

subsection \<open>The password-reset page\<close>

record forgot_page =
  isSubmitted :: bool
  fp_errors :: "string option"
  fp_toasts :: "toast list"

text \<open>\<open>handleSubmit(onSubmit)\<close> of ForgotPassword.js (lines 15--25, 82): validate the
  email, then (after the simulated one-second request, which never fails) show the
  confirmation; no request is made.\<close>

definition forgot_submit :: "string \<Rightarrow> forgot_page \<Rightarrow> forgot_page" where
  "forgot_submit v p =
     (if \<not> native_email_ok v then p else
      case validate_email v of
        Some e \<Rightarrow> p\<lparr>fp_errors := Some e\<rparr>
      | None \<Rightarrow> p\<lparr>fp_errors := None, isSubmitted := True,
                  fp_toasts := fp_toasts p @ [ToastSuccess ''Password reset email sent!'']\<rparr>)"

text \<open>The confirmation screen's \<open>try again\<close> (lines 45--50).\<close>

definition forgot_try_again :: "forgot_page \<Rightarrow> forgot_page" where
  "forgot_try_again p = p\<lparr>isSubmitted := False\<rparr>"

datatype forgot_screen = CheckEmail | ResetForm "string option"

text \<open>The page's render (lines 27--126): the confirmation screen once submitted,
  else the form with the email field's message.\<close>

definition forgot_view :: "forgot_page \<Rightarrow> forgot_screen" where
  "forgot_view p = (if isSubmitted p then CheckEmail else ResetForm (fp_errors p))"

text \<open>A valid sign-up form for the examples.\<close>

definition ann_form :: signup_form where
  "ann_form = \<lparr>full_name = ''Ann'', username = ''ann'', email = ''ann@ex.com'',
               password = ''secret123'', confirmPassword = ''secret123''\<rparr>"

subsection \<open>The password meter\<close>

lemma foldl_count: "foldl (\<lambda>score t. if t then score + 1 else score) n ts = n + length (filter id ts)"
  by (induction ts arbitrary: n) auto

lemma length_filter_id_mono:
  "list_all2 (\<longrightarrow>) ts us \<Longrightarrow> length (filter id ts) \<le> length (filter id us)"
  by (induction ts us rule: list_all2_induct) auto

lemma strength_score_le: "strength_score p \<le> 5"
  by (simp add: strength_score_def strength_tests_def foldl_count)

lemma char_class_cover: "is_lower c \<or> is_upper c \<or> is_digit c \<or> \<not> is_alnum c"
  by (auto simp: is_alnum_def is_letter_def)

lemma strength_score_pos:
  assumes "p \<noteq> []"
  shows "1 \<le> strength_score p"
proof -
  obtain c cs where p: "p = c # cs" using assms by (cases p) auto
  have "list_ex is_lower p \<or> list_ex is_upper p \<or> list_ex is_digit p \<or> list_ex (\<lambda>c. \<not> is_alnum c) p"
    using char_class_cover [of c] by (auto simp: p)
  then show ?thesis
    by (auto simp: strength_score_def strength_tests_def foldl_count)
qed

text \<open>C25: Every non-empty password scores at least 1, so the meter's \<open>Very Weak\<close>
  level is never shown, and the score never exceeds 5, so \<open>Math.min(score, 5)\<close>
  never changes it.\<close>

theorem strength_nonempty_not_very_weak:
  assumes "pw \<noteq> []"
  shows "1 \<le> score (getPasswordStrength pw) \<and> label (getPasswordStrength pw) \<noteq> ''Very Weak''
         \<and> getPasswordStrength pw = levels ! strength_score pw"
proof -
  have "1 \<le> strength_score pw" "strength_score pw \<le> 5"
    using strength_score_pos [OF assms] strength_score_le by auto
  then have "strength_score pw \<in> {1, 2, 3, 4, 5}" by auto
  then show ?thesis using assms by (auto simp: getPasswordStrength_def levels_def)
qed

text \<open>Typing more characters never lowers the password score.\<close>

theorem strength_mono: "strength_score p \<le> strength_score (p @ q)"
  unfolding strength_score_def foldl_count
  by (simp add: length_filter_id_mono strength_tests_def)

subsection \<open>Submission\<close>

lemmas form_simps = form_errors_def validate_full_name_def validate_username_def validate_email_def
  validate_password_def validate_confirm_def username_pattern_def username_char_def
  email_pattern_def email_domain_ok_def email_local_char_def email_domain_char_def
  is_alnum_def is_letter_def is_lower_def is_upper_def is_digit_def
  ascii_lower_def ascii_upper_def ascii_digits_def native_email_ok_def email_atext_def email_label_def

text \<open>The pattern rule and the browser's check disagree both ways: a domain with an
  empty label passes the pattern and is blocked by the browser, whose own message then
  shows instead of the form's; a domain without a dot passes the browser and fails the
  pattern.\<close>

lemma email_checks_disagree:
  "email_pattern ''ann@ex..com'' \<and> \<not> native_email_ok ''ann@ex..com''"
  "native_email_ok ''ann@ex'' \<and> \<not> email_pattern ''ann@ex''"
  by (simp_all add: form_simps Let_def)

text \<open>C23: The sign-up page sends a request only for a form that passes the browser's
  email check and every rule, and then exactly one, carrying all five fields
  (\<open>confirmPassword\<close> included).\<close>

theorem signup_request_iff_valid:
  "sent (sp_world (signup_submit srv p))
     = sent (sp_world p) @ (if native_email_ok (email (sp_form p)) \<and> form_errors (sp_form p) = []
                            then [PostSignup (form_data (sp_form p))] else [])"
  using signup_outcome [of srv "form_data (sp_form p)" "sp_world p"]
  by (auto simp: signup_submit_def router_remount_def store_simps Let_def split: prod.splits signup_result.splits)

text \<open>A submission that reaches the request remounts the page, so both password inputs
  are masked again, whatever their eye buttons had shown.\<close>

lemma signup_submit_masks_passwords:
  assumes "native_email_ok (email (sp_form p))" and "form_errors (sp_form p) = []"
  shows "ss_password_type (signup_view b (signup_submit srv p)) = ''password''
    \<and> ss_confirm_type (signup_view b (signup_submit srv p)) = ''password''"
  using assms
  by (auto simp: signup_submit_def router_remount_def signup_view_def Let_def split: prod.split signup_result.split)

text \<open>C24: A sign-up that passes the browser's email check and every rule and that the server rejects leaves the user on the sign-up page with an empty
  form and the store's error cleared: the store's loading flag made \<open>App\<close> unmount
  the router, and the remounted page starts afresh; only the toast reports the
  failure.\<close>

theorem signup_failure_resets_page:
  assumes "native_email_ok (email (sp_form p))" and "form_errors (sp_form p) = []" and "sp_path p = ''/signup''"
    and "srv (PostSignup (form_data (sp_form p))) = Inl e"
  shows "sp_form (signup_submit srv p) = empty_form
    \<and> sp_path (signup_submit srv p) = ''/signup''
    \<and> error (st (sp_world (signup_submit srv p))) = JNull
    \<and> sp_toasts (signup_submit srv p) = sp_toasts p @ [ToastError (js_or (exn_detail e) (JStr ''Signup failed''))]"
  using assms by (simp add: signup_submit_def signup_def signup_resume_def router_remount_def
                            store_simps Let_def js_or_def)

theorem strength_nonempty_not_very_weak_witness:
  "getPasswordStrength ''a'' = levels ! 1 \<and> label (getPasswordStrength ''a'') = ''Weak''"
proof -
  have h: "''a'' \<noteq> []" by simp
  have s: "strength_score ''a'' = 1"
    by (simp add: strength_score_def strength_tests_def foldl_count form_simps)
  from strength_nonempty_not_very_weak [OF h] s show ?thesis by (simp add: levels_def)
qed

theorem signup_failure_resets_page_witness:
  "sp_form (signup_submit server_C ((signup_mount (boot None))\<lparr>sp_form := ann_form\<rparr>)) = empty_form
   \<and> sp_toasts (signup_submit server_C ((signup_mount (boot None))\<lparr>sp_form := ann_form\<rparr>))
       = [ToastError (JStr ''Signup failed'')]"
proof -
  let ?p = "(signup_mount (boot None))\<lparr>sp_form := ann_form\<rparr>"
  have h0: "native_email_ok (email (sp_form ?p))" by (simp add: ann_form_def form_simps)
  have h1: "form_errors (sp_form ?p) = []" by (simp add: ann_form_def form_simps)
  have h2: "sp_path ?p = ''/signup''" by (simp add: signup_mount_def)
  have h3: "server_C (PostSignup (form_data (sp_form ?p))) = Inl NetworkError" by (simp add: server_C_def)
  from signup_failure_resets_page [of ?p server_C, OF h0 h1 h2 h3] show ?thesis
    by (simp add: signup_mount_def js_simps)
qed

end
