(* ===== verification/Theme.thy ===== *)
theory Theme
  imports Prelude
begin

text \<open>
  The theme context (\<open>contexts/ThemeContext.js\<close>): the provider's state is the theme
  name, initialised from the \<open>theme\<close> entry of localStorage or else from the system's
  colour-scheme preference; its effect puts the theme's class on the document root,
  writes the nineteen colour variables of the light or dark palette and stores the
  theme. The environment the provider reads and writes is a record of the stored
  entry, the preference, the root's class list and its style properties.
  \<open>classList.add\<close> throws on an empty token or one with white space, so the effect
  is partial. The provider sits below \<open>App\<close>'s loading check, so it is mounted
  afresh every time the session store stops loading.
\<close>

record dom_env =
  local_theme :: "string option"
  prefers_dark :: bool
  root_classes :: "string list"
  css_vars :: "(string \<times> string) list"

text \<open>The \<open>useState\<close> initialiser (lines 14--21): a truthy stored entry, else the
  preference.\<close>

definition theme_init :: "dom_env \<Rightarrow> string" where
  "theme_init env =
     (case local_theme env of
        Some s \<Rightarrow> if s \<noteq> [] then s else if prefers_dark env then ''dark'' else ''light''
      | None \<Rightarrow> if prefers_dark env then ''dark'' else ''light'')"

definition dark_vars :: "(string \<times> string) list" where
  "dark_vars =
     [(''--background'', ''0 0% 3.9%''), (''--foreground'', ''0 0% 98%''),
      (''--card'', ''0 0% 3.9%''), (''--card-foreground'', ''0 0% 98%''),
      (''--popover'', ''0 0% 3.9%''), (''--popover-foreground'', ''0 0% 98%''),
      (''--primary'', ''0 0% 98%''), (''--primary-foreground'', ''0 0% 9%''),
      (''--secondary'', ''0 0% 14.9%''), (''--secondary-foreground'', ''0 0% 98%''),
      (''--muted'', ''0 0% 14.9%''), (''--muted-foreground'', ''0 0% 63.9%''),
      (''--accent'', ''0 0% 14.9%''), (''--accent-foreground'', ''0 0% 98%''),
      (''--destructive'', ''0 62.8% 30.6%''), (''--destructive-foreground'', ''0 0% 98%''),
      (''--border'', ''0 0% 14.9%''), (''--input'', ''0 0% 14.9%''), (''--ring'', ''0 0% 83.1%'')]"

definition light_vars :: "(string \<times> string) list" where
  "light_vars =
     [(''--background'', ''0 0% 100%''), (''--foreground'', ''0 0% 3.9%''),
      (''--card'', ''0 0% 100%''), (''--card-foreground'', ''0 0% 3.9%''),
      (''--popover'', ''0 0% 100%''), (''--popover-foreground'', ''0 0% 3.9%''),
      (''--primary'', ''0 0% 9%''), (''--primary-foreground'', ''0 0% 98%''),
      (''--secondary'', ''0 0% 96.1%''), (''--secondary-foreground'', ''0 0% 9%''),
      (''--muted'', ''0 0% 96.1%''), (''--muted-foreground'', ''0 0% 45.1%''),
      (''--accent'', ''0 0% 96.1%''), (''--accent-foreground'', ''0 0% 9%''),
      (''--destructive'', ''0 84.2% 60.2%''), (''--destructive-foreground'', ''0 0% 98%''),
      (''--border'', ''0 0% 89.8%''), (''--input'', ''0 0% 89.8%''), (''--ring'', ''0 0% 3.9%'')]"

text \<open>\<open>DOMTokenList.add\<close> and \<open>remove\<close>: \<open>None\<close> is the \<open>SyntaxError\<close> or
  \<open>InvalidCharacterError\<close> an empty token or one with ASCII white space raises.\<close>

definition token_ok :: "string \<Rightarrow> bool" where
  "token_ok c \<longleftrightarrow> c \<noteq> [] \<and> (\<forall>x \<in> set c. x \<notin> set [CHR '' '', CHR 0x09, CHR 0x0A, CHR 0x0C, CHR 0x0D])"

definition class_add :: "string \<Rightarrow> string list \<Rightarrow> string list option" where
  "class_add c cs = (if \<not> token_ok c then None else if c \<in> set cs then Some cs else Some (cs @ [c]))"

definition class_remove :: "string list \<Rightarrow> string list \<Rightarrow> string list" where
  "class_remove rm cs = filter (\<lambda>c. c \<notin> set rm) cs"

text \<open>The effect (lines 23--77), run after every commit that changed the theme.\<close>

definition theme_effect :: "string \<Rightarrow> dom_env \<Rightarrow> dom_env option" where
  "theme_effect theme env =
     (case class_add theme (class_remove [''light'', ''dark''] (root_classes env)) of
        None \<Rightarrow> None
      | Some cs \<Rightarrow>
          Some (env\<lparr>root_classes := cs,
                    css_vars := assign_all (css_vars env) (if theme = ''dark'' then dark_vars else light_vars),
                    local_theme := Some theme\<rparr>))"

definition toggleTheme :: "string \<Rightarrow> string" where
  "toggleTheme prevTheme = (if prevTheme = ''light'' then ''dark'' else ''light'')"

definition isDark :: "string \<Rightarrow> bool" where
  "isDark theme \<longleftrightarrow> theme = ''dark''"

datatype theme_error = OutsideProvider

text \<open>\<open>useTheme\<close> (lines 5--11): the context value, or the error thrown outside a
  provider.\<close>

definition useTheme :: "'a option \<Rightarrow> theme_error + 'a" where
  "useTheme ctx = (case ctx of None \<Rightarrow> Inl OutsideProvider | Some v \<Rightarrow> Inr v)"

record provider =
  p_theme :: string
  p_env :: dom_env

text \<open>Mounting the provider: the initial state, then the effect.\<close>

definition provider_mount :: "dom_env \<Rightarrow> provider option" where
  "provider_mount env =
     (let t = theme_init env in map_option (\<lambda>e. \<lparr>p_theme = t, p_env = e\<rparr>) (theme_effect t env))"

text \<open>The header's toggle button (Header.js line 44) calls \<open>toggleTheme\<close>; the
  effect follows the commit.\<close>

definition provider_toggle :: "provider \<Rightarrow> provider option" where
  "provider_toggle p =
     (let t = toggleTheme (p_theme p) in map_option (\<lambda>e. \<lparr>p_theme = t, p_env = e\<rparr>) (theme_effect t (p_env p)))"

datatype theme_event = Toggle | Remount

fun theme_step :: "provider \<Rightarrow> theme_event \<Rightarrow> provider option" where
  "theme_step p Toggle = provider_toggle p"
| "theme_step p Remount = provider_mount (p_env p)"

fun theme_run :: "provider \<Rightarrow> theme_event list \<Rightarrow> provider option" where
  "theme_run p [] = Some p"
| "theme_run p (e # es) = (case theme_step p e of None \<Rightarrow> None | Some p' \<Rightarrow> theme_run p' es)"

text \<open>The theme icon of the header (lines 48--52): a sun in dark mode, else a moon.\<close>

datatype theme_icon = SunIcon | MoonIcon

definition header_theme_icon :: "string \<Rightarrow> theme_icon" where
  "header_theme_icon theme = (if theme = ''dark'' then SunIcon else MoonIcon)"

text \<open>The stored entry holds the current theme, which is never empty.\<close>

definition theme_inv :: "provider \<Rightarrow> bool" where
  "theme_inv p \<longleftrightarrow> local_theme (p_env p) = Some (p_theme p) \<and> p_theme p \<noteq> []"

text \<open>Environments for the examples.\<close>

definition env_dark :: dom_env where
  "env_dark = \<lparr>local_theme = None, prefers_dark = True, root_classes = [], css_vars = []\<rparr>"

definition env_blue :: dom_env where
  "env_blue = \<lparr>local_theme = Some ''blue'', prefers_dark = False, root_classes = [], css_vars = []\<rparr>"

subsection \<open>Properties\<close>

lemma theme_effect_stores:
  assumes "theme_effect t env = Some e"
  shows "local_theme e = Some t \<and> t \<noteq> []"
proof -
  from assms obtain cs where c: "class_add t (class_remove [''light'', ''dark''] (root_classes env)) = Some cs"
    and e: "local_theme e = Some t"
    by (auto simp: theme_effect_def split: option.splits)
  from c have "token_ok t" by (auto simp: class_add_def split: if_splits)
  with e show ?thesis by (simp add: token_ok_def)
qed

lemma provider_mount_inv: "provider_mount env = Some p \<Longrightarrow> theme_inv p"
  by (auto simp: provider_mount_def theme_inv_def Let_def dest: theme_effect_stores)

lemma provider_toggle_inv: "provider_toggle q = Some p \<Longrightarrow> theme_inv p"
  by (auto simp: provider_toggle_def theme_inv_def Let_def dest: theme_effect_stores)

lemma theme_step_inv: "theme_step q e = Some p \<Longrightarrow> theme_inv p"
  by (cases e) (simp_all add: provider_mount_inv provider_toggle_inv)

lemma theme_run_inv: "theme_inv q \<Longrightarrow> theme_run q es = Some p \<Longrightarrow> theme_inv p"
proof (induction es arbitrary: q)
  case Nil
  then show ?case by simp
next
  case (Cons e es)
  then obtain q' where "theme_step q e = Some q'" "theme_run q' es = Some p"
    by (auto split: option.splits)
  with Cons.IH show ?case by (blast intro: theme_step_inv)
qed

text \<open>C26: The theme survives every remount of the provider: after mounting and any sequence
  of toggles and remounts, the stored entry is the current theme, so a fresh mount
  (\<open>App\<close>'s loading screen, a reload) initialises the same theme.\<close>

theorem theme_survives_remount:
  assumes "provider_mount env = Some p0" and "theme_run p0 es = Some p"
  shows "theme_init (p_env p) = p_theme p"
proof -
  from assms have "theme_inv p" by (blast intro: theme_run_inv provider_mount_inv)
  then show ?thesis by (simp add: theme_inv_def theme_init_def)
qed

lemma map_add_twice: "m ++ n ++ n = m ++ n"
  by (rule ext) (simp add: map_add_def split: option.splits)

lemma theme_effect_vars:
  "theme_effect t env = Some e \<Longrightarrow>
     map_of (css_vars e) = map_of (css_vars env) ++ map_of (rev (if t = ''dark'' then dark_vars else light_vars))"
  by (auto simp: theme_effect_def map_of_assign_all split: option.splits)

text \<open>C27: A stored theme other than \<open>light\<close> and \<open>dark\<close> is used as it is and shown
  with the light palette; the first toggle then goes to \<open>light\<close>, which leaves every
  colour variable as it was: the click has no visible effect.\<close>

theorem theme_invalid_toggle_invisible:
  assumes "p_theme p \<noteq> ''light''" and "p_theme p \<noteq> ''dark''"
    and "map_of (css_vars (p_env p)) = m ++ map_of (rev light_vars)"
    and "provider_toggle p = Some p'"
  shows "p_theme p' = ''light'' \<and> map_of (css_vars (p_env p')) = map_of (css_vars (p_env p))"
proof -
  from assms(1,4) have e: "theme_effect ''light'' (p_env p) = Some (p_env p')" and t: "p_theme p' = ''light''"
    by (auto simp: provider_toggle_def toggleTheme_def Let_def)
  from theme_effect_vars [OF e] assms(3) have "map_of (css_vars (p_env p')) = m ++ map_of (rev light_vars) ++ map_of (rev light_vars)"
    by simp
  with t assms(3) show ?thesis by (simp only: map_add_twice)
qed

lemmas theme_eval = provider_mount_def provider_toggle_def theme_effect_def theme_init_def
  class_add_def class_remove_def token_ok_def toggleTheme_def Let_def

theorem theme_survives_remount_witness:
  "theme_init (p_env (the (theme_run (the (provider_mount env_dark)) [Toggle, Remount]))) = ''light''"
proof -
  have m: "provider_mount env_dark = Some (the (provider_mount env_dark))"
    by (simp add: env_dark_def theme_eval)
  have r: "theme_run (the (provider_mount env_dark)) [Toggle, Remount]
             = Some (the (theme_run (the (provider_mount env_dark)) [Toggle, Remount]))"
    by (simp add: env_dark_def theme_eval)
  have t: "p_theme (the (theme_run (the (provider_mount env_dark)) [Toggle, Remount])) = ''light''"
    by (simp add: env_dark_def theme_eval)
  from theme_survives_remount [OF m r] t show ?thesis by simp
qed

theorem theme_invalid_toggle_invisible_witness:
  "p_theme (the (provider_toggle (the (provider_mount env_blue)))) = ''light''
   \<and> map_of (css_vars (p_env (the (provider_toggle (the (provider_mount env_blue))))))
     = map_of (css_vars (p_env (the (provider_mount env_blue))))"
proof -
  let ?p = "the (provider_mount env_blue)"
  have h1: "p_theme ?p \<noteq> ''light''" "p_theme ?p \<noteq> ''dark''" by (simp_all add: env_blue_def theme_eval)
  have h3: "map_of (css_vars (p_env ?p)) = Map.empty ++ map_of (rev light_vars)"
    by (simp add: env_blue_def theme_eval map_of_assign_all)
  have h4: "provider_toggle ?p = Some (the (provider_toggle ?p))" by (simp add: env_blue_def theme_eval)
  from theme_invalid_toggle_invisible [OF h1 h3 h4] show ?thesis by simp
qed

end
