(* ===== verification/Profile.thy ===== *)
theory Profile
  imports Forms Theme
begin

text \<open>
  The profile page (\<open>pages/Profile/Profile.js\<close>). It reads the store's profile, keeps
  an editing flag and a loading flag, and a \<open>react-hook-form\<close> form whose default
  values are taken from the profile once, when the page mounts. Saving waits one
  second (a simulated request) and then calls the store's \<open>updateUser\<close> with the
  form's values; cancelling resets the form to its default values. The rules of the
  three registered fields are those of the sign-up page (\<open>Forms\<close>); the library
  checks length and pattern only on string values, and \<open>required\<close> on the empty
  string, \<open>null\<close> and \<open>undefined\<close>. The language select is not registered with
  the form, so \<open>language\<close> stays at its default value. As on the sign-up page the
  browser's \<open>type="email"\<close> check runs before the form's rules.
\<close>

subsection \<open>The form\<close>

record profile_values =
  pv_full_name :: jval
  pv_username :: jval
  pv_email :: jval
  pv_language :: jval

text \<open>\<open>defaultValues\<close> (lines 26--33), computed from the profile at mount.\<close>

definition profile_defaults :: "jval \<Rightarrow> profile_values" where
  "profile_defaults u =
     \<lparr>pv_full_name = js_or (js_opt_get u ''full_name'') (JStr []),
      pv_username = js_or (js_opt_get u ''username'') (JStr []),
      pv_email = js_or (js_opt_get u ''email'') (JStr []),
      pv_language = js_or (js_opt_get u ''language'') (JStr ''en'')\<rparr>"

text \<open>A rule set applied to a form value: the string rules on a string, the
  \<open>required\<close> message on \<open>null\<close> and \<open>undefined\<close>, nothing on other values.\<close>

definition field_check :: "(string \<Rightarrow> string option) \<Rightarrow> jval \<Rightarrow> string option" where
  "field_check rules v =
     (case v of JStr s \<Rightarrow> rules s | JUndef \<Rightarrow> rules [] | JNull \<Rightarrow> rules [] | _ \<Rightarrow> None)"

text \<open>The rules of lines 94--100, 114--124 and 138--144, in field order.\<close>

definition profile_errors :: "profile_values \<Rightarrow> (field \<times> string) list" where
  "profile_errors v =
     List.map_filter (\<lambda>(fld, e). map_option (Pair fld) e)
       [(FullName, field_check validate_full_name (pv_full_name v)),
        (Username, field_check validate_username (pv_username v)),
        (Email, field_check validate_email (pv_email v))]"

text \<open>The values \<open>handleSubmit\<close> passes to \<open>onSubmit\<close>: every default value's key,
  \<open>language\<close> included, in the order of \<open>defaultValues\<close>.\<close>

definition profile_data :: "profile_values \<Rightarrow> jval" where
  "profile_data v = JObj [(''full_name'', pv_full_name v), (''username'', pv_username v),
                          (''email'', pv_email v), (''language'', pv_language v)]"

text \<open>The options of the language select (lines 56--63); characters outside ASCII are
  given by their code points.\<close>

definition languageOptions :: "(string \<times> string) list" where
  "languageOptions = [(''en'', ''English''), (''es'', ''Espa'' @ [CHR 0xF1] @ ''ol''), (''fr'', ''Fran'' @ [CHR 0xE7] @ ''ais''),
                      (''de'', ''Deutsch''), (''it'', ''Italiano''), (''pt'', ''Portugu'' @ [CHR 0xEA] @ ''s'')]"

subsection \<open>The page\<close>

text \<open>The page's state: the store's world, \<open>isEditing\<close> and \<open>isLoading\<close>
  (lines 18--19), the form's current and default values and messages, the toasts
  shown, the values of a save waiting for its timer, and the value of the language
  select (lines 245--251), which is bound to neither the form nor the store, so that
  the browser selects its first option when the page mounts.\<close>

record profile_page =
  pp_world :: world
  isEditing :: bool
  pp_isLoading :: bool
  pp_values :: profile_values
  pp_defaults :: profile_values
  pp_errors :: "(field \<times> string) list"
  pp_toasts :: "toast list"
  pp_pending :: "profile_values option"
  pp_select :: string

definition profile_mount :: "world \<Rightarrow> profile_page" where
  "profile_mount w =
     \<lparr>pp_world = w, isEditing = False, pp_isLoading = False,
      pp_values = profile_defaults (user (st w)), pp_defaults = profile_defaults (user (st w)),
      pp_errors = [], pp_toasts = [], pp_pending = None, pp_select = fst (hd languageOptions)\<rparr>"

text \<open>Typing into one of the three inputs.\<close>

fun profile_change :: "field \<Rightarrow> string \<Rightarrow> profile_page \<Rightarrow> profile_page" where
  "profile_change FullName s p = p\<lparr>pp_values := (pp_values p)\<lparr>pv_full_name := JStr s\<rparr>\<rparr>"
| "profile_change Username s p = p\<lparr>pp_values := (pp_values p)\<lparr>pv_username := JStr s\<rparr>\<rparr>"
| "profile_change Email s p = p\<lparr>pp_values := (pp_values p)\<lparr>pv_email := JStr s\<rparr>\<rparr>"
| "profile_change fld s p = p"

text \<open>\<open>handleSubmit(onSubmit)\<close> (lines 35--40, 88): refused while saving (the submit
  button is disabled, line 156) and when the browser's check of the email input (its
  value's string conversion) blocks the submit event, stopped by a failing rule, else
  \<open>isLoading\<close> and the one-second wait.\<close>

definition profile_submit :: "profile_page \<Rightarrow> profile_page" where
  "profile_submit p =
     (if pp_isLoading p \<or> \<not> native_email_ok (js_to_string (pv_email (pp_values p))) then p
      else if profile_errors (pp_values p) \<noteq> [] then p\<lparr>pp_errors := profile_errors (pp_values p)\<rparr>
      else p\<lparr>pp_errors := [], pp_isLoading := True, pp_pending := Some (pp_values p)\<rparr>)"

text \<open>The rest of \<open>onSubmit\<close> when the timer fires (lines 41--48): \<open>updateUser\<close>
  with the values, leave editing, toast, clear loading. \<open>None\<close>: no save waiting.\<close>

definition profile_resume :: "profile_page \<Rightarrow> profile_page option" where
  "profile_resume p =
     (case pp_pending p of
        None \<Rightarrow> None
      | Some data \<Rightarrow>
          Some (p\<lparr>pp_world := updateUser (profile_data data) (pp_world p), isEditing := False,
                  pp_toasts := pp_toasts p @ [ToastSuccess ''Profile updated successfully!''],
                  pp_isLoading := False, pp_pending := None\<rparr>))"

text \<open>\<open>handleCancel\<close> (lines 51--54): \<open>reset()\<close> restores the default values.\<close>

definition handleCancel :: "profile_page \<Rightarrow> profile_page" where
  "handleCancel p = p\<lparr>pp_values := pp_defaults p, pp_errors := [], isEditing := False\<rparr>"

text \<open>The page's events: the edit, cancel and save buttons, typing, the save's timer,
  and a choice in the language select, which can only take one of its options.\<close>

datatype profile_event =
    EditProfile
  | ProfileChange field string
  | ProfileSubmit
  | ProfileTimer
  | ProfileCancel
  | SelectLanguage string

fun profile_step :: "profile_page \<Rightarrow> profile_event \<Rightarrow> profile_page option" where
  "profile_step p EditProfile = Some (p\<lparr>isEditing := True\<rparr>)"
| "profile_step p (ProfileChange fld s) = (if isEditing p then Some (profile_change fld s p) else None)"
| "profile_step p ProfileSubmit = (if isEditing p then Some (profile_submit p) else None)"
| "profile_step p ProfileTimer = profile_resume p"
| "profile_step p ProfileCancel = (if isEditing p then Some (handleCancel p) else None)"
| "profile_step p (SelectLanguage v) =
     (if v \<in> set (map fst languageOptions) then Some (p\<lparr>pp_select := v\<rparr>) else None)"

fun profile_run :: "profile_page \<Rightarrow> profile_event list \<Rightarrow> profile_page option" where
  "profile_run p [] = Some p"
| "profile_run p (e # es) = (case profile_step p e of None \<Rightarrow> None | Some p' \<Rightarrow> profile_run p' es)"

text \<open>The read-only view (lines 170--202) and the appearance card's button
  (lines 218--230).\<close>

definition profile_view :: "profile_page \<Rightarrow> string \<times> string \<times> string" where
  "profile_view p =
     (let u = user (st (pp_world p))
      in (jsx_text (js_opt_get u ''full_name''), ''@'' @ jsx_text (js_opt_get u ''username''),
          jsx_text (js_opt_get u ''email'')))"

text \<open>The invariant of a page mounted for profile \<open>u\<close>: the default values stay those
  of \<open>u\<close>, and the language of the form and of a waiting save is the default one.\<close>

definition profile_inv :: "jval \<Rightarrow> profile_page \<Rightarrow> bool" where
  "profile_inv u p \<longleftrightarrow> pp_defaults p = profile_defaults u
     \<and> pv_language (pp_values p) = pv_language (profile_defaults u)
     \<and> pred_option (\<lambda>d. pv_language d = pv_language (profile_defaults u)) (pp_pending p)"

definition theme_button_label :: "string \<Rightarrow> string" where
  "theme_button_label theme = (if theme = ''dark'' then ''Light Mode'' else ''Dark Mode'')"

text \<open>The appearance card's icon (lines 218--222) shows the current theme, where the
  header's icon (Header.js lines 48--52) shows the theme a click switches to.\<close>

definition appearance_icon :: "string \<Rightarrow> theme_icon" where
  "appearance_icon theme = (if theme = ''dark'' then MoonIcon else SunIcon)"

text \<open>The label of the option the language select shows (lines 245--251).\<close>

definition language_shown :: "profile_page \<Rightarrow> string" where
  "language_shown p = (case map_of languageOptions (pp_select p) of Some l \<Rightarrow> l | None \<Rightarrow> [])"

text \<open>The account statistics card (lines 255--280); \<open>toLocaleDateString\<close> stands
  for \<open>new Date(d).toLocaleDateString()\<close>, whose text depends on the browser's
  locale.\<close>

definition account_stats :: "(jval \<Rightarrow> string) \<Rightarrow> jval \<Rightarrow> (string \<times> string) list" where
  "account_stats toLocaleDateString u =
     [(''Member since'', if js_truthy (js_opt_get u ''created_at'')
                         then toLocaleDateString (js_get u ''created_at'') else ''N/A''),
      (''Total check-ins'', ''12''), (''AI sessions'', ''8''), (''Current streak'', ''5 days'')]"

text \<open>A signed-in world with a profile, and a run that edits and saves the name.\<close>

definition ann_world :: world where
  "ann_world = (boot None)\<lparr>st := (st (boot None))\<lparr>user := JObj [(''full_name'', JStr ''Ann''), (''username'', JStr ''ann''), (''email'', JStr ''ann@ex.com'')], token := JStr ''t'', isAuthenticated := True\<rparr>\<rparr>"
definition edit_save_run :: "profile_event list" where
  "edit_save_run = [EditProfile, ProfileChange FullName ''Bea'', ProfileSubmit, ProfileTimer, EditProfile]"


subsection \<open>Properties\<close>

lemma profile_change_language [simp]: "pv_language (pp_values (profile_change f s p)) = pv_language (pp_values p)"
  and profile_change_frame [simp]: "pp_defaults (profile_change f s p) = pp_defaults p"
    "pp_pending (profile_change f s p) = pp_pending p" "pp_world (profile_change f s p) = pp_world p"
  by (cases f; simp)+

lemma profile_step_inv:
  assumes "profile_inv u p" and "profile_step p e = Some p'"
  shows "profile_inv u p'"
  using assms
  by (cases e) (auto simp: profile_inv_def profile_submit_def profile_resume_def handleCancel_def
                     split: option.splits if_splits)

lemma profile_run_inv: "profile_inv u p \<Longrightarrow> profile_run p es = Some p' \<Longrightarrow> profile_inv u p'"
proof (induction es arbitrary: p)
  case Nil
  then show ?case by simp
next
  case (Cons e es)
  then obtain p1 where "profile_step p e = Some p1" "profile_run p1 es = Some p'"
    by (auto split: option.splits)
  with Cons show ?case by (blast intro: profile_step_inv)
qed

lemma profile_mount_inv: "profile_inv (user (st w)) (profile_mount w)"
  by (simp add: profile_inv_def profile_mount_def)

text \<open>Whatever language the profile holds, the select shows the first option when the
  page mounts.\<close>

lemma profile_select_ignores_language: "language_shown (profile_mount w) = ''English''"
  by (simp add: language_shown_def profile_mount_def languageOptions_def)

text \<open>C31: Cancelling an edit restores the values the profile had when the page was
  mounted, not the profile as last saved: after a save, cancel resets the form to
  the old values, and saving again writes them back.\<close>

theorem profile_cancel_restores_mount_values:
  assumes "profile_run (profile_mount w) es = Some p" and "profile_step p ProfileCancel = Some p'"
  shows "pp_values p' = profile_defaults (user (st w))"
proof -
  have "profile_inv (user (st w)) p" using profile_run_inv [OF profile_mount_inv assms(1)] .
  with assms(2) show ?thesis by (auto simp: profile_inv_def handleCancel_def split: if_splits)
qed

text \<open>C32: Every save writes the mount-time default language into the profile (\<open>en\<close>
  when the profile had none): the language select is not part of the form, so a
  choice there is never saved.\<close>

theorem profile_save_resets_language:
  assumes "profile_run (profile_mount w) es = Some p" and "profile_resume p = Some p'"
  shows "js_get (user (st (pp_world p'))) ''language'' = js_or (js_opt_get (user (st w)) ''language'') (JStr ''en'')"
proof -
  have "profile_inv (user (st w)) p" using profile_run_inv [OF profile_mount_inv assms(1)] .
  with assms(2) show ?thesis
    by (auto simp: profile_inv_def profile_resume_def updateUser_def profile_data_def
                   profile_defaults_def js_get_spread2 split: option.splits)
qed


subsection \<open>Examples\<close>

lemmas profile_eval = profile_mount_def profile_submit_def profile_resume_def handleCancel_def
  profile_errors_def field_check_def profile_defaults_def profile_data_def updateUser_def
  ann_world_def edit_save_run_def boot_def hydrate_def initial_state_def form_simps
  languageOptions_def

theorem profile_cancel_restores_mount_values_witness:
  "js_get (user (st (pp_world (the (profile_run (profile_mount ann_world) edit_save_run))))) ''full_name''
     = JStr ''Bea''
   \<and> pv_full_name (pp_values (the (profile_step (the (profile_run (profile_mount ann_world) edit_save_run))
        ProfileCancel))) = JStr ''Ann''"
proof -
  let ?p = "the (profile_run (profile_mount ann_world) edit_save_run)"
  have r: "profile_run (profile_mount ann_world) edit_save_run = Some ?p"
    by (simp add: profile_eval store_simps js_simps js_spread2_def)
  have b: "js_get (user (st (pp_world ?p))) ''full_name'' = JStr ''Bea''"
    by (simp add: profile_eval store_simps js_simps js_spread2_def)
  have c: "profile_step ?p ProfileCancel = Some (the (profile_step ?p ProfileCancel))"
    by (simp add: profile_eval store_simps js_simps js_spread2_def)
  from profile_cancel_restores_mount_values [OF r c] b show ?thesis
    by (simp add: ann_world_def profile_defaults_def js_simps)
qed


theorem profile_save_resets_language_witness:
  "js_get (user (st (pp_world (the (profile_resume (the (profile_run (profile_mount ann_world)
      [EditProfile, SelectLanguage ''fr'', ProfileSubmit]))))))) ''language'' = JStr ''en''"
proof -
  let ?p = "the (profile_run (profile_mount ann_world) [EditProfile, SelectLanguage ''fr'', ProfileSubmit])"
  have r: "profile_run (profile_mount ann_world) [EditProfile, SelectLanguage ''fr'', ProfileSubmit] = Some ?p"
    by (simp add: profile_eval store_simps js_simps)
  have s: "profile_resume ?p = Some (the (profile_resume ?p))"
    by (simp add: profile_eval store_simps js_simps)
  from profile_save_resets_language [OF r s] show ?thesis
    by (simp add: ann_world_def js_simps)
qed

end
