(* ===== verification/AuthConcurrency.thy ===== *)
theory AuthConcurrency
  imports AuthStore
begin

text \<open>
  The session store under interleaving. The browser runs one action segment at a time;
  an \<open>await\<close> suspends an action and leaves its continuation pending until the
  response arrives, and any caller (the route guard and the application root both
  call \<open>initializeAuth\<close> on mount; the header's sign-out calls \<open>logout\<close>) may run
  in between. A configuration is the world of \<open>AuthStore\<close> and the list of pending
  continuations; an event calls an action or resumes one pending continuation with
  a response, which the environment chooses freely. A page reload throws the
  in-memory state and the pending continuations away and rehydrates from storage.
  No continuation checks, when it resumes, whether the session it was started for is
  still the current one: the source has no such check.
\<close>

subsection \<open>Configurations and steps\<close>

text \<open>Where a suspended action waits: \<open>login\<close> at its POST (with the credentials
  it sent) or at its \<open>/me\<close> (with the token it read), \<open>signup\<close> at its POST,
  \<open>initializeAuth\<close> at its \<open>/me\<close>.\<close>

datatype task =
    AwaitLogin string string
  | AwaitMe jval
  | AwaitSignup
  | AwaitInit

record config =
  cworld :: world
  pending :: "task list"

datatype event =
    CallLogin string string
  | CallSignup jval
  | CallLogout
  | CallUpdateUser jval
  | CallSetError jval
  | CallClearError
  | CallInit
  | Resume nat response

text \<open>Resuming a continuation with a response: the code after the \<open>await\<close> up to
  the next \<open>await\<close> or the end, and the continuation it leaves pending, if any.\<close>

fun resume_task :: "task \<Rightarrow> response \<Rightarrow> world \<Rightarrow> world \<times> task list" where
  "resume_task (AwaitLogin email password) r w =
     (case r of
        Inl e \<Rightarrow> (snd (login_catch e w), [])
      | Inr data \<Rightarrow>
          (case login_on_token data w of
             Inl e \<Rightarrow> (snd (login_catch e w), [])
           | Inr (tok, w') \<Rightarrow> (w', [AwaitMe tok])))"
| "resume_task (AwaitMe tok) r w =
     (case r of
        Inl e \<Rightarrow> (snd (login_catch e w), [])
      | Inr udata \<Rightarrow> (snd (login_commit tok udata w), []))"
| "resume_task AwaitSignup r w = (snd (signup_resume r w), [])"
| "resume_task AwaitInit r w = (initializeAuth_resume r w, [])"

definition remove_nth :: "nat \<Rightarrow> 'a list \<Rightarrow> 'a list" where
  "remove_nth i xs = take i xs @ drop (Suc i) xs"

text \<open>One event. Calling an action runs it up to its first \<open>await\<close>; resuming
  continuation \<open>i\<close> is possible only when there is one.\<close>

fun cstep :: "config \<Rightarrow> event \<Rightarrow> config option" where
  "cstep c (CallLogin email password) =
     Some \<lparr>cworld = login_start email password (cworld c),
           pending = pending c @ [AwaitLogin email password]\<rparr>"
| "cstep c (CallSignup userData) =
     Some \<lparr>cworld = signup_start userData (cworld c), pending = pending c @ [AwaitSignup]\<rparr>"
| "cstep c CallLogout = Some (c\<lparr>cworld := logout (cworld c)\<rparr>)"
| "cstep c (CallUpdateUser d) = Some (c\<lparr>cworld := updateUser d (cworld c)\<rparr>)"
| "cstep c (CallSetError e) = Some (c\<lparr>cworld := setError e (cworld c)\<rparr>)"
| "cstep c CallClearError = Some (c\<lparr>cworld := clearError (cworld c)\<rparr>)"
| "cstep c CallInit =
     (case initializeAuth_start (cworld c) of
        (w', True) \<Rightarrow> Some \<lparr>cworld = w', pending = pending c @ [AwaitInit]\<rparr>
      | (w', False) \<Rightarrow> Some \<lparr>cworld = w', pending = pending c\<rparr>)"
| "cstep c (Resume i r) =
     (if i < length (pending c) then
        (case resume_task (pending c ! i) r (cworld c) of
           (w', ts) \<Rightarrow> Some \<lparr>cworld = w', pending = remove_nth i (pending c) @ ts\<rparr>)
      else None)"

fun run :: "config \<Rightarrow> event list \<Rightarrow> config option" where
  "run c [] = Some c"
| "run c (e # es) = (case cstep c e of None \<Rightarrow> None | Some c' \<Rightarrow> run c' es)"

text \<open>A page load: the world of \<open>boot\<close>, nothing in flight.\<close>

definition load :: "persisted option \<Rightarrow> config" where
  "load p = \<lparr>cworld = boot p, pending = []\<rparr>"

text \<open>Reachable configurations: a first visit with empty storage, any event, and a
  reload, which keeps only what was persisted.\<close>

inductive reachable :: "config \<Rightarrow> bool" where
  first_visit: "reachable (load None)"
| step: "reachable c \<Longrightarrow> cstep c e = Some c' \<Longrightarrow> reachable c'"
| reload: "reachable c \<Longrightarrow> reachable (load (storage (cworld c)))"

text \<open>The configuration of a page load after a completed login of scenario A: the
  token \<open>tok1\<close> and the profile are in storage, nothing is in flight.\<close>

definition restored_config :: config where
  "restored_config =
     load (Some \<lparr>p_token = JStr ''tok1'', p_user = JObj [(''username'', JStr ''a'')],
                 p_isAuthenticated = True\<rparr>)"

text \<open>The runs of the spec's regression scenario (section 8): a restoration or a
  login in flight, a logout, then the late success of the pending \<open>/me\<close>.\<close>

definition stale_restore_run :: "event list" where
  "stale_restore_run = [CallInit, CallLogout, Resume 0 (Inr (JObj [(''username'', JStr ''a'')]))]"

definition stale_login_run :: "event list" where
  "stale_login_run =
     [CallLogin ''a@b.com'' ''secret123'', Resume 0 (Inr (JObj [(''access_token'', JStr ''tok1'')])),
      CallLogout, Resume 0 (Inr (JObj [(''username'', JStr ''a'')]))]"

subsection \<open>The invariant\<close>

text \<open>What every step keeps: loading only while a continuation is pending, a stored
  token only in an authenticated state, and storage that mirrors the state (or no
  storage yet and the initial state).\<close>

definition storage_ok :: "world \<Rightarrow> bool" where
  "storage_ok w \<longleftrightarrow>
     (case storage w of None \<Rightarrow> st w = initial_state | Some p \<Rightarrow> p = partialize (st w))"

definition token_ok :: "auth_state \<Rightarrow> bool" where
  "token_ok s \<longleftrightarrow> (token s \<noteq> JNull \<longrightarrow> isAuthenticated s)"

definition conc_inv :: "config \<Rightarrow> bool" where
  "conc_inv c \<longleftrightarrow>
     (isLoading (st (cworld c)) \<longrightarrow> pending c \<noteq> [])
     \<and> token_ok (st (cworld c)) \<and> storage_ok (cworld c)"

subsection \<open>Preservation\<close>

lemma storage_ok_zset [simp]: "storage_ok (zset f w)"
  by (simp add: storage_ok_def)

lemma storage_ok_frame [simp]:
  "storage_ok (send r w) = storage_ok w"
  "storage_ok (w\<lparr>api_auth := h\<rparr>) = storage_ok w"
  by (simp_all add: storage_ok_def send_def split: option.split)

lemma token_ok_updates [simp]:
  "token_ok (s\<lparr>isLoading := b\<rparr>) = token_ok s"
  "token_ok (s\<lparr>error := e\<rparr>) = token_ok s"
  "token_ok (s\<lparr>user := u\<rparr>) = token_ok s"
  by (simp_all add: token_ok_def)

lemma resume_task_inv:
  assumes "token_ok (st w)" and "storage_ok w" and "resume_task t r w = (w', ts)"
  shows "token_ok (st w') \<and> storage_ok w' \<and> (isLoading (st w') \<longrightarrow> ts \<noteq> [])"
  using assms
  by (cases t; cases r)
     (auto simp: store_simps token_ok_def Let_def split: option.splits if_splits)

lemma cstep_inv:
  assumes "conc_inv c" and "cstep c e = Some c'"
  shows "conc_inv c'"
proof (cases e)
  case (Resume i r)
  obtain w' ts where rt: "resume_task (pending c ! i) r (cworld c) = (w', ts)"
    by (cases "resume_task (pending c ! i) r (cworld c)")
  with assms Resume have c': "c' = \<lparr>cworld = w', pending = remove_nth i (pending c) @ ts\<rparr>"
    by (simp split: if_splits)
  from assms(1) rt have "token_ok (st w') \<and> storage_ok w' \<and> (isLoading (st w') \<longrightarrow> ts \<noteq> [])"
    by (intro resume_task_inv) (auto simp: conc_inv_def)
  with c' show ?thesis by (simp add: conc_inv_def)
qed (use assms in \<open>auto simp: conc_inv_def store_simps token_ok_def Let_def split: if_splits\<close>)

lemma load_inv:
  assumes "storage_ok w" and "token_ok (st w)"
  shows "conc_inv (load (storage w))"
  using assms
  by (auto simp: conc_inv_def load_def boot_def storage_ok_def token_ok_def hydrate_def
                 partialize_def initial_state_def split: option.splits)

lemma reachable_conc_inv: "reachable c \<Longrightarrow> conc_inv c"
proof (induction rule: reachable.induct)
  case first_visit
  show ?case
    by (simp add: conc_inv_def load_def boot_def storage_ok_def token_ok_def hydrate_def initial_state_def)
next
  case (step c e c')
  from step.IH step.hyps(2) show ?case by (rule cstep_inv)
next
  case (reload c)
  then show ?case by (intro load_inv) (auto simp: conc_inv_def)
qed

lemma run_reachable: "reachable c \<Longrightarrow> run c es = Some c' \<Longrightarrow> reachable c'"
proof (induction es arbitrary: c)
  case Nil
  then show ?case by simp
next
  case (Cons e es)
  then obtain c1 where c1: "cstep c e = Some c1" and r: "run c1 es = Some c'"
    by (auto split: option.splits)
  from Cons.prems(1) c1 have "reachable c1" by (rule reachable.step)
  from this r show ?case by (rule Cons.IH)
qed

lemma restored_config_reachable: "reachable restored_config"
proof -
  let ?es = "[CallLogin ''a@b.com'' ''secret123'', Resume 0 (Inr (JObj [(''access_token'', JStr ''tok1'')])),
              Resume 0 (Inr (JObj [(''username'', JStr ''a'')]))]"
  obtain c where c: "run (load None) ?es = Some c"
    and s: "storage (cworld c) = Some \<lparr>p_token = JStr ''tok1'', p_user = JObj [(''username'', JStr ''a'')],
                 p_isAuthenticated = True\<rparr>"
    by (simp add: load_def boot_def hydrate_def initial_state_def store_simps remove_nth_def
                  partialize_def js_simps)
  have "reachable c" using reachable.first_visit c by (rule run_reachable)
  then have "reachable (load (storage (cworld c)))" by (rule reachable.reload)
  with s show ?thesis by (simp add: restored_config_def)
qed

lemma restored_config_state:
  "st (cworld restored_config) =
     \<lparr>user = JObj [(''username'', JStr ''a'')], token = JStr ''tok1'', isAuthenticated = True,
      isLoading = False, error = JNull\<rparr>"
  "storage (cworld restored_config) =
     Some \<lparr>p_token = JStr ''tok1'', p_user = JObj [(''username'', JStr ''a'')], p_isAuthenticated = True\<rparr>"
  "pending restored_config = []" "api_auth (cworld restored_config) = None"
  "sent (cworld restored_config) = []"
  by (simp_all add: restored_config_def load_def boot_def hydrate_def initial_state_def)

subsection \<open>What every interleaving keeps\<close>

text \<open>C5: Under every interleaving of calls, responses and reloads, the store is
  loading only while some action is suspended at an \<open>await\<close>: once nothing is in
  flight, the loading flag is down.\<close>

theorem reachable_loading_pending:
  assumes "reachable c" and "isLoading (st (cworld c))"
  shows "pending c \<noteq> []"
  using reachable_conc_inv [OF assms(1)] assms(2) by (simp add: conc_inv_def)

theorem reachable_loading_pending_witness:
  "reachable (the (cstep (load None) (CallLogin ''a@b.com'' ''secret123'')))
   \<and> isLoading (st (cworld (the (cstep (load None) (CallLogin ''a@b.com'' ''secret123'')))))
   \<and> pending (the (cstep (load None) (CallLogin ''a@b.com'' ''secret123''))) \<noteq> []"
proof -
  let ?c = "the (cstep (load None) (CallLogin ''a@b.com'' ''secret123''))"
  have r: "reachable ?c"
    by (rule reachable.step [OF reachable.first_visit, of "CallLogin ''a@b.com'' ''secret123''"]) simp
  have l: "isLoading (st (cworld ?c))" by (simp add: login_start_def)
  show ?thesis using r l reachable_loading_pending [OF r l] by simp
qed

text \<open>C6: Under every interleaving, a non-null token is only ever held in an
  authenticated state: no action leaves a token behind in a signed-out store.\<close>

theorem reachable_token_authenticated:
  assumes "reachable c" and "token (st (cworld c)) \<noteq> JNull"
  shows "isAuthenticated (st (cworld c))"
  using reachable_conc_inv [OF assms(1)] assms(2) by (simp add: conc_inv_def token_ok_def)

theorem reachable_token_authenticated_witness:
  "reachable restored_config \<and> token (st (cworld restored_config)) \<noteq> JNull
   \<and> isAuthenticated (st (cworld restored_config))"
  using restored_config_reachable
    reachable_token_authenticated [OF restored_config_reachable]
  by (simp add: restored_config_state)

subsection \<open>Stale responses\<close>

text \<open>C1: A restoration in flight, a logout, then the late success of its \<open>/me\<close>:
  the store ends authenticated, with no token and no credential on the transport, and
  persists that state. The spec's regression property (section 8) requires that a
  late identity response after a logout does not re-authenticate the session.\<close>

theorem stale_restore_reauthenticates:
  "\<exists>c. run restored_config stale_restore_run = Some c \<and> reachable c \<and> pending c = []
     \<and> isAuthenticated (st (cworld c)) \<and> token (st (cworld c)) = JNull
     \<and> api_auth (cworld c) = None
     \<and> storage (cworld c) = Some \<lparr>p_token = JNull, p_user = JObj [(''username'', JStr ''a'')],
                                  p_isAuthenticated = True\<rparr>"
proof -
  obtain c where c: "run restored_config stale_restore_run = Some c"
    and props: "pending c = [] \<and> isAuthenticated (st (cworld c)) \<and> token (st (cworld c)) = JNull
       \<and> api_auth (cworld c) = None
       \<and> storage (cworld c) = Some \<lparr>p_token = JNull, p_user = JObj [(''username'', JStr ''a'')],
                                    p_isAuthenticated = True\<rparr>"
    by (simp add: stale_restore_run_def restored_config_def load_def boot_def hydrate_def
                  initial_state_def store_simps remove_nth_def partialize_def Let_def)
  have "reachable c" using restored_config_reachable c by (rule run_reachable)
  with c props show ?thesis by blast
qed

text \<open>C2: A login in flight past its first response, a logout, then the late
  success of its \<open>/me\<close>: the session the user ended is re-established, token and
  credential included.\<close>

theorem stale_login_reauthenticates:
  "\<exists>c. run (load None) stale_login_run = Some c \<and> reachable c \<and> pending c = []
     \<and> isAuthenticated (st (cworld c)) \<and> token (st (cworld c)) = JStr ''tok1''
     \<and> api_auth (cworld c) = Some ''Bearer tok1''"
proof -
  obtain c where c: "run (load None) stale_login_run = Some c"
    and props: "pending c = [] \<and> isAuthenticated (st (cworld c)) \<and> token (st (cworld c)) = JStr ''tok1''
       \<and> api_auth (cworld c) = Some ''Bearer tok1''"
    by (simp add: stale_login_run_def load_def boot_def hydrate_def initial_state_def
                  store_simps remove_nth_def js_simps Let_def)
  have "reachable c" using reachable.first_visit c by (rule run_reachable)
  with c props show ?thesis by blast
qed

text \<open>C7: The state a stale restoration leaves survives a reload: the next page load
  restores \<open>isAuthenticated\<close> from storage, \<open>initializeAuth\<close> finds no token,
  sends nothing and keeps the session authenticated, with no credential to send.\<close>

theorem stale_session_survives_reload:
  "\<exists>c c'. run restored_config stale_restore_run = Some c
     \<and> run (load (storage (cworld c))) [CallInit] = Some c' \<and> reachable c' \<and> pending c' = []
     \<and> isAuthenticated (st (cworld c')) \<and> \<not> isLoading (st (cworld c'))
     \<and> token (st (cworld c')) = JNull \<and> api_auth (cworld c') = None \<and> sent (cworld c') = []"
proof -
  obtain c where c: "run restored_config stale_restore_run = Some c"
    and s: "storage (cworld c) = Some \<lparr>p_token = JNull, p_user = JObj [(''username'', JStr ''a'')],
                                        p_isAuthenticated = True\<rparr>"
    by (simp add: stale_restore_run_def restored_config_def load_def boot_def hydrate_def
                  initial_state_def store_simps remove_nth_def partialize_def Let_def)
  have rc: "reachable c" using restored_config_reachable c by (rule run_reachable)
  obtain c' where c': "run (load (storage (cworld c))) [CallInit] = Some c'"
    and props: "pending c' = [] \<and> isAuthenticated (st (cworld c')) \<and> \<not> isLoading (st (cworld c'))
       \<and> token (st (cworld c')) = JNull \<and> api_auth (cworld c') = None \<and> sent (cworld c') = []"
    by (simp add: s load_def boot_def hydrate_def initial_state_def store_simps Let_def)
  have "reachable (load (storage (cworld c)))" using rc by (rule reachable.reload)
  then have "reachable c'" using c' by (rule run_reachable)
  with c c' props show ?thesis by blast
qed

end
