(* ===== verification/Guard.thy ===== *)
theory Guard
  imports AuthConcurrency
begin

text \<open>
  The readers of the store that gate access: the route guard
  (\<open>components/Auth/ProtectedRoute.js\<close>) and the application root with its route
  table (\<open>App.js\<close>). A render is a function of the store's state and the current
  path to a \<open>screen\<close>; mounting a component runs its effect, and both components'
  effects call \<open>initializeAuth\<close>. \<open>App\<close> renders a full-page spinner instead of
  the router while the store is loading, so the guard below it unmounts and mounts
  again whenever loading starts and ends. The render--commit--effect cycle is the step
  function \<open>ui_step\<close> over the interleaving semantics of \<open>AuthConcurrency\<close>; the
  identity service answers each pending \<open>/me\<close> with the credential the request
  carried.
\<close>

datatype page = LoginPage | SignupPage | ForgotPasswordPage | DashboardPage | ChatPage | ProfilePage

datatype screen =
    AppLoading
  | GuardSpinner
  | Redirect string
  | PublicPage page
  | GuardedPage page

text \<open>\<open>ProtectedRoute\<close>'s render (lines 6--22): spinner while loading, a redirect to
  \<open>/login\<close> when not authenticated, the children otherwise.\<close>

definition protected_route :: "auth_state \<Rightarrow> screen \<Rightarrow> screen" where
  "protected_route s children =
     (if isLoading s then GuardSpinner
      else if \<not> isAuthenticated s then Redirect ''/login''
      else children)"

text \<open>A public route of \<open>App\<close>: the page, or a redirect to the dashboard when
  authenticated.\<close>

definition public_route :: "auth_state \<Rightarrow> page \<Rightarrow> screen" where
  "public_route s p = (if isAuthenticated s then Redirect ''/dashboard'' else PublicPage p)"

text \<open>\<open>App\<close>'s render (lines 15--80): the loading screen, or the route table.\<close>

definition app_screen :: "auth_state \<Rightarrow> string \<Rightarrow> screen" where
  "app_screen s path =
     (if isLoading s then AppLoading
      else if path = ''/login'' then public_route s LoginPage
      else if path = ''/signup'' then public_route s SignupPage
      else if path = ''/forgot-password'' then public_route s ForgotPasswordPage
      else if path = ''/'' then protected_route s (Redirect ''/dashboard'')
      else if path = ''/dashboard'' then protected_route s (GuardedPage DashboardPage)
      else if path = ''/chat'' then protected_route s (GuardedPage ChatPage)
      else if path = ''/profile'' then protected_route s (GuardedPage ProfilePage)
      else Redirect ''/'')"

text \<open>The paths whose element is rendered inside \<open>ProtectedRoute\<close>.\<close>

definition guarded_path :: "string \<Rightarrow> bool" where
  "guarded_path path \<longleftrightarrow> path \<in> {''/'', ''/dashboard'', ''/chat'', ''/profile''}"

record ui =
  uconf :: config
  upath :: string
  guard_mounted :: bool

text \<open>The first commit after a page load: the store is hydrated and not loading, so
  the route table renders; a guarded path mounts the guard, whose effect calls
  \<open>initializeAuth\<close>, and then \<open>App\<close>'s own effect calls it.\<close>

definition app_start :: "persisted option \<Rightarrow> string \<Rightarrow> ui" where
  "app_start p path =
     (let c0 = load p;
          c1 = (if guarded_path path then the (cstep c0 CallInit) else c0)
      in \<lparr>uconf = the (cstep c1 CallInit), upath = path, guard_mounted = guarded_path path\<rparr>)"

text \<open>One step of the page: while loading, a mounted guard is unmounted by \<open>App\<close>'s
  spinner, and otherwise the oldest pending request is answered; when not loading, a
  redirect is followed (the guard stays mounted between guarded paths), an unmounted
  guard on a guarded path is mounted and runs its effect, and a pending request is
  answered. \<open>None\<close>: the page has settled.\<close>

definition ui_step :: "server \<Rightarrow> ui \<Rightarrow> ui option" where
  "ui_step srv u =
     (let c = uconf u; s = st (cworld c)
      in if isLoading s \<and> guard_mounted u then Some (u\<lparr>guard_mounted := False\<rparr>)
         else if isLoading s then
           (case cstep c (Resume 0 (srv (GetMe (api_auth (cworld c))))) of
              None \<Rightarrow> None
            | Some c' \<Rightarrow> Some (u\<lparr>uconf := c'\<rparr>))
         else (case app_screen s (upath u) of
                 Redirect p \<Rightarrow>
                   Some (u\<lparr>upath := p, guard_mounted := guard_mounted u \<and> guarded_path p\<rparr>)
               | _ \<Rightarrow>
                   if guarded_path (upath u) \<and> \<not> guard_mounted u then
                     Some (u\<lparr>uconf := the (cstep c CallInit), guard_mounted := True\<rparr>)
                   else if pending c \<noteq> [] then
                     (case cstep c (Resume 0 (srv (GetMe (api_auth (cworld c))))) of
                        None \<Rightarrow> None
                      | Some c' \<Rightarrow> Some (u\<lparr>uconf := c'\<rparr>))
                   else None))"

fun ui_run :: "server \<Rightarrow> nat \<Rightarrow> ui \<Rightarrow> ui" where
  "ui_run srv 0 u = u"
| "ui_run srv (Suc n) u = (case ui_step srv u of None \<Rightarrow> u | Some u' \<Rightarrow> ui_run srv n u')"

text \<open>The session of scenario A as left in storage by a completed login.\<close>

definition stored_session :: persisted where
  "stored_session =
     \<lparr>p_token = JStr ''tok1'', p_user = JObj [(''username'', JStr ''a'')], p_isAuthenticated = True\<rparr>"

text \<open>The page at \<open>/dashboard\<close> right after a restoration has succeeded: authenticated,
  not loading, the guard unmounted by the spinner that was shown, one request of the
  first commit still in flight; \<open>rs\<close> are the requests sent so far.\<close>

definition cycle_ui :: "request list \<Rightarrow> ui" where
  "cycle_ui rs =
     \<lparr>uconf = \<lparr>cworld = \<lparr>st = \<lparr>user = JObj [(''username'', JStr ''a'')], token = JStr ''tok1'',
                                isAuthenticated = True, isLoading = False, error = JNull\<rparr>,
                         api_auth = Some ''Bearer tok1'', storage = Some stored_session,
                         sent = rs\<rparr>,
               pending = [AwaitInit]\<rparr>,
      upath = ''/dashboard'', guard_mounted = False\<rparr>"

subsection \<open>The render decision\<close>

text \<open>C4: A protected page is rendered only for a store that is authenticated and not
  loading (spec, section 4.4: protected content only once settled and signed in).\<close>

theorem app_screen_guarded:
  assumes "app_screen s path = GuardedPage p"
  shows "isAuthenticated s \<and> \<not> isLoading s"
  using assms by (auto simp: app_screen_def protected_route_def public_route_def split: if_splits)

theorem app_screen_guarded_witness:
  "app_screen (st (cworld (uconf (cycle_ui [])))) ''/dashboard'' = GuardedPage DashboardPage
   \<and> isAuthenticated (st (cworld (uconf (cycle_ui [])))) \<and> \<not> isLoading (st (cworld (uconf (cycle_ui []))))"
proof -
  have h: "app_screen (st (cworld (uconf (cycle_ui [])))) ''/dashboard'' = GuardedPage DashboardPage"
    by (simp add: cycle_ui_def app_screen_def protected_route_def)
  show ?thesis using h app_screen_guarded [OF h] by simp
qed

text \<open>\<open>ProtectedRoute\<close>'s own spinner is never on screen: \<open>App\<close> replaces the
  whole router by its loading screen whenever the store is loading, which is the
  only condition under which the guard would show it.\<close>

theorem app_screen_no_guard_spinner: "app_screen s path \<noteq> GuardSpinner"
  by (auto simp: app_screen_def protected_route_def public_route_def)

subsection \<open>The render--effect cycle\<close>

lemma ui_run_add: "ui_run srv (m + n) u = ui_run srv n (ui_run srv m u)"
proof (induction m arbitrary: u)
  case 0
  then show ?case by simp
next
  case (Suc m)
  show ?case
  proof (cases "ui_step srv u")
    case None
    then show ?thesis by (cases n) simp_all
  next
    case (Some u')
    then show ?thesis using Suc.IH [of u'] by simp
  qed
qed

declare ui_step_def [ui_simps] app_screen_def [ui_simps] protected_route_def [ui_simps]
  public_route_def [ui_simps] guarded_path_def [ui_simps] remove_nth_def [ui_simps]
  stored_session_def [ui_simps] partialize_def [ui_simps] Let_def [ui_simps]

lemma cycle_ui_period:
  "ui_run server_A 3 (cycle_ui rs) = cycle_ui (rs @ [GetMe (Some ''Bearer tok1'')])"
  by (simp add: cycle_ui_def ui_simps store_simps server_A_def numeral_3_eq_3)

lemma app_start_cycle:
  "ui_run server_A 2 (app_start (Some stored_session) ''/dashboard'')
     = cycle_ui [GetMe (Some ''Bearer tok1''), GetMe (Some ''Bearer tok1'')]"
  by (simp add: app_start_def cycle_ui_def ui_simps store_simps server_A_def
                load_def boot_def hydrate_def initial_state_def numeral_2_eq_2)

lemma cycle_ui_active: "ui_step server_A (cycle_ui rs) \<noteq> None"
  by (simp add: cycle_ui_def ui_simps)

text \<open>C3: A page load at \<open>/dashboard\<close> with a stored session the server accepts never
  settles: the guard's effect starts a restoration, \<open>App\<close>'s spinner unmounts the
  guard, the answer ends the loading and mounts the guard again, whose effect starts
  the next restoration. After \<open>2 + 3 k\<close> steps the page has sent \<open>k + 2\<close> identity
  requests and still has a step to take, for every \<open>k\<close>.\<close>

theorem guard_never_settles:
  "ui_run server_A (2 + 3 * k) (app_start (Some stored_session) ''/dashboard'')
     = cycle_ui (replicate (k + 2) (GetMe (Some ''Bearer tok1'')))
   \<and> ui_step server_A (ui_run server_A (2 + 3 * k) (app_start (Some stored_session) ''/dashboard'')) \<noteq> None"
proof -
  have "ui_run server_A (2 + 3 * k) (app_start (Some stored_session) ''/dashboard'')
     = cycle_ui (replicate (k + 2) (GetMe (Some ''Bearer tok1'')))"
  proof (induction k)
    case 0
    then show ?case using app_start_cycle by simp
  next
    case (Suc k)
    have "2 + 3 * Suc k = (2 + 3 * k) + 3" by simp
    then show ?case
      using Suc.IH by (simp only: ui_run_add cycle_ui_period) (simp add: replicate_append_same)
  qed
  then show ?thesis by (simp add: cycle_ui_active)
qed

text \<open>The same page load with a stored token the server rejects settles after four
  steps at \<open>/login\<close>, signed out, having sent two identity requests: the loop needs a
  restoration that succeeds.\<close>

theorem guard_rejected_settles:
  "upath (ui_run server_C 4 (app_start (Some stored_session) ''/dashboard'')) = ''/login''
   \<and> \<not> isAuthenticated (st (cworld (uconf (ui_run server_C 4 (app_start (Some stored_session) ''/dashboard'')))))
   \<and> length (sent (cworld (uconf (ui_run server_C 4 (app_start (Some stored_session) ''/dashboard''))))) = 2
   \<and> ui_step server_C (ui_run server_C 4 (app_start (Some stored_session) ''/dashboard'')) = None"
  by (simp add: app_start_def ui_simps store_simps server_C_def
                load_def boot_def hydrate_def initial_state_def numeral_eq_Suc)

end
