(* ===== verification/Layout.thy ===== *)
theory Layout
  imports Guard Theme
begin

text \<open>
  The frame around the protected pages: the header (\<open>components/Layout/Header.js\<close>)
  with the theme button, the user menu and its sign-out, and the sidebar
  (\<open>components/Layout/Sidebar.js\<close>) with its navigation links. The header's only
  state is the open flag of the user menu; sign-out calls the store's \<open>logout\<close>,
  after which the route guard of \<open>Guard\<close> decides what the protected path shows.
\<close>

subsection \<open>The header\<close>

record header =
  h_world :: world
  isProfileOpen :: bool

text \<open>\<open>handleLogout\<close> (lines 17--20).\<close>

definition handleLogout :: "header \<Rightarrow> header" where
  "handleLogout h = h\<lparr>h_world := logout (h_world h), isProfileOpen := False\<rparr>"

text \<open>The user button (lines 57--65) toggles the menu.\<close>

definition toggleProfileMenu :: "header \<Rightarrow> header" where
  "toggleProfileMenu h = h\<lparr>isProfileOpen := \<not> isProfileOpen h\<rparr>"

text \<open>The name on the user button, \<open>user?.full_name || user?.username\<close> (line 63),
  and the menu's name and email (lines 72--73), as rendered text.\<close>

definition header_name :: "jval \<Rightarrow> string" where
  "header_name u = jsx_text (js_or (js_opt_get u ''full_name'') (js_opt_get u ''username''))"

definition header_menu :: "header \<Rightarrow> (string \<times> string) option" where
  "header_menu h =
     (if isProfileOpen h
      then Some (jsx_text (js_opt_get (user (st (h_world h))) ''full_name''),
                 jsx_text (js_opt_get (user (st (h_world h))) ''email''))
      else None)"

text \<open>The header as rendered (lines 22--88): the title, the theme button's icon, the
  name on the user button and the open menu.\<close>

definition header_view :: "string \<Rightarrow> header \<Rightarrow> string \<times> theme_icon \<times> string \<times> (string \<times> string) option" where
  "header_view theme h =
     (''NeuroQ'', header_theme_icon theme, header_name (user (st (h_world h))), header_menu h)"

subsection \<open>The sidebar\<close>

definition navigation :: "(string \<times> string) list" where
  "navigation = [(''Dashboard'', ''/dashboard''), (''AI Chat'', ''/chat''), (''Profile'', ''/profile'')]"

text \<open>\<open>NavLink\<close>'s \<open>isActive\<close> (lines 32--41): the location is the link's path or
  below it, compared without regard to case.\<close>

definition nav_active :: "string \<Rightarrow> string \<Rightarrow> bool" where
  "nav_active path href \<longleftrightarrow>
     toLowerCase path = toLowerCase href \<or> prefix (toLowerCase href @ ''/'') (toLowerCase path)"

definition sidebar_view :: "string \<Rightarrow> (string \<times> bool) list" where
  "sidebar_view path = map (\<lambda>(name, href). (name, nav_active path href)) navigation"

subsection \<open>Sign-out on a protected page\<close>

text \<open>The page after the header's sign-out: the menu was open, its button calls
  \<open>handleLogout\<close>.\<close>

definition signed_out_ui :: "ui \<Rightarrow> ui" where
  "signed_out_ui u = u\<lparr>uconf := (uconf u)\<lparr>cworld := h_world (handleLogout \<lparr>h_world = cworld (uconf u), isProfileOpen = True\<rparr>)\<rparr>\<rparr>"

subsection \<open>Properties\<close>

lemma sidebar_dashboard: "sidebar_view ''/dashboard'' = [(''Dashboard'', True), (''AI Chat'', False), (''Profile'', False)]"
  by (simp add: sidebar_view_def navigation_def nav_active_def toLowerCase_def lower_char_def ascii_upper_def ascii_lower_def)

text \<open>C30: Signing out from the header on a protected page with no request in flight
  leads, within two steps of the page, to the login page, where the page settles:
  the guard redirects, nothing is requested, and the login form is shown.\<close>

theorem header_signout_settles_at_login:
  assumes "guarded_path (upath u)" and "\<not> isLoading (st (cworld (uconf u)))" and "pending (uconf u) = []"
  shows "upath (ui_run srv 2 (signed_out_ui u)) = ''/login''
    \<and> ui_step srv (ui_run srv 2 (signed_out_ui u)) = None
    \<and> sent (cworld (uconf (ui_run srv 2 (signed_out_ui u)))) = sent (cworld (uconf u))
    \<and> app_screen (st (cworld (uconf (ui_run srv 2 (signed_out_ui u))))) ''/login'' = PublicPage LoginPage"
  using assms
  by (auto simp: signed_out_ui_def handleLogout_def logout_def store_simps ui_step_def app_screen_def
        protected_route_def public_route_def guarded_path_def numeral_2_eq_2)

theorem header_signout_settles_at_login_witness:
  "upath (ui_run server_A 2 (signed_out_ui ((cycle_ui [])\<lparr>uconf := (uconf (cycle_ui []))\<lparr>pending := []\<rparr>\<rparr>)))
     = ''/login''"
proof -
  let ?u = "(cycle_ui [])\<lparr>uconf := (uconf (cycle_ui []))\<lparr>pending := []\<rparr>\<rparr>"
  have h1: "guarded_path (upath ?u)" by (simp add: cycle_ui_def guarded_path_def)
  have h2: "\<not> isLoading (st (cworld (uconf ?u)))" by (simp add: cycle_ui_def)
  have h3: "pending (uconf ?u) = []" by simp
  from header_signout_settles_at_login [OF h1 h2 h3, of server_A] show ?thesis by simp
qed

end
