(* ===== verification/ProfileRace.thy ===== *)
theory ProfileRace
  imports Profile Layout
begin

text \<open>
  The profile page inside the application: the page of \<open>Profile\<close>, the header's
  sign-out and the sidebar's links of \<open>Layout\<close>, and the route table of \<open>Guard\<close>,
  all over the one store. The page's save waits for a timer (\<open>pages/Profile/Profile.js\<close>,
  line 39) that is not cancelled when the page unmounts: a save whose page has gone is
  an orphaned timer, whose continuation still calls the store's \<open>updateUser\<close> and the
  global toaster of \<open>App.js\<close>, while the page's own setters no longer have an effect.
  A page load runs the mount effects of \<open>ProtectedRoute\<close> and \<open>App\<close>; with a truthy
  token the store starts loading and the page unmounts at once (the cycle of \<open>Guard\<close>),
  so the properties are stated for an authenticated session without token.
\<close>

record profile_app =
  pa_world :: world
  pa_path :: string
  pa_page :: "profile_page option"
  pa_orphans :: "profile_values list"
  pa_toasts :: "toast list"

text \<open>The router's answer for a path: the target of a redirect, the path otherwise.\<close>

definition follow :: "auth_state \<Rightarrow> string \<Rightarrow> string" where
  "follow s path = (case app_screen s path of Redirect p \<Rightarrow> p | _ \<Rightarrow> path)"

text \<open>The save a page still waits for.\<close>

definition page_timer :: "profile_page option \<Rightarrow> profile_values list" where
  "page_timer pg = (case pg of Some p \<Rightarrow> (case pp_pending p of Some d \<Rightarrow> [d] | None \<Rightarrow> []) | None \<Rightarrow> [])"

text \<open>The commit after a change of the store or the path: the redirect is followed;
  the profile page is mounted when its route renders it (with the default values of
  the profile then held) and kept while it does; otherwise it unmounts, and its
  waiting save becomes an orphaned timer.\<close>

definition pa_render :: "profile_app \<Rightarrow> profile_app" where
  "pa_render a =
     (let s = st (pa_world a); path = follow s (pa_path a)
      in if app_screen s path = GuardedPage ProfilePage
         then a\<lparr>pa_path := path,
                pa_page := Some (case pa_page a of None \<Rightarrow> profile_mount (pa_world a) | Some p \<Rightarrow> p)\<rparr>
         else a\<lparr>pa_path := path, pa_page := None, pa_orphans := pa_orphans a @ page_timer (pa_page a)\<rparr>)"

text \<open>The page sees the store and the toaster as they are now.\<close>

definition page_sync :: "profile_app \<Rightarrow> profile_page \<Rightarrow> profile_page" where
  "page_sync a p = p\<lparr>pp_world := pa_world a, pp_toasts := pa_toasts a\<rparr>"

text \<open>The header and the sidebar are rendered on every guarded page.\<close>

definition layout_shown :: "profile_app \<Rightarrow> bool" where
  "layout_shown a = (case app_screen (st (pa_world a)) (pa_path a) of GuardedPage pg \<Rightarrow> True | _ \<Rightarrow> False)"

datatype app_event =
    OnPage profile_event
  | SignOut
  | NavigateTo string
  | OrphanTimer

text \<open>One event: an event of the mounted page (its timer only once the older orphaned
  timers, set one second earlier, have fired); the header's sign-out
  (\<open>handleLogout\<close>, Header.js lines 17--20) and a sidebar link (Sidebar.js lines
  31--48) where the layout is shown; the oldest orphaned timer, which runs the rest of
  \<open>onSubmit\<close> (Profile.js lines 41--43) with the page's setters dropped.\<close>

fun app_step :: "profile_app \<Rightarrow> app_event \<Rightarrow> profile_app option" where
  "app_step a (OnPage e) =
     (case pa_page a of
        None \<Rightarrow> None
      | Some p \<Rightarrow>
          if e = ProfileTimer \<and> pa_orphans a \<noteq> [] then None
          else (case profile_step (page_sync a p) e of
                  None \<Rightarrow> None
                | Some p' \<Rightarrow> Some (pa_render (a\<lparr>pa_world := pp_world p', pa_toasts := pp_toasts p',
                                                pa_page := Some p'\<rparr>))))"
| "app_step a SignOut =
     (if layout_shown a
      then Some (pa_render (a\<lparr>pa_world := h_world (handleLogout \<lparr>h_world = pa_world a, isProfileOpen = True\<rparr>)\<rparr>))
      else None)"
| "app_step a (NavigateTo href) =
     (if layout_shown a \<and> href \<in> set (map snd navigation) then Some (pa_render (a\<lparr>pa_path := href\<rparr>))
      else None)"
| "app_step a OrphanTimer =
     (case pa_orphans a of
        [] \<Rightarrow> None
      | d # ds \<Rightarrow> Some (a\<lparr>pa_world := updateUser (profile_data d) (pa_world a),
                          pa_toasts := pa_toasts a @ [ToastSuccess ''Profile updated successfully!''],
                          pa_orphans := ds\<rparr>))"

fun app_run :: "profile_app \<Rightarrow> app_event list \<Rightarrow> profile_app option" where
  "app_run a [] = Some a"
| "app_run a (e # es) = (case app_step a e of None \<Rightarrow> None | Some a' \<Rightarrow> app_run a' es)"

text \<open>The mount effects of a page load on a protected path, in the order React runs
  them (as \<open>Guard.app_start\<close> does): \<open>ProtectedRoute\<close>'s (ProtectedRoute.js lines 9--11),
  then \<open>App\<close>'s (App.js lines 20--22), each the first segment of \<open>initializeAuth\<close>. With
  a truthy token the first sets \<open>isLoading\<close> and sends \<open>/me\<close>; without one both only
  clear \<open>isLoading\<close>.\<close>

definition guard_effects :: "world \<Rightarrow> world" where
  "guard_effects w = fst (initializeAuth_start (fst (initializeAuth_start w)))"

text \<open>Loading the application on a path: the first commit mounts the routed page, the
  mount effects run, and the commit that follows renders their result; while the store
  is loading \<open>App\<close> shows its loading screen and the page is unmounted (with a
  truthy token this is the unending cycle of \<open>Guard\<close>, C3, whose answers to \<open>/me\<close> this
  theory does not model).\<close>

definition app_load :: "world \<Rightarrow> string \<Rightarrow> profile_app" where
  "app_load w path =
     (let a = pa_render \<lparr>pa_world = w, pa_path = path, pa_page = None, pa_orphans = [], pa_toasts = []\<rparr>
      in pa_render (a\<lparr>pa_world := guard_effects (pa_world a)\<rparr>))"

definition app_open :: "world \<Rightarrow> profile_app" where
  "app_open w = app_load w ''/profile''"

text \<open>The states reached from \<open>/profile\<close> opened on a settled, signed-in world \<open>w\<close>.\<close>

inductive app_reach :: "world \<Rightarrow> profile_app \<Rightarrow> bool" where
  opened: "isAuthenticated (st w) \<Longrightarrow> \<not> isLoading (st w) \<Longrightarrow> app_reach w (app_open w)"
| step: "app_reach w a \<Longrightarrow> app_step a e = Some a' \<Longrightarrow> app_reach w a'"

text \<open>Save, then sign out before the timer fires.\<close>

definition save_then_signout :: "app_event list" where
  "save_then_signout = [OnPage EditProfile, OnPage ProfileSubmit, SignOut, OrphanTimer]"

text \<open>The invariant of the states reached from \<open>w\<close>: not loading, and either signed in
  with the token and credential of \<open>w\<close> on a page of the sidebar, the profile page
  mounted exactly on \<open>/profile\<close>, or signed out with neither, on the login page.\<close>

definition app_inv :: "world \<Rightarrow> profile_app \<Rightarrow> bool" where
  "app_inv w a \<longleftrightarrow> \<not> isLoading (st (pa_world a)) \<and>
     ((isAuthenticated (st (pa_world a)) \<and> token (st (pa_world a)) = token (st w)
       \<and> api_auth (pa_world a) = api_auth w \<and> pa_path a \<in> set (map snd navigation)
       \<and> (pa_page a \<noteq> None \<longleftrightarrow> pa_path a = ''/profile''))
    \<or> (\<not> isAuthenticated (st (pa_world a)) \<and> token (st (pa_world a)) = JNull
       \<and> api_auth (pa_world a) = None \<and> pa_path a = ''/login'' \<and> pa_page a = None))"

subsection \<open>Lemmas\<close>

lemma updateUser_keeps_session [simp]:
  "token (st (updateUser d w)) = token (st w)" "isAuthenticated (st (updateUser d w)) = isAuthenticated (st w)"
  "isLoading (st (updateUser d w)) = isLoading (st w)" "api_auth (updateUser d w) = api_auth w"
  by (simp_all add: updateUser_def zset_def Let_def)

lemma profile_step_world:
  "profile_step p e = Some p' \<Longrightarrow> pp_world p' = pp_world p \<or> (\<exists>d. pp_world p' = updateUser d (pp_world p))"
  by (cases e) (auto simp: profile_submit_def profile_resume_def handleCancel_def split: option.splits if_splits)

lemma pa_render_frame [simp]:
  "pa_world (pa_render a) = pa_world a" "pa_toasts (pa_render a) = pa_toasts a"
  by (simp_all add: pa_render_def Let_def)

lemma navigation_paths: "set (map snd navigation) = {''/dashboard'', ''/chat'', ''/profile''}"
  by (simp add: navigation_def)

lemma nav_cases: "p \<in> set (map snd navigation) \<Longrightarrow> p = ''/dashboard'' \<or> p = ''/chat'' \<or> p = ''/profile''"
  unfolding navigation_paths by simp

lemma pa_render_signed_in:
  assumes "isAuthenticated (st (pa_world a))" "\<not> isLoading (st (pa_world a))"
    "pa_path a \<in> set (map snd navigation)"
  shows "pa_path (pa_render a) = pa_path a \<and> (pa_page (pa_render a) \<noteq> None \<longleftrightarrow> pa_path a = ''/profile'')
    \<and> pa_orphans (pa_render a) = pa_orphans a @ (if pa_path a = ''/profile'' then [] else page_timer (pa_page a))"
  using assms(1,2) nav_cases [OF assms(3)]
  by (auto simp: pa_render_def follow_def app_screen_def protected_route_def Let_def)

lemma pa_render_signed_out:
  assumes "\<not> isAuthenticated (st (pa_world a))" "\<not> isLoading (st (pa_world a))"
    "pa_path a \<in> set (map snd navigation)"
  shows "pa_path (pa_render a) = ''/login'' \<and> pa_page (pa_render a) = None
    \<and> pa_orphans (pa_render a) = pa_orphans a @ page_timer (pa_page a)"
  using assms(1,2) nav_cases [OF assms(3)]
  by (auto simp: pa_render_def follow_def app_screen_def protected_route_def public_route_def Let_def)

lemma layout_shown_inv: "app_inv w a \<Longrightarrow> layout_shown a \<longleftrightarrow> isAuthenticated (st (pa_world a))"
  unfolding app_inv_def navigation_paths
  by (auto simp: layout_shown_def app_screen_def protected_route_def public_route_def)

lemma guard_effects_no_token:
  assumes "\<not> js_truthy (token (st w))"
  shows "st (guard_effects w) = (st w)\<lparr>isLoading := False\<rparr> \<and> api_auth (guard_effects w) = api_auth w"
  using assms by (simp add: guard_effects_def initializeAuth_start_def zset_def Let_def)

lemma guard_effects_token: "js_truthy (token (st w)) \<Longrightarrow> isLoading (st (guard_effects w))"
  by (simp add: guard_effects_def initializeAuth_start_def zset_def send_def Let_def)

lemma app_load_inv:
  assumes "isAuthenticated (st w)" "\<not> isLoading (st w)" "\<not> js_truthy (token (st w))"
    "path \<in> set (map snd navigation)"
  shows "app_inv w (app_load w path)"
proof -
  let ?a = "pa_render \<lparr>pa_world = w, pa_path = path, pa_page = None, pa_orphans = [], pa_toasts = []\<rparr>"
  have a: "pa_world ?a = w" "pa_path ?a = path"
    using pa_render_signed_in [of "\<lparr>pa_world = w, pa_path = path, pa_page = None, pa_orphans = [], pa_toasts = []\<rparr>"] assms
    by simp_all
  show ?thesis
    using pa_render_signed_in [of "?a\<lparr>pa_world := guard_effects (pa_world ?a)\<rparr>"] guard_effects_no_token [OF assms(3)] assms a
    by (simp add: app_inv_def app_load_def Let_def)
qed

text \<open>With a truthy token the loaded page is gone at once: the store is loading, no page
  is mounted and no layout is shown.\<close>

lemma pa_render_loading:
  "isLoading (st (pa_world a)) \<Longrightarrow> pa_render a = a\<lparr>pa_page := None, pa_orphans := pa_orphans a @ page_timer (pa_page a)\<rparr>"
  by (simp add: pa_render_def follow_def app_screen_def Let_def)

lemma pa_render_fresh:
  "pa_page a = None \<Longrightarrow> pa_orphans a = [] \<Longrightarrow> pa_orphans (pa_render a) = [] \<and> page_timer (pa_page (pa_render a)) = []"
  by (simp add: pa_render_def Let_def page_timer_def profile_mount_def)

lemma app_load_token:
  assumes "js_truthy (token (st w))"
  shows "isLoading (st (pa_world (app_load w path))) \<and> pa_page (app_load w path) = None
    \<and> pa_orphans (app_load w path) = [] \<and> \<not> layout_shown (app_load w path)"
proof -
  let ?a = "pa_render \<lparr>pa_world = w, pa_path = path, pa_page = None, pa_orphans = [], pa_toasts = []\<rparr>"
  have l: "isLoading (st (pa_world (?a\<lparr>pa_world := guard_effects (pa_world ?a)\<rparr>)))"
    using guard_effects_token [OF assms] by simp
  have f: "pa_orphans ?a = [] \<and> page_timer (pa_page ?a) = []" by (rule pa_render_fresh) simp_all
  show ?thesis using pa_render_loading [OF l] l f
    by (simp add: app_load_def Let_def layout_shown_def app_screen_def)
qed

lemma app_step_loading:
  "isLoading (st (pa_world a)) \<Longrightarrow> pa_page a = None \<Longrightarrow> pa_orphans a = [] \<Longrightarrow> app_step a e = None"
  by (cases e) (simp_all add: layout_shown_def app_screen_def)

text \<open>So with a truthy token no event of the profile page, the header or the sidebar can
  happen after the load.\<close>

lemma app_reach_token: "app_reach w a \<Longrightarrow> js_truthy (token (st w)) \<Longrightarrow> a = app_open w"
proof (induction rule: app_reach.induct)
  case (opened w)
  then show ?case by simp
next
  case (step w a e a')
  then have "a = app_open w" by simp
  with step.hyps(2) app_load_token [OF step.prems, of "''/profile''"] show ?case
    by (simp add: app_open_def app_step_loading)
qed

lemma handleLogout_world [simp]:
  "token (st (h_world (handleLogout h))) = JNull" "\<not> isAuthenticated (st (h_world (handleLogout h)))"
  "isLoading (st (h_world (handleLogout h))) = isLoading (st (h_world h))"
  "api_auth (h_world (handleLogout h)) = None"
  by (simp_all add: handleLogout_def logout_def zset_def Let_def)

lemma app_step_inv:
  assumes inv: "app_inv w a" and step: "app_step a e = Some a'"
  shows "app_inv w a'"
proof (cases e)
  case (OnPage pe)
  then obtain p p' where pg: "pa_page a = Some p" and ps: "profile_step (page_sync a p) pe = Some p'"
    and a': "a' = pa_render (a\<lparr>pa_world := pp_world p', pa_toasts := pp_toasts p', pa_page := Some p'\<rparr>)"
    using step by (auto split: option.splits if_splits)
  have w': "pp_world p' = pa_world a \<or> (\<exists>d. pp_world p' = updateUser d (pa_world a))"
    using profile_step_world [OF ps] by (simp add: page_sync_def)
  have "isAuthenticated (st (pa_world a)) \<and> \<not> isLoading (st (pa_world a)) \<and> pa_path a = ''/profile''
    \<and> token (st (pa_world a)) = token (st w) \<and> api_auth (pa_world a) = api_auth w"
    using inv pg by (auto simp: app_inv_def)
  with w' show ?thesis
    using pa_render_signed_in [of "a\<lparr>pa_world := pp_world p', pa_toasts := pp_toasts p', pa_page := Some p'\<rparr>"]
    by (auto simp: a' app_inv_def navigation_def)
next
  case SignOut
  let ?b = "a\<lparr>pa_world := h_world (handleLogout \<lparr>h_world = pa_world a, isProfileOpen = True\<rparr>)\<rparr>"
  have sh: "layout_shown a" and a': "a' = pa_render ?b" using step SignOut by (auto split: if_splits)
  then have "pa_path a \<in> set (map snd navigation) \<and> \<not> isLoading (st (pa_world a))"
    using inv layout_shown_inv [OF inv] by (auto simp: app_inv_def)
  then show ?thesis using pa_render_signed_out [of ?b] by (simp add: a' app_inv_def)
next
  case (NavigateTo href)
  have sh: "layout_shown a" and nav: "href \<in> set (map snd navigation)"
    and a': "a' = pa_render (a\<lparr>pa_path := href\<rparr>)" using step NavigateTo by (auto split: if_splits)
  have "isAuthenticated (st (pa_world a)) \<and> \<not> isLoading (st (pa_world a))
    \<and> token (st (pa_world a)) = token (st w) \<and> api_auth (pa_world a) = api_auth w"
    using inv layout_shown_inv [OF inv] sh by (auto simp: app_inv_def)
  then show ?thesis using pa_render_signed_in [of "a\<lparr>pa_path := href\<rparr>"] nav
    by (auto simp: a' app_inv_def)
next
  case OrphanTimer
  then obtain d ds where "pa_orphans a = d # ds"
    and a': "a' = a\<lparr>pa_world := updateUser (profile_data d) (pa_world a),
                    pa_toasts := pa_toasts a @ [ToastSuccess ''Profile updated successfully!''], pa_orphans := ds\<rparr>"
    using step by (auto split: list.splits)
  then show ?thesis using inv by (simp add: app_inv_def)
qed

lemma app_run_reach: "app_reach w a \<Longrightarrow> app_run a es = Some a' \<Longrightarrow> app_reach w a'"
proof (induction es arbitrary: a)
  case Nil
  then show ?case by simp
next
  case (Cons e es)
  then obtain a1 where "app_step a e = Some a1" "app_run a1 es = Some a'" by (auto split: option.splits)
  with Cons show ?case by (blast intro: app_reach.step)
qed

text \<open>Every orphaned save fires: as many timer events as there are orphaned saves
  run them all, in the order they were set, and leave the page as it was.\<close>

lemma orphans_fire:
  "\<exists>a'. app_run a (replicate (length (pa_orphans a)) OrphanTimer) = Some a'
     \<and> pa_orphans a' = [] \<and> pa_page a' = pa_page a \<and> pa_path a' = pa_path a
     \<and> pa_world a' = fold (\<lambda>d. updateUser (profile_data d)) (pa_orphans a) (pa_world a)"
proof (induction "pa_orphans a" arbitrary: a)
  case Nil
  then show ?case by (metis app_run.simps(1) fold_Nil id_apply list.size(3) replicate_0)
next
  case (Cons d ds)
  let ?b = "a\<lparr>pa_world := updateUser (profile_data d) (pa_world a),
              pa_toasts := pa_toasts a @ [ToastSuccess ''Profile updated successfully!''], pa_orphans := ds\<rparr>"
  have "app_step a OrphanTimer = Some ?b" using Cons.hyps(2) [symmetric] by simp
  moreover obtain a' where "app_run ?b (replicate (length ds) OrphanTimer) = Some a'"
    "pa_orphans a' = []" "pa_page a' = pa_page a" "pa_path a' = pa_path a"
    "pa_world a' = fold (\<lambda>d. updateUser (profile_data d)) ds (pa_world ?b)"
    using Cons.hyps(1) [of ?b] by auto
  ultimately show ?case using Cons.hyps(2) [symmetric] by auto
qed

subsection \<open>Properties\<close>

text \<open>C9: A save racing a sign-out never signs the user back in: every state reached
  from the profile page is settled, and either signed in with the token and credential
  it was opened with, on a page of the sidebar with the profile page mounted exactly on
  \<open>/profile\<close>, or signed out with neither, on the login page with no page mounted.\<close>

theorem app_reach_session:
  assumes "app_reach w a" and "\<not> js_truthy (token (st w))"
  shows "\<not> isLoading (st (pa_world a)) \<and>
     ((isAuthenticated (st (pa_world a)) \<and> token (st (pa_world a)) = token (st w)
       \<and> api_auth (pa_world a) = api_auth w \<and> pa_path a \<in> set (map snd navigation)
       \<and> (pa_page a \<noteq> None \<longleftrightarrow> pa_path a = ''/profile''))
    \<or> (\<not> isAuthenticated (st (pa_world a)) \<and> token (st (pa_world a)) = JNull
       \<and> api_auth (pa_world a) = None \<and> pa_path a = ''/login'' \<and> pa_page a = None))"
proof -
  have "app_inv w a" using assms
  proof (induction rule: app_reach.induct)
    case (opened w)
    have "''/profile'' \<in> set (map snd navigation)" by (simp add: navigation_def)
    then show ?case using app_load_inv [OF opened.hyps opened.prems] by (simp add: app_open_def)
  next
    case (step w a e a')
    then show ?case using app_step_inv by blast
  qed
  then show ?thesis by (simp add: app_inv_def)
qed

text \<open>C8: A save whose timer fires after a sign-out writes the profile into the
  signed-out store: the login page is shown, no token is held, and the storage of the
  signed-out browser keeps the name, username and email of the user who signed out,
  while the toaster reports the update.\<close>

theorem save_racing_signout_persists_profile:
  assumes "isAuthenticated (st w)" "\<not> isLoading (st w)" "\<not> js_truthy (token (st w))"
    "native_email_ok (js_to_string (pv_email (profile_defaults (user (st w)))))"
    "profile_errors (profile_defaults (user (st w))) = []"
  shows "\<exists>a. app_run (app_open w) save_then_signout = Some a \<and> pa_path a = ''/login'' \<and> pa_page a = None
     \<and> storage (pa_world a) = Some \<lparr>p_token = JNull, p_user = profile_data (profile_defaults (user (st w))),
                                   p_isAuthenticated = False\<rparr>
     \<and> pa_toasts a = [ToastSuccess ''Profile updated successfully!'']"
  using assms
  by (simp add: save_then_signout_def app_open_def app_load_def guard_effects_def initializeAuth_start_def pa_render_def follow_def app_screen_def protected_route_def
      public_route_def Let_def page_sync_def profile_mount_def profile_submit_def layout_shown_def
      handleLogout_def logout_def zset_def updateUser_def page_timer_def partialize_def
      profile_data_def js_spread2_def)

subsection \<open>Examples\<close>

lemmas race_eval = save_then_signout_def app_open_def app_load_def guard_effects_def initializeAuth_start_def pa_render_def follow_def app_screen_def
  protected_route_def public_route_def Let_def page_sync_def profile_submit_def layout_shown_def
  handleLogout_def logout_def zset_def page_timer_def partialize_def profile_eval

text \<open>The page load on the entry a stale restoration leaves (C1, C7): Ann's profile,
  authenticated, no token.\<close>

definition stale_ann_world :: world where
  "stale_ann_world = boot (Some \<lparr>p_token = JNull, p_user = user (st ann_world), p_isAuthenticated = True\<rparr>)"

lemma stale_ann_session:
  "isAuthenticated (st stale_ann_world)" "\<not> isLoading (st stale_ann_world)"
  "\<not> js_truthy (token (st stale_ann_world))"
  "native_email_ok (js_to_string (pv_email (profile_defaults (user (st stale_ann_world)))))"
  "profile_errors (profile_defaults (user (st stale_ann_world))) = []"
  by (simp_all add: stale_ann_world_def profile_eval js_simps)

theorem app_reach_session_witness:
  "\<not> isAuthenticated (st (pa_world (the (app_run (app_open stale_ann_world) save_then_signout))))
   \<and> api_auth (pa_world (the (app_run (app_open stale_ann_world) save_then_signout))) = None
   \<and> pa_page (the (app_run (app_open stale_ann_world) save_then_signout)) = None"
proof -
  let ?a = "the (app_run (app_open stale_ann_world) save_then_signout)"
  have r: "app_run (app_open stale_ann_world) save_then_signout = Some ?a"
    by (simp add: race_eval store_simps js_simps stale_ann_world_def)
  have "app_reach stale_ann_world ?a"
    using app_run_reach [OF app_reach.opened [OF stale_ann_session(1,2)] r] .
  from app_reach_session [OF this stale_ann_session(3)] show ?thesis
    by (simp add: race_eval store_simps js_simps stale_ann_world_def)
qed

theorem save_racing_signout_persists_profile_witness:
  "storage (pa_world (the (app_run (app_open stale_ann_world) save_then_signout)))
     = Some \<lparr>p_token = JNull, p_user = JObj [(''full_name'', JStr ''Ann''), (''username'', JStr ''ann''),
              (''email'', JStr ''ann@ex.com''), (''language'', JStr ''en'')], p_isAuthenticated = False\<rparr>"
proof -
  obtain a where "app_run (app_open stale_ann_world) save_then_signout = Some a"
    and "storage (pa_world a) = Some \<lparr>p_token = JNull, p_user = profile_data (profile_defaults (user (st stale_ann_world))),
                                   p_isAuthenticated = False\<rparr>"
    using save_racing_signout_persists_profile [OF stale_ann_session] by blast
  then show ?thesis by (simp add: profile_data_def profile_eval js_simps stale_ann_world_def)
qed

end
