(* ===== verification/Dashboard.thy ===== *)
theory Dashboard
  imports Complex_Main AuthStore
begin

text \<open>
  The dashboard page (\<open>pages/Dashboard/Dashboard.js\<close>) with the symptom form
  (\<open>components/Dashboard/SymptomForm.js\<close>), the result card
  (\<open>PredictionResult.js\<close>), the recent submissions (\<open>RecentSubmissions.js\<close>) and
  the statistics tiles (\<open>QuickStats.js\<close>). The form keeps the selected symptoms in
  state; the browser checks the number input's \<open>min\<close>, \<open>max\<close> and \<open>step\<close> before the
  submit event, then react-hook-form checks the rules; submitting calls the page's \<open>handleSymptomSubmit\<close>, which waits two seconds
  and then shows a fixed prediction. Confidence scores are rationals: the code's
  scores are decimal literals, and \<open>Math.round\<close> of \<open>x * 100\<close> is
  \<open>\<lfloor>x * 100 + 1/2\<rfloor>\<close> (floating-point rounding of the product is not modelled).
\<close>

subsection \<open>The symptom form\<close>

definition symptomOptions :: "string list" where
  "symptomOptions =
     [''Anxiety or worry'', ''Depression or sadness'', ''Mood swings'', ''Sleep problems'',
      ''Concentration issues'', ''Social withdrawal'', ''Irritability'', ''Fatigue'',
      ''Appetite changes'', ''Panic attacks'', ''Obsessive thoughts'', ''Substance use'']"

text \<open>\<open>handleSymptomToggle\<close> (SymptomForm.js lines 37--43), the functional update
  applied to the list as it is.\<close>

definition handleSymptomToggle :: "string \<Rightarrow> string list \<Rightarrow> string list" where
  "handleSymptomToggle symptom prev =
     (if symptom \<in> set prev then filter (\<lambda>s. s \<noteq> symptom) prev else prev @ [symptom])"

text \<open>The form's values: the text, the two sliders and the optional sleep hours as
  numbers (an empty number input is \<open>None\<close>), and the selected symptoms.\<close>

record symptom_form =
  sf_input_text :: string
  sf_mood_rating :: int
  sf_sleep_hours :: "rat option"
  sf_stress_level :: int
  selectedSymptoms :: "string list"

text \<open>The rules of the four inputs (lines 60--66, 107--111, 134--137, 158--162); a rule
  given without a message reports the empty message. The sliders' own bounds keep
  their values in range.\<close>

definition symptom_errors :: "symptom_form \<Rightarrow> (string \<times> string) list" where
  "symptom_errors f =
     (if sf_input_text f = [] then [(''input_text'', ''Please describe how you're feeling'')]
      else if length (sf_input_text f) < 10
      then [(''input_text'', ''Please provide more details (at least 10 characters)'')]
      else [])
   @ (if sf_mood_rating f < 1 \<or> 10 < sf_mood_rating f then [(''mood_rating'', [])] else [])
   @ (case sf_sleep_hours f of
        None \<Rightarrow> []
      | Some h \<Rightarrow> if h < 0 \<or> 24 < h then [(''sleep_hours'', [])] else [])
   @ (if sf_stress_level f < 1 \<or> 10 < sf_stress_level f then [(''stress_level'', [])] else [])"

text \<open>\<open>handleFormSubmit\<close> (lines 45--50): the values with \<open>selected_symptoms\<close>.\<close>

definition handleFormSubmit :: "symptom_form \<Rightarrow> symptom_form option" where
  "handleFormSubmit f = (if symptom_errors f = [] then Some f else None)"

subsection \<open>Predictions\<close>

record prediction =
  predicted_disorder :: string
  confidence_score :: rat
  severity_level :: string
  recommendations :: string
  next_steps :: string
  emergency_contact_suggested :: bool

definition mockPrediction :: prediction where
  "mockPrediction =
     \<lparr>predicted_disorder = ''Anxiety'', confidence_score = 75 / 100, severity_level = ''moderate'',
      recommendations = ''Consider practicing mindfulness meditation and deep breathing exercises. Maintain a regular sleep schedule and consider speaking with a mental health professional.'',
      next_steps = ''1. Practice daily meditation'' @ [CHR 0x0A] @ ''2. Maintain regular sleep schedule''
                   @ [CHR 0x0A] @ ''3. Consider therapy'' @ [CHR 0x0A] @ ''4. Monitor symptoms'',
      emergency_contact_suggested = False\<rparr>"

text \<open>The page's state (Dashboard.js lines 19--20) and the timer of the simulated
  request.\<close>

record dashboard =
  d_prediction :: "prediction option"
  d_isLoading :: bool
  d_pending :: bool
  d_toasts :: "string list"

definition dashboard_init :: dashboard where
  "dashboard_init = \<lparr>d_prediction = None, d_isLoading = False, d_pending = False, d_toasts = []\<rparr>"

text \<open>\<open>handleSymptomSubmit\<close> (lines 22--45) up to its \<open>await\<close>, and the rest when the
  two-second timer fires; the submitted values are not read.\<close>

definition handleSymptomSubmit :: "symptom_form \<Rightarrow> dashboard \<Rightarrow> dashboard" where
  "handleSymptomSubmit data d = d\<lparr>d_isLoading := True, d_pending := True\<rparr>"

definition symptom_resume :: "dashboard \<Rightarrow> dashboard option" where
  "symptom_resume d =
     (if d_pending d
      then Some (d\<lparr>d_prediction := Some mockPrediction, d_pending := False, d_isLoading := False,
                   d_toasts := d_toasts d @ [''Analysis completed successfully!'']\<rparr>)
      else None)"

text \<open>The browser's constraint validation of the sleep input (SymptomForm.js lines
  138--141, \<open>type="number" min="0" max="24" step="0.5"\<close>): an empty value passes, a number
  must lie in the range and be a multiple of the step from the minimum. The two sliders'
  values always satisfy their own constraints. The form does not set \<open>noValidate\<close>, so a
  failing value blocks the submit event before react-hook-form runs.\<close>

definition sleep_native_ok :: "rat option \<Rightarrow> bool" where
  "sleep_native_ok h \<longleftrightarrow>
     (case h of None \<Rightarrow> True | Some x \<Rightarrow> 0 \<le> x \<and> x \<le> 24 \<and> of_int \<lfloor>2 * x\<rfloor> = 2 * x)"

text \<open>A submit of the symptom form: the browser's check, validation, then the page's
  handler; the submit button is disabled while the page is loading (SymptomForm.js
  line 181).\<close>

definition symptom_submit :: "symptom_form \<Rightarrow> dashboard \<Rightarrow> dashboard" where
  "symptom_submit f d =
     (if d_isLoading d \<or> \<not> sleep_native_ok (sf_sleep_hours f) then d
      else case handleFormSubmit f of None \<Rightarrow> d | Some data \<Rightarrow> handleSymptomSubmit data d)"

text \<open>The mounted page with its form: the page's state and the form's selected symptoms
  (SymptomForm.js line 11). The registered inputs keep their values in the DOM; a
  submit reads them, so they are the argument of the submit event.\<close>

record dash_page =
  dp_dash :: dashboard
  dp_selected :: "string list"

definition dash_mount :: dash_page where
  "dash_mount = \<lparr>dp_dash = dashboard_init, dp_selected = []\<rparr>"

datatype dashboard_event =
    ToggleSymptom string
  | SubmitSymptoms symptom_form
  | AnalysisTimer

text \<open>One event of the page: a checkbox (SymptomForm.js lines 87--91), a submit with
  the inputs' values and the selection (lines 45--53), the analysis timer. A checkbox
  that is not on the form, a click on the disabled submit button and a timer that is
  not set cannot happen.\<close>

fun dash_step :: "dash_page \<Rightarrow> dashboard_event \<Rightarrow> dash_page option" where
  "dash_step p (ToggleSymptom s) =
     (if s \<in> set symptomOptions then Some (p\<lparr>dp_selected := handleSymptomToggle s (dp_selected p)\<rparr>)
      else None)"
| "dash_step p (SubmitSymptoms f) =
     (if d_isLoading (dp_dash p) then None
      else Some (p\<lparr>dp_dash := symptom_submit (f\<lparr>selectedSymptoms := dp_selected p\<rparr>) (dp_dash p)\<rparr>))"
| "dash_step p AnalysisTimer = map_option (\<lambda>d. p\<lparr>dp_dash := d\<rparr>) (symptom_resume (dp_dash p))"

fun dash_run :: "dash_page \<Rightarrow> dashboard_event list \<Rightarrow> dash_page option" where
  "dash_run p [] = Some p"
| "dash_run p (e # es) = (case dash_step p e of None \<Rightarrow> None | Some p' \<Rightarrow> dash_run p' es)"

text \<open>The page is loading exactly while its analysis timer is set.\<close>

definition dash_inv :: "dash_page \<Rightarrow> bool" where
  "dash_inv p \<longleftrightarrow> (d_isLoading (dp_dash p) \<longleftrightarrow> d_pending (dp_dash p))"

subsection \<open>The result card\<close>

definition getSeverityColor :: "string \<Rightarrow> string" where
  "getSeverityColor severity =
     (if severity = ''severe'' then ''text-red-600 bg-red-100 dark:bg-red-900/20''
      else if severity = ''moderate'' then ''text-yellow-600 bg-yellow-100 dark:bg-yellow-900/20''
      else if severity = ''mild'' then ''text-green-600 bg-green-100 dark:bg-green-900/20''
      else ''text-blue-600 bg-blue-100 dark:bg-blue-900/20'')"

definition getConfidenceColor :: "rat \<Rightarrow> string" where
  "getConfidenceColor confidence =
     (if 8 / 10 \<le> confidence then ''text-green-600''
      else if 6 / 10 \<le> confidence then ''text-yellow-600''
      else ''text-red-600'')"

text \<open>\<open>Math.round(confidence * 100)\<close> (line 49).\<close>

definition confidence_percent :: "rat \<Rightarrow> int" where
  "confidence_percent c = \<lfloor>c * 100 + 1 / 2\<rfloor>"

text \<open>\<open>s.charAt(0).toUpperCase() + s.slice(1)\<close> (line 58).\<close>

definition capitalize :: "string \<Rightarrow> string" where
  "capitalize s = (case s of [] \<Rightarrow> [] | c # cs \<Rightarrow> toUpperCase [c] @ cs)"

record prediction_card =
  card_disorder :: string
  card_percent :: int
  card_confidence_color :: string
  card_severity :: string
  card_severity_color :: string
  card_emergency :: bool
  card_recommendations :: string
  card_steps :: "string list"

text \<open>\<open>PredictionResult\<close>'s render (PredictionResult.js lines 9--115).\<close>

definition prediction_card :: "prediction \<Rightarrow> prediction_card" where
  "prediction_card p =
     \<lparr>card_disorder = predicted_disorder p,
      card_percent = confidence_percent (confidence_score p),
      card_confidence_color = getConfidenceColor (confidence_score p),
      card_severity = capitalize (severity_level p),
      card_severity_color = getSeverityColor (severity_level p),
      card_emergency = emergency_contact_suggested p,
      card_recommendations = recommendations p,
      card_steps = split_on (CHR 0x0A) (next_steps p)\<rparr>"

subsection \<open>Recent submissions and statistics\<close>

record submission =
  sub_id :: nat
  sub_date :: string
  sub_disorder :: string
  sub_severity :: string
  sub_confidence :: rat

definition submissions :: "submission list" where
  "submissions =
     [\<lparr>sub_id = 1, sub_date = ''2 hours ago'', sub_disorder = ''Anxiety'', sub_severity = ''moderate'', sub_confidence = 75 / 100\<rparr>,
      \<lparr>sub_id = 2, sub_date = ''1 day ago'', sub_disorder = ''Depression'', sub_severity = ''mild'', sub_confidence = 68 / 100\<rparr>,
      \<lparr>sub_id = 3, sub_date = ''3 days ago'', sub_disorder = ''No Disorder'', sub_severity = ''mild'', sub_confidence = 82 / 100\<rparr>]"

text \<open>RecentSubmissions.js keeps its own copy of the severity colours (lines 30--41).\<close>

definition recent_getSeverityColor :: "string \<Rightarrow> string" where
  "recent_getSeverityColor severity =
     (if severity = ''severe'' then ''text-red-600 bg-red-100 dark:bg-red-900/20''
      else if severity = ''moderate'' then ''text-yellow-600 bg-yellow-100 dark:bg-yellow-900/20''
      else if severity = ''mild'' then ''text-green-600 bg-green-100 dark:bg-green-900/20''
      else ''text-blue-600 bg-blue-100 dark:bg-blue-900/20'')"

text \<open>A row of the list (lines 51--90): date, disorder, severity badge and percentage.\<close>

definition submission_row :: "submission \<Rightarrow> string \<times> string \<times> string \<times> string \<times> int" where
  "submission_row s =
     (sub_date s, sub_disorder s, capitalize (sub_severity s), recent_getSeverityColor (sub_severity s),
      confidence_percent (sub_confidence s))"

subsection \<open>The page\<close>

datatype dashboard_screen =
    DashSpinner
  | UserMissing
  | DashPage jval "prediction_card option"

text \<open>The render (Dashboard.js lines 46--155): a spinner while the store loads, a
  notice without a profile, else the page greeting \<open>user?.full_name ||
  user?.username\<close> with the result card when there is a prediction.\<close>

definition dashboard_view :: "auth_state \<Rightarrow> dashboard \<Rightarrow> dashboard_screen" where
  "dashboard_view s d =
     (if isLoading s then DashSpinner
      else if \<not> js_truthy (user s) then UserMissing
      else DashPage (js_or (js_opt_get (user s) ''full_name'') (js_opt_get (user s) ''username''))
                    (map_option prediction_card (d_prediction d)))"

subsection \<open>The statistics tiles\<close>

record stat =
  stat_title :: string
  stat_value :: string
  stat_change :: string
  stat_color :: string
  stat_bgColor :: string

definition stats :: "stat list" where
  "stats =
     [\<lparr>stat_title = ''Total Check-ins'', stat_value = ''12'', stat_change = ''+2 this week'',
       stat_color = ''text-blue-600'', stat_bgColor = ''bg-blue-100 dark:bg-blue-900/20''\<rparr>,
      \<lparr>stat_title = ''Current Streak'', stat_value = ''5 days'', stat_change = ''Keep it up!'',
       stat_color = ''text-green-600'', stat_bgColor = ''bg-green-100 dark:bg-green-900/20''\<rparr>,
      \<lparr>stat_title = ''AI Sessions'', stat_value = ''8'', stat_change = ''+1 today'',
       stat_color = ''text-purple-600'', stat_bgColor = ''bg-purple-100 dark:bg-purple-900/20''\<rparr>,
      \<lparr>stat_title = ''Last Check-in'', stat_value = ''2 hours ago'', stat_change = ''Good timing'',
       stat_color = ''text-orange-600'', stat_bgColor = ''bg-orange-100 dark:bg-orange-900/20''\<rparr>]"

text \<open>The tiles (QuickStats.js lines 46--69): title, value and change of each entry,
  in order.\<close>

definition quick_stats_view :: "(string \<times> string \<times> string) list" where
  "quick_stats_view = map (\<lambda>s. (stat_title s, stat_value s, stat_change s)) stats"

text \<open>The card of the fixed prediction, and a valid form for the examples.\<close>

definition card_A :: prediction_card where
  "card_A = \<lparr>card_disorder = ''Anxiety'', card_percent = 75, card_confidence_color = ''text-yellow-600'',
     card_severity = ''Moderate'', card_severity_color = ''text-yellow-600 bg-yellow-100 dark:bg-yellow-900/20'',
     card_emergency = False,
     card_recommendations = ''Consider practicing mindfulness meditation and deep breathing exercises. Maintain a regular sleep schedule and consider speaking with a mental health professional.'',
     card_steps = [''1. Practice daily meditation'', ''2. Maintain regular sleep schedule'', ''3. Consider therapy'', ''4. Monitor symptoms'']\<rparr>"

definition anxious_form :: symptom_form where
  "anxious_form = \<lparr>sf_input_text = ''I have been anxious lately'', sf_mood_rating = 4,
                   sf_sleep_hours = Some 6, sf_stress_level = 7, selectedSymptoms = [''Anxiety or worry'']\<rparr>"

subsection \<open>Properties\<close>

lemma dash_step_inv: "dash_inv p \<Longrightarrow> dash_step p e = Some p' \<Longrightarrow> dash_inv p'"
  by (cases e) (auto simp: dash_inv_def symptom_submit_def handleSymptomSubmit_def symptom_resume_def
                     split: option.splits if_splits)

lemma dash_mount_inv: "dash_inv dash_mount"
  by (simp add: dash_inv_def dash_mount_def dashboard_init_def)

lemma toggle_distinct_set:
  assumes "distinct prev"
  shows "distinct (handleSymptomToggle s prev)
    \<and> set (handleSymptomToggle s prev) = (if s \<in> set prev then set prev - {s} else insert s (set prev))"
  using assms by (auto simp: handleSymptomToggle_def)

text \<open>C28: After any sequence of clicks on the symptom checkboxes the selection has no
  duplicates and holds exactly the symptoms clicked an odd number of times.\<close>

theorem symptoms_selected_iff_odd:
  "distinct (foldl (\<lambda>l s. handleSymptomToggle s l) [] ss)
   \<and> (x \<in> set (foldl (\<lambda>l s. handleSymptomToggle s l) [] ss) \<longleftrightarrow> odd (count_list ss x))"
proof (induction ss rule: rev_induct)
  case Nil
  then show ?case by simp
next
  case (snoc s ss)
  then show ?case using toggle_distinct_set [of "foldl (\<lambda>l s. handleSymptomToggle s l) [] ss" s]
    by (auto simp: count_list_append)
qed

lemma mock_card: "prediction_card mockPrediction = card_A"
  by (simp add: prediction_card_def mockPrediction_def card_A_def confidence_percent_def getConfidenceColor_def
      getSeverityColor_def capitalize_def toUpperCase_def upper_char_def ascii_lower_def ascii_upper_def floor_eq_iff)

text \<open>C29: A submission of the symptom form starts an analysis exactly when the
  browser's check of the sleep input and every rule pass; once its timer fires it shows
  the same result card (Anxiety, 75%, moderate, four steps) and ends the loading state,
  whatever the user entered. Any other submission sets no timer.\<close>

theorem symptom_result_fixed:
  assumes "\<not> d_isLoading d" and "\<not> d_pending d"
  shows "map_option (\<lambda>d'. (map_option prediction_card (d_prediction d'), d_isLoading d'))
           (symptom_resume (symptom_submit f d))
         = (if sleep_native_ok (sf_sleep_hours f) \<and> symptom_errors f = [] then Some (Some card_A, False) else None)"
  using assms by (simp add: symptom_submit_def handleFormSubmit_def handleSymptomSubmit_def symptom_resume_def mock_card)

lemma confidence_percent_bounds:
  assumes "0 \<le> c" and "c \<le> 1"
  shows "0 \<le> confidence_percent c \<and> confidence_percent c \<le> 100"
  using assms by (simp add: confidence_percent_def floor_le_iff le_floor_iff)

theorem symptom_result_fixed_witness:
  "map_option (\<lambda>d'. (map_option prediction_card (d_prediction d'), d_isLoading d'))
     (symptom_resume (symptom_submit anxious_form dashboard_init)) = Some (Some card_A, False)
   \<and> map_option (\<lambda>d'. (map_option prediction_card (d_prediction d'), d_isLoading d'))
     (symptom_resume (symptom_submit (anxious_form\<lparr>sf_sleep_hours := Some (73 / 10)\<rparr>) dashboard_init)) = None"
proof -
  have h1: "\<not> d_isLoading dashboard_init" "\<not> d_pending dashboard_init" by (simp_all add: dashboard_init_def)
  have v: "sleep_native_ok (sf_sleep_hours anxious_form) \<and> symptom_errors anxious_form = []"
    by (simp add: anxious_form_def symptom_errors_def sleep_native_ok_def)
  have f: "\<lfloor>(73 / 5 :: rat)\<rfloor> = 14" by (simp add: floor_eq_iff)
  have n: "\<not> sleep_native_ok (Some (73 / 10 :: rat))"
    by (simp add: sleep_native_ok_def f)
  show ?thesis using symptom_result_fixed [OF h1, of anxious_form] symptom_result_fixed [OF h1, of "anxious_form\<lparr>sf_sleep_hours := Some (73 / 10)\<rparr>"] v n
    by simp
qed

end
