(* ===== verification/LayoutApp.thy ===== *)
theory LayoutApp
  imports ProfileRace Dashboard
begin

text \<open>
  The protected part of the application as one system: the state of \<open>ProfileRace\<close>
  (the store, the path, the profile page, its orphaned saves and the global toaster)
  together with the dashboard page of \<open>Dashboard\<close> and its orphaned analyses. The
  route table mounts the dashboard on \<open>/dashboard\<close>; leaving the path unmounts it,
  and an analysis still waiting for its two-second timer (Dashboard.js line 26) keeps
  running: its continuation's \<open>setPrediction\<close> and \<open>setIsLoading\<close> have no effect,
  and its \<open>toast.success\<close> reaches the global toaster. The chat page's state and timers
  are its own (\<open>Chat\<close>) and touch neither the store nor the toaster, so \<open>/chat\<close>
  mounts nothing here. Pages are loaded with \<open>app_load\<close> of \<open>ProfileRace\<close>, so the
  properties are again stated for an authenticated session without token.
\<close>

record layout_app =
  la_app :: profile_app
  la_dash :: "dash_page option"
  la_dash_orphans :: nat

text \<open>The dashboard's part of the commit: mounted afresh when its route renders it,
  kept while it does, otherwise unmounted with a waiting analysis orphaned.\<close>

definition dash_render :: "layout_app \<Rightarrow> layout_app" where
  "dash_render l =
     (let a = la_app l
      in if app_screen (st (pa_world a)) (pa_path a) = GuardedPage DashboardPage
         then l\<lparr>la_dash := Some (case la_dash l of None \<Rightarrow> dash_mount | Some p \<Rightarrow> p)\<rparr>
         else l\<lparr>la_dash := None,
                la_dash_orphans := la_dash_orphans l
                  + (case la_dash l of Some p \<Rightarrow> if d_pending (dp_dash p) then 1 else 0 | None \<Rightarrow> 0)\<rparr>)"

text \<open>The dashboard's toasts go to the global toaster.\<close>

definition dash_flush :: "layout_app \<Rightarrow> dash_page \<Rightarrow> layout_app" where
  "dash_flush l p =
     l\<lparr>la_dash := Some (p\<lparr>dp_dash := (dp_dash p)\<lparr>d_toasts := []\<rparr>\<rparr>),
       la_app := (la_app l)\<lparr>pa_toasts := pa_toasts (la_app l) @ map ToastSuccess (d_toasts (dp_dash p))\<rparr>\<rparr>"

datatype layout_event =
    LayoutStep app_event
  | OnDashboard dashboard_event
  | DashOrphanTimer

text \<open>One event: an event of \<open>ProfileRace\<close> (the header, the sidebar, the profile page
  and its timers) followed by the dashboard's part of the commit; an event of the
  mounted dashboard (its timer once the older orphaned analyses, set two seconds
  earlier, have fired); the oldest orphaned analysis, which runs the rest of
  \<open>handleSymptomSubmit\<close> (Dashboard.js lines 38--39) with the page's setters dropped.\<close>

fun layout_step :: "layout_app \<Rightarrow> layout_event \<Rightarrow> layout_app option" where
  "layout_step l (LayoutStep e) = map_option (\<lambda>a. dash_render (l\<lparr>la_app := a\<rparr>)) (app_step (la_app l) e)"
| "layout_step l (OnDashboard e) =
     (case la_dash l of
        None \<Rightarrow> None
      | Some p \<Rightarrow>
          if e = AnalysisTimer \<and> la_dash_orphans l \<noteq> 0 then None
          else map_option (dash_flush l) (dash_step p e))"
| "layout_step l DashOrphanTimer =
     (if la_dash_orphans l = 0 then None
      else Some (l\<lparr>la_dash_orphans := la_dash_orphans l - 1,
                   la_app := (la_app l)\<lparr>pa_toasts := pa_toasts (la_app l)
                                            @ [ToastSuccess ''Analysis completed successfully!'']\<rparr>\<rparr>))"

fun layout_run :: "layout_app \<Rightarrow> layout_event list \<Rightarrow> layout_app option" where
  "layout_run l [] = Some l"
| "layout_run l (e # es) = (case layout_step l e of None \<Rightarrow> None | Some l' \<Rightarrow> layout_run l' es)"

text \<open>Loading the application on a path of the sidebar, with the guard's and \<open>App\<close>'s
  mount effects (\<open>ProfileRace.app_load\<close>); a dashboard mounted by the first commit and
  unmounted by the loading screen has no analysis running, so only the commit after
  the effects matters.\<close>

definition layout_open :: "world \<Rightarrow> string \<Rightarrow> layout_app" where
  "layout_open w path = dash_render \<lparr>la_app = app_load w path, la_dash = None, la_dash_orphans = 0\<rparr>"

inductive layout_reach :: "world \<Rightarrow> layout_app \<Rightarrow> bool" where
  opened: "isAuthenticated (st w) \<Longrightarrow> \<not> isLoading (st w) \<Longrightarrow> path \<in> set (map snd navigation)
    \<Longrightarrow> layout_reach w (layout_open w path)"
| step: "layout_reach w l \<Longrightarrow> layout_step l e = Some l' \<Longrightarrow> layout_reach w l'"

text \<open>The invariant of the layout's states reached from \<open>w\<close>: that of \<open>ProfileRace\<close>,
  the dashboard mounted exactly on \<open>/dashboard\<close>, loading exactly while its timer is
  set, its toasts handed to the toaster.\<close>

definition layout_inv :: "world \<Rightarrow> layout_app \<Rightarrow> bool" where
  "layout_inv w l \<longleftrightarrow> app_inv w (la_app l)
     \<and> (la_dash l \<noteq> None \<longleftrightarrow> pa_path (la_app l) = ''/dashboard'')
     \<and> pred_option (\<lambda>p. dash_inv p \<and> d_toasts (dp_dash p) = []) (la_dash l)"

text \<open>Submit the symptom form, go to the chat, let the analysis timer fire, come back.\<close>

definition analysis_then_leave :: "symptom_form \<Rightarrow> layout_event list" where
  "analysis_then_leave f = [OnDashboard (SubmitSymptoms f), LayoutStep (NavigateTo ''/chat''), DashOrphanTimer,
                            LayoutStep (NavigateTo ''/dashboard'')]"

subsection \<open>Lemmas\<close>

lemma symptom_errors_selected [simp]: "symptom_errors (f\<lparr>selectedSymptoms := x\<rparr>) = symptom_errors f"
  by (simp add: symptom_errors_def)

lemmas layout_eval = layout_open_def dash_render_def dash_flush_def analysis_then_leave_def dash_mount_def
  dashboard_init_def symptom_submit_def handleFormSubmit_def handleSymptomSubmit_def
  pa_render_def follow_def app_screen_def protected_route_def layout_shown_def page_timer_def Let_def
  app_load_def guard_effects_def initializeAuth_start_def

subsubsection \<open>The steps of the layout\<close>

lemma dash_render_frame [simp]: "la_app (dash_render l) = la_app l"
  by (simp add: dash_render_def Let_def)

lemma layout_run_reach: "layout_reach w l \<Longrightarrow> layout_run l es = Some l' \<Longrightarrow> layout_reach w l'"
proof (induction es arbitrary: l)
  case Nil
  then show ?case by simp
next
  case (Cons e es)
  then obtain l1 where "layout_step l e = Some l1" "layout_run l1 es = Some l'" by (auto split: option.splits)
  with Cons show ?case by (blast intro: layout_reach.step)
qed

subsubsection \<open>The invariant\<close>

lemma app_inv_toasts [simp]: "app_inv w (a\<lparr>pa_toasts := t\<rparr>) = app_inv w a"
  by (simp add: app_inv_def)

lemma dash_screen_inv:
  "app_inv w a \<Longrightarrow> app_screen (st (pa_world a)) (pa_path a) = GuardedPage DashboardPage \<longleftrightarrow> pa_path a = ''/dashboard''"
  unfolding app_inv_def navigation_paths
  by (auto simp: app_screen_def protected_route_def public_route_def)

lemma dash_render_inv:
  assumes "app_inv w (la_app l)" "pred_option (\<lambda>p. dash_inv p \<and> d_toasts (dp_dash p) = []) (la_dash l)"
  shows "layout_inv w (dash_render l)"
  using assms dash_screen_inv [OF assms(1)] dash_mount_inv
  by (auto simp: layout_inv_def dash_render_def Let_def dash_mount_def dashboard_init_def split: option.split)

lemma layout_open_inv:
  assumes "isAuthenticated (st w)" "\<not> isLoading (st w)" "\<not> js_truthy (token (st w))"
    "path \<in> set (map snd navigation)"
  shows "layout_inv w (layout_open w path)"
  unfolding layout_open_def
  using dash_render_inv [of w "\<lparr>la_app = app_load w path, la_dash = None, la_dash_orphans = 0\<rparr>"]
    app_load_inv [OF assms] by simp

lemma layout_step_inv:
  assumes inv: "layout_inv w l" and step: "layout_step l e = Some l'"
  shows "layout_inv w l'"
proof (cases e)
  case (LayoutStep x)
  then obtain a' where "app_step (la_app l) x = Some a'" "l' = dash_render (l\<lparr>la_app := a'\<rparr>)"
    using step by auto
  moreover have "app_inv w a'" using app_step_inv inv calculation(1) by (auto simp: layout_inv_def)
  ultimately show ?thesis using inv dash_render_inv [of w "l\<lparr>la_app := a'\<rparr>"] by (simp add: layout_inv_def)
next
  case (OnDashboard d)
  then obtain p p' where "la_dash l = Some p" "dash_step p d = Some p'" "l' = dash_flush l p'"
    using step by (auto split: option.splits if_splits)
  moreover have "dash_inv p" using inv calculation(1) by (simp add: layout_inv_def)
  ultimately show ?thesis using inv dash_step_inv [of p d p']
    by (auto simp: layout_inv_def dash_flush_def dash_inv_def)
next
  case DashOrphanTimer
  then show ?thesis using inv step by (auto simp: layout_inv_def split: if_splits)
qed

subsection \<open>Properties\<close>

text \<open>C10: An analysis whose page is left before its timer fires reports success
  but its result is lost: for a session the guard lets the dashboard be used in (no
  truthy token, as the stale session of C1 and C7), after submitting a form the browser
  and the rules accept, going to the chat and
  back once the timer has fired, the toaster shows that the analysis completed while
  the dashboard is mounted afresh, with no result and not loading.\<close>

theorem analysis_left_reports_success:
  assumes "isAuthenticated (st w)" "\<not> isLoading (st w)" "\<not> js_truthy (token (st w))"
    "sleep_native_ok (sf_sleep_hours f)" "symptom_errors f = []"
  shows "\<exists>l. layout_run (layout_open w ''/dashboard'') (analysis_then_leave f) = Some l
     \<and> pa_path (la_app l) = ''/dashboard'' \<and> la_dash l = Some dash_mount
     \<and> pa_toasts (la_app l) = [ToastSuccess ''Analysis completed successfully!'']"
  using assms by (simp add: layout_eval navigation_def)

text \<open>C11: In the composed application the pages are mounted by the path and the user is
  never signed back in: for a session without a truthy token (with one, the guard's
  restoration unmounts the pages at once, C3), every state reached from a page of the
  sidebar is settled,
  either signed in with the opening token on a page of the sidebar or signed out on the
  login page; the profile page is mounted exactly on \<open>/profile\<close>, the dashboard
  exactly on \<open>/dashboard\<close>, and a mounted dashboard is loading exactly while its
  analysis timer is set.\<close>

theorem layout_reach_pages:
  assumes "layout_reach w l" and "\<not> js_truthy (token (st w))"
  shows "\<not> isLoading (st (pa_world (la_app l)))
    \<and> ((isAuthenticated (st (pa_world (la_app l))) \<and> token (st (pa_world (la_app l))) = token (st w)
         \<and> pa_path (la_app l) \<in> set (map snd navigation))
       \<or> (\<not> isAuthenticated (st (pa_world (la_app l))) \<and> token (st (pa_world (la_app l))) = JNull
         \<and> pa_path (la_app l) = ''/login''))
    \<and> (pa_page (la_app l) \<noteq> None \<longleftrightarrow> pa_path (la_app l) = ''/profile'')
    \<and> (la_dash l \<noteq> None \<longleftrightarrow> pa_path (la_app l) = ''/dashboard'')
    \<and> pred_option (\<lambda>p. d_isLoading (dp_dash p) \<longleftrightarrow> d_pending (dp_dash p)) (la_dash l)"
proof -
  have "layout_inv w l" using assms
  proof (induction rule: layout_reach.induct)
    case (opened w path)
    then show ?case using layout_open_inv by blast
  next
    case (step w l e l')
    then show ?case using layout_step_inv by blast
  qed
  then show ?thesis
    by (auto simp: layout_inv_def app_inv_def dash_inv_def elim: option.pred_mono_strong)
qed

subsection \<open>Examples\<close>

lemma anxious_form_valid: "sleep_native_ok (sf_sleep_hours anxious_form)" "symptom_errors anxious_form = []"
  by (simp_all add: anxious_form_def symptom_errors_def sleep_native_ok_def)

lemma analysis_run_ann:
  "\<exists>l. layout_run (layout_open stale_ann_world ''/dashboard'') (analysis_then_leave anxious_form) = Some l
     \<and> pa_path (la_app l) = ''/dashboard''"
  using stale_ann_session(1,2,3) anxious_form_valid by (simp add: layout_eval navigation_def)

lemma analysis_run:
  "layout_run (layout_open stale_ann_world ''/dashboard'') (analysis_then_leave anxious_form)
     = Some (the (layout_run (layout_open stale_ann_world ''/dashboard'') (analysis_then_leave anxious_form)))"
  using analysis_run_ann by auto

theorem analysis_left_reports_success_witness:
  "pa_toasts (la_app (the (layout_run (layout_open stale_ann_world ''/dashboard'') (analysis_then_leave anxious_form))))
     = [ToastSuccess ''Analysis completed successfully!'']
   \<and> la_dash (the (layout_run (layout_open stale_ann_world ''/dashboard'') (analysis_then_leave anxious_form)))
     = Some dash_mount"
  using analysis_left_reports_success [OF stale_ann_session(1,2,3) anxious_form_valid] by auto

theorem layout_reach_pages_witness:
  "la_dash (the (layout_run (layout_open stale_ann_world ''/dashboard'') (analysis_then_leave anxious_form))) \<noteq> None
   \<and> pa_page (la_app (the (layout_run (layout_open stale_ann_world ''/dashboard'') (analysis_then_leave anxious_form)))) = None"
proof -
  let ?l = "the (layout_run (layout_open stale_ann_world ''/dashboard'') (analysis_then_leave anxious_form))"
  have o: "layout_reach stale_ann_world (layout_open stale_ann_world ''/dashboard'')"
    by (rule layout_reach.opened [OF stale_ann_session(1,2)]) (simp add: navigation_def)
  have p: "pa_path (la_app ?l) = ''/dashboard''" using analysis_run_ann by auto
  from layout_reach_pages [OF layout_run_reach [OF o analysis_run] stale_ann_session(3)] p show ?thesis by simp
qed

end
