(* ===== verification/Spec2Isabelle.thy ===== *)
theory Spec2Isabelle
  imports SessionSpec Chat LayoutApp
begin

text \<open>
  \<^bold>\<open>A verification library for the NeuroQ browser client.\<close>

  \<^bold>\<open>The program.\<close> The client (\<open>src/frontend/src\<close>) is a React application. Its one
  stateful component with real behaviour is the session store
  \<open>store/authStore.js\<close>: a zustand store under the \<open>persist\<close> middleware that logs in
  (POST \<open>/api/v1/auth/login\<close>, then GET \<open>/api/v1/auth/me\<close>), signs up, logs out,
  edits the profile, records errors and restores a session from localStorage
  (\<open>initializeAuth\<close>). It is the only writer of the persisted entry \<open>auth-storage\<close>
  and of the transport's default \<open>Authorization\<close> header (\<open>services/api.js\<close>, not
  among the sources). Its readers are the route guard \<open>components/Auth/ProtectedRoute.js\<close>
  and the application root \<open>App.js\<close>, which both call \<open>initializeAuth\<close> on mount and
  then render a spinner, a redirect or the protected pages; the header's sign-out
  (\<open>components/Layout/Header.js\<close>) and the profile page (\<open>pages/Profile/Profile.js\<close>)
  call \<open>logout\<close> and \<open>updateUser\<close>. The rest is presentation with small pieces of
  logic of its own: the scripted chat responder (\<open>pages/Chat/Chat.js\<close>,
  \<open>components/Chat\<close>), the signup form's validation and password meter
  (\<open>pages/Auth/Signup.js\<close>), the symptom form and prediction widgets
  (\<open>components/Dashboard\<close>, \<open>pages/Dashboard/Dashboard.js\<close>) and the theme context
  (\<open>contexts/ThemeContext.js\<close>).

  \<^bold>\<open>The theories.\<close>
  \<^item> \<open>Prelude\<close>: named collections (\<open>js_simps\<close>, \<open>store_simps\<close>, \<open>ui_simps\<close>),
    association-list facts (a JS object's property table, a style declaration),
    \<open>join\<close>, decimal rendering, the ASCII letter and digit tables.
  \<^item> \<open>JsValue\<close>: the JavaScript values the store handles (\<open>jval\<close>) and the language
    rules the code relies on: truthiness, \<open>||\<close>, property reads with and without
    optional chaining, object spread, template-literal conversion; the string methods
    \<open>toLowerCase\<close>, \<open>toUpperCase\<close>, \<open>includes\<close> (proved equal to \<open>Sublist.sublist\<close>)
    and \<open>trim\<close> on ASCII text.
  \<^item> \<open>Transport\<close>: requests, thrown errors (\<open>exn\<close>), \<open>error.response\<close>, the
    bearer header; the server is a function from requests to outcomes.
  \<^item> \<open>AuthStore\<close>: the store. State \<open>auth_state\<close> (lines 8--12), persisted
    projection \<open>persisted\<close> (\<open>partialize\<close>, lines 132--139), the world (state,
    transport credential, storage, requests sent), \<open>zset\<close> for every \<open>set\<close> (merge
    then persist), and each action cut at its \<open>await\<close>s into atomic segments:
    \<open>login_start\<close>/\<open>login_on_token\<close>/\<open>login_commit\<close>/\<open>login_catch\<close>,
    \<open>signup_start\<close>/\<open>signup_resume\<close>, \<open>initializeAuth_start\<close>/\<open>initializeAuth_resume\<close>,
    and the synchronous \<open>logout\<close>, \<open>updateUser\<close>, \<open>setError\<close>, \<open>clearError\<close>.
    \<open>login\<close>, \<open>signup\<close> and \<open>initializeAuth\<close> compose the segments with the
    server's answers. Lemmas: the outcome of every action on every branch, errors
    included; every action persists the projection; the round trip of persistence.
  \<^item> \<open>AuthConcurrency\<close>: the store under interleaving. A configuration is the world
    and the suspended continuations (\<open>task\<close>); \<open>cstep\<close> starts an action or
    resumes one with a response; \<open>reachable\<close> is the inductive set of
    configurations of any run with page reloads. Invariants by rule induction
    (loading only while a continuation is pending; a token only while authenticated;
    with them, as a strengthening, storage mirrors the state) and the
    stale-response runs the spec forbids.
  \<^item> \<open>SessionSpec\<close>: the spec's session contract as an abstract machine over
    \<open>Anonymous | Session token profile\<close>, and the refinement: every action sequence
    of the store, each run to completion, implements it under \<open>session_inv\<close>.
  \<^item> \<open>Guard\<close>: \<open>ProtectedRoute\<close> and \<open>App\<close>'s route table as a render function,
    and the render--effect cycle \<open>ui_step\<close>, in which \<open>App\<close>'s loading screen unmounts
    the guard and a remount calls \<open>initializeAuth\<close> again. \<open>ui_run\<close> takes a number
    of steps; the loop theorem holds for every number \<open>2 + 3 k\<close>, so no bound is
    chosen.
  \<^item> \<open>Chat\<close>: the chat page with its input, messages and header: the state record,
    every handler, the reply timers with their deadlines and the clock, the scripted
    responder, the views; the text area takes no
    input while a reply is pending, and the header menu's items have no handler.
    \<open>msg_wf\<close> is the shape
    of a message, kept by every event; \<open>chat_drain\<close>, a \<open>function\<close> terminating by the
    number of pending timers, lets the clock run until every reply has arrived.
  \<^item> \<open>Forms\<close>: the sign-up and password-reset pages: validation rules in
    react-hook-form's order, the email pattern (a non-backtracking matcher of the
    regular expression of line 130), the browser's own \<open>type="email"\<close> check
    (\<open>native_email_ok\<close>, the HTML grammar of a valid e-mail address), which blocks
    the submit event before react-hook-form sees it (the form has no
    \<open>noValidate\<close>), the password meter, the show-password toggles
    and the form's render, submission through the store's \<open>signup\<close> with \<open>App\<close>'s
    remount of the router.
  \<^item> \<open>Theme\<close>: the theme provider: initial theme, the effect on the root's classes,
    palette and localStorage (partial: \<open>classList.add\<close> throws), toggles, remounts.
  \<^item> \<open>Dashboard\<close>: symptom selection, the browser's check of the number input
    (\<open>sleep_native_ok\<close>: \<open>min="0" max="24" step="0.5"\<close>) and the form's rules, the simulated analysis with its
    timer, the result card, the recent submissions, the statistics tiles, the page's
    render.
  \<^item> \<open>Profile\<close>: the profile page: the edit form with its mount-time default values
    and the sign-up page's rules after the browser's \<open>type="email"\<close> check, the simulated save calling the store's
    \<open>updateUser\<close>, cancel, the uncontrolled language select, the views;
    \<open>profile_inv\<close> is kept by every event.
  \<^item> \<open>Layout\<close>: the header (user menu, sign-out through \<open>logout\<close>, composed with
    the guard's render--effect cycle) and the sidebar's links.
  \<^item> \<open>ProfileRace\<close>: the profile page inside the application, over one store: the
    page's events, the header's sign-out, the sidebar's links, the route table
    mounting and unmounting the page (\<open>pa_render\<close>), and the save's timer, which
    outlives an unmounted page as an orphaned timer still calling \<open>updateUser\<close>.
    A page load (\<open>app_load\<close>, App.js lines 16--31) renders the route, runs the mount
    effects of \<open>ProtectedRoute\<close> and \<open>App\<close> (\<open>guard_effects\<close>: two calls of
    \<open>initializeAuth\<close>'s synchronous part) and renders again. With a truthy token the
    store is then loading, \<open>App\<close>'s loading screen unmounts the router and the guard's
    cycle of C3 follows (\<open>app_reach_token\<close>); the page is usable only in an
    authenticated session without token, the stale session of C1 and C7, and the
    properties of this theory and of \<open>LayoutApp\<close> are stated for such sessions.
    \<open>app_reach\<close> is the inductive set of states reached from \<open>/profile\<close>; its
    invariant \<open>app_inv\<close> is proved by rule induction over \<open>app_step_inv\<close>, and
    \<open>orphans_fire\<close> shows that every orphaned save fires, in the order set.
  \<^item> \<open>LayoutApp\<close>: the protected part of the application as one system: the state of
    \<open>ProfileRace\<close> with the dashboard page (\<open>dash_page\<close>, its form's events
    \<open>dash_step\<close> from \<open>Dashboard\<close>) and its orphaned analyses; \<open>dash_render\<close> mounts and
    unmounts the dashboard after each commit, \<open>dash_flush\<close> hands its toasts to the
    global toaster. \<open>layout_inv\<close> is kept by every step (rule induction over
    \<open>layout_reach\<close>); pages are loaded with \<open>app_load\<close> as in \<open>ProfileRace\<close>. The
    chat page's timers only set the chat's own state, which React drops after unmount,
    so the chat page is not part of this system.

  Runs over events (\<open>run\<close>, \<open>chat_run\<close>, \<open>theme_run\<close>, \<open>profile_run\<close>,
  \<open>app_run\<close>, \<open>dash_run\<close>, \<open>layout_run\<close>) take the event list as their
  measure and need no fuel; \<open>cstep\<close>, \<open>chat_step\<close> and \<open>theme_step\<close> return
  \<open>None\<close> for an event that cannot happen in a state.

  \<^bold>\<open>What is shown.\<close> The claims, in order: the stale-response defects of the
  store (a logout undone by a late \<open>/me\<close> answer, C1, C2, and its persistence
  across reloads); the identity-request loop of the guard (C3) and the guard's
  safety (C4); the store's invariants under interleaving (C5, C6) and the stale
  session's survival across reloads (C7); a profile save racing a sign-out, which
  writes the signed-out user's profile into storage (C8) but never signs the user
  back in (C9); an analysis left before its timer fires, which reports success
  while its result is lost (C10); the composed application's invariant (C11); the
  refinement of the contract (C12); the store's actions on every branch, errors
  included (C13--C18); the chat page's timer defects (C19, C20, C22), invariant
  (C21), message typing (C33) and the arrival of every reply (C34); the sign-up
  page's submission after both email checks and its reset on failure (C23, C24)
  and the password meter (C25); the theme's persistence and invalid stored
  themes (C26, C27); the dashboard's selection invariant and fixed result (C28,
  C29); the header's sign-out leading to the login page (C30); the profile page's
  stale defaults and ignored language (C31, C32); profile edits lost on
  restoration (C35).

  \<^bold>\<open>Plan.\<close> Done: the store, its interleavings and contract, the guard, the chat
  page, the forms, the theme provider, the dashboard with its tiles, the profile
  page, the header and the sidebar, the profile page's save racing the header's
  sign-out and the sidebar's links, the dashboard composed with them. A sign-up cannot race a restoration: while either
  request is in flight the store is loading and \<open>App\<close> shows its loading screen in
  place of the router (\<open>Guard.app_screen\<close>), so no page can start the other. To do:
  the render of the sign-up button under react-hook-form's \<open>isSubmitting\<close>, which
  \<open>signup_view\<close> takes as a parameter because React's batching decides whether that
  state is ever painted.

  \<^bold>\<open>Not modelled.\<close> JSX markup, styling and icons; React's scheduling of effects
  (an effect is modelled as the call it makes, in the order React runs them); the
  zustand subscription mechanism (readers read the state); DOM effects without
  state (scrolling, text-area height); \<open>FormData\<close> encoding; floating-point
  rounding of the dashboard's percentages (confidence scores are rationals);
  non-ASCII text in the string methods; the locale-dependent date text of
  \<open>toLocaleDateString\<close> (a parameter of the views that show dates); the header's
  mobile menu button (no handler); the
  Login page, \<open>Layout\<close>, \<open>LoadingSpinner\<close> and \<open>services/api.js\<close>, which the
  sources import but do not contain (the transport is modelled from the spec);
  the \<open>JSON.stringify\<close>/\<open>JSON.parse\<close> round trip of \<open>persist\<close> (a property
  whose value is \<open>undefined\<close> is dropped and reads back as absent; \<open>hydrate\<close>
  reads the stored projection as written); the answers to \<open>/me\<close> in the composed
  applications of \<open>ProfileRace\<close> and \<open>LayoutApp\<close>, whose loads with a truthy token
  only reach the loading screen there.
\<close>

end
